theory Spec2Isabelle
  imports Main
begin

section \<open>The training orchestrator of master\_component.cc\<close>

text \<open>
  A shallow embedding of \<^verbatim>\<open>src/artm/core/master_component.cc\<close>: the model export and
  import, \<^verbatim>\<open>RequestProcessBatchesImpl\<close>, the algebra operations on named matrices, the
  batch iterators and \<^verbatim>\<open>ArtmExecutor\<close>.

  Conventions.
  \<^item> Every \<^verbatim>\<open>float\<close> and \<^verbatim>\<open>double\<close> (matrix cells, batch weights, apply and decay weights,
    regularizer coefficients) is a value of one type variable \<open>'f\<close>: this file only
    copies such values, the arithmetic on them lives in the numerical kernels.
  \<^item> A C++ exception is the result \<open>Raised e\<close>; the state returned with it is the state at
    the \<^verbatim>\<open>throw\<close>.
  \<^item> A polling loop that would spin forever is the result \<open>Hangs\<close>.
\<close>

subsection \<open>Errors and results\<close>

text \<open>
  The exception classes thrown in the file, \<open>MissingModel\<close> for a failed lookup in the matrix
  registry, and three outcomes the C++ leaves to the run time: \<open>IndexOutOfRange\<close> is a
  \<^verbatim>\<open>RepeatedField::Get\<close> outside \<open>[0, size)\<close> (a failed \<^verbatim>\<open>GOOGLE_DCHECK\<close>),
  \<open>DivisionByZero\<close> is an integer division by zero, \<open>UninitialisedRead\<close> is the use of
  a local variable that a failed stream extraction left unassigned, and \<open>NullDereference\<close>
  is a member access through a null \<^verbatim>\<open>instance_->config()\<close>.
\<close>

datatype error =
    InvalidOperation
  | CorruptedMessage
  | DiskRead
  | DiskWrite
  | MissingModel
  | IndexOutOfRange
  | DivisionByZero
  | UninitialisedRead
  | NullDereference

datatype 'a result = Ok 'a | Raised error | Hangs

text \<open>Sequencing: the second statement runs only when the first returned.\<close>

definition bind :: "'a result \<times> 's \<Rightarrow> ('a \<Rightarrow> 's \<Rightarrow> 'b result \<times> 's) \<Rightarrow> 'b result \<times> 's" where
  "bind r f =
     (case r of
        (Ok a, s) \<Rightarrow> f a s
      | (Raised e, s) \<Rightarrow> (Raised e, s)
      | (Hangs, s) \<Rightarrow> (Hangs, s))"

lemma bind_cong [fundef_cong]:
  "r = r' \<Longrightarrow> (\<And>a s. r' = (Ok a, s) \<Longrightarrow> f a s = f' a s) \<Longrightarrow> bind r f = bind r' f'"
  by (auto simp: bind_def split: prod.splits result.splits)

subsection \<open>Repeated fields and integer conversions\<close>

text \<open>\<^verbatim>\<open>RepeatedField<T>::Get(int index)\<close>: defined for \<open>0 \<le> index < size\<close> only.\<close>

definition Get :: "'a list \<Rightarrow> int \<Rightarrow> error + 'a" where
  "Get xs index =
     (if 0 \<le> index \<and> index < int (length xs) then Inr (xs ! nat index)
      else Inl IndexOutOfRange)"

text \<open>An \<^verbatim>\<open>int\<close> read into an \<^verbatim>\<open>unsigned\<close>, and an \<^verbatim>\<open>unsigned\<close> passed as an \<^verbatim>\<open>int\<close>
  (both 32 bits wide).\<close>

definition int_to_unsigned :: "int \<Rightarrow> nat" where
  "int_to_unsigned v = nat (v mod 2 ^ 32)"

definition unsigned_to_int :: "nat \<Rightarrow> int" where
  "unsigned_to_int n = (if n < 2 ^ 31 then int n else int n - 2 ^ 32)"

subsection \<open>Messages\<close>

datatype ThetaMatrixType = TMT_None | TMT_Dense | TMT_Sparse | TMT_Cache | TMT_DensePtdw | TMT_SparsePtdw

datatype MatrixLayout = Layout_Dense | Layout_Sparse

text \<open>An inline batch; this file never looks inside one.\<close>

record Batch =
  batch_id :: string

text \<open>
  \<^verbatim>\<open>ProcessBatchesArgs\<close>. An optional field whose presence the code tests is an \<open>option\<close>
  (\<^verbatim>\<open>has_nwt_target_name\<close>); \<^verbatim>\<open>theta_matrix_type\<close> is read through its getter and tested
  with \<^verbatim>\<open>has_theta_matrix_type\<close>, so it is the getter's value and the presence bit.
\<close>

record 'f ProcessBatchesArgs =
  pwt_source_name :: string
  nwt_target_name :: "string option"
  batch_filename :: "string list"
  batch_weight :: "'f list"
  batch :: "Batch list"
  pba_topic_name :: "string list"
  theta_matrix_type :: ThetaMatrixType
  has_theta_matrix_type :: bool
  pba_reuse_theta :: "bool option"
  pba_inner_iterations_count :: "int option"
  pba_class_id :: "string list"
  pba_class_weight :: "'f list"
  pba_regularizer_name :: "string list"
  pba_regularizer_tau :: "'f list"
  pba_opt_for_avx :: "bool option"

subsection \<open>Batch iterators\<close>

record 'f OfflineBatchesIterator =
  off_batch_filename :: "string list"
  off_batch_weight :: "'f list"

definition offline_move ::
  "'f OfflineBatchesIterator \<Rightarrow> 'f ProcessBatchesArgs \<Rightarrow> 'f ProcessBatchesArgs" where
  "offline_move iter args =
     args\<lparr>batch_filename := off_batch_filename iter, batch_weight := off_batch_weight iter\<rparr>"

text \<open>
  \<^verbatim>\<open>OnlineBatchesIterator\<close>. A member \<^verbatim>\<open>x_\<close> of the class is the field \<open>it_x\<close>. \<^verbatim>\<open>current_\<close> is an \<^verbatim>\<open>unsigned\<close> that only grows by one while it is
  below the size of \<^verbatim>\<open>update_after_\<close> (an \<^verbatim>\<open>int\<close>), so it never wraps and is a \<open>nat\<close> here.
\<close>

record 'f OnlineBatchesIterator =
  it_batch_filename :: "string list"
  it_batch_weight :: "'f list"
  it_update_after :: "int list"
  it_apply_weight :: "'f list"
  it_decay_weight :: "'f list"
  it_current :: nat

definition new_OnlineBatchesIterator ::
  "string list \<Rightarrow> 'f list \<Rightarrow> int list \<Rightarrow> 'f list \<Rightarrow> 'f list \<Rightarrow> 'f OnlineBatchesIterator" where
  "new_OnlineBatchesIterator fn bw ua aw dw =
     \<lparr>it_batch_filename = fn, it_batch_weight = bw, it_update_after = ua,
      it_apply_weight = aw, it_decay_weight = dw, it_current = 0\<rparr>"

definition iter_more :: "'f OnlineBatchesIterator \<Rightarrow> bool" where
  "iter_more iter \<longleftrightarrow> it_current iter < length (it_update_after iter)"

text \<open>The \<^verbatim>\<open>for (unsigned i = first; i < last; ++i)\<close> loop of \<^verbatim>\<open>move\<close>.
  (\<^verbatim>\<open>more()\<close> is \<open>iter_more\<close> above: every record has a field of the former name.)\<close>

function move_loop ::
  "'f OnlineBatchesIterator \<Rightarrow> nat \<Rightarrow> nat \<Rightarrow> 'f ProcessBatchesArgs \<Rightarrow> error + 'f ProcessBatchesArgs" where
  "move_loop iter i last_i args =
     (if i < last_i then
        (case Get (it_batch_filename iter) (unsigned_to_int i) of
           Inl e \<Rightarrow> Inl e
         | Inr f \<Rightarrow>
             (case Get (it_batch_weight iter) (unsigned_to_int i) of
                Inl e \<Rightarrow> Inl e
              | Inr w \<Rightarrow>
                  move_loop iter (i + 1) last_i
                    (args\<lparr>batch_filename := batch_filename args @ [f],
                          batch_weight := batch_weight args @ [w]\<rparr>)))
      else Inr args)"
  by pat_completeness auto
termination
  by (relation "measure (\<lambda>(iter, i, last_i, args). last_i - i)") auto

declare move_loop.simps [simp del]

definition move ::
  "'f OnlineBatchesIterator \<Rightarrow> 'f ProcessBatchesArgs \<Rightarrow>
     error + ('f OnlineBatchesIterator \<times> 'f ProcessBatchesArgs)" where
  "move iter args0 =
     (let args = args0\<lparr>batch_filename := [], batch_weight := []\<rparr> in
      if int (length (it_update_after iter)) \<le> int (it_current iter) then Inr (iter, args)
      else
        (case (if it_current iter = 0 then Inr 0
               else Get (it_update_after iter) (int (it_current iter) - 1)) of
           Inl e \<Rightarrow> Inl e
         | Inr first_v \<Rightarrow>
             (case Get (it_update_after iter) (int (it_current iter)) of
                Inl e \<Rightarrow> Inl e
              | Inr last_v \<Rightarrow>
                  (case move_loop iter (int_to_unsigned first_v) (int_to_unsigned last_v) args of
                     Inl e \<Rightarrow> Inl e
                   | Inr args' \<Rightarrow> Inr (iter\<lparr>it_current := it_current iter + 1\<rparr>, args')))))"

definition apply_weight :: "'f OnlineBatchesIterator \<Rightarrow> int \<Rightarrow> error + 'f" where
  "apply_weight iter index = Get (it_apply_weight iter) index"

definition decay_weight :: "'f OnlineBatchesIterator \<Rightarrow> int \<Rightarrow> error + 'f" where
  "decay_weight iter index = Get (it_decay_weight iter) index"

definition apply_weight_current :: "'f OnlineBatchesIterator \<Rightarrow> error + 'f" where
  "apply_weight_current iter = Get (it_apply_weight iter) (int (it_current iter))"

definition decay_weight_current :: "'f OnlineBatchesIterator \<Rightarrow> error + 'f" where
  "decay_weight_current iter = Get (it_decay_weight iter) (int (it_current iter))"

definition reset :: "'f OnlineBatchesIterator \<Rightarrow> 'f OnlineBatchesIterator" where
  "reset iter = iter\<lparr>it_current := 0\<rparr>"


subsection \<open>Matrices\<close>

record Token =
  keyword :: string
  class_id :: string

text \<open>
  Modelled from the spec: \<^verbatim>\<open>PhiMatrix\<close> and \<^verbatim>\<open>DensePhiMatrix\<close> (dense\_phi\_matrix.h is not
  part of the sources). A matrix has a name, ordered topic names, ordered tokens and one row
  of cells per token. The constructor \<^verbatim>\<open>DensePhiMatrix(name, topic_name)\<close> makes a matrix
  without tokens; \<^verbatim>\<open>Reshape\<close> copies the token axis of another matrix and zeroes the cells.
\<close>

record 'f PhiMatrix =
  phi_model_name :: string
  phi_topic_name :: "string list"
  phi_token :: "Token list"
  phi_cells :: "'f list list"

definition topic_size :: "'f PhiMatrix \<Rightarrow> int" where
  "topic_size m = int (length (phi_topic_name m))"

definition token_size :: "'f PhiMatrix \<Rightarrow> int" where
  "token_size m = int (length (phi_token m))"

definition DensePhiMatrix :: "string \<Rightarrow> string list \<Rightarrow> 'f PhiMatrix" where
  "DensePhiMatrix name topics =
     \<lparr>phi_model_name = name, phi_topic_name = topics, phi_token = [], phi_cells = []\<rparr>"

definition Reshape :: "'f::zero PhiMatrix \<Rightarrow> 'f PhiMatrix \<Rightarrow> 'f PhiMatrix" where
  "Reshape m src =
     m\<lparr>phi_token := phi_token src,
       phi_cells := replicate (length (phi_token src)) (replicate (length (phi_topic_name m)) 0)\<rparr>"

text \<open>The external representation \<^verbatim>\<open>::artm::TopicModel\<close> and its request.\<close>

record 'f TopicModel =
  tm_name :: string
  tm_topic_name :: "string list"
  tm_token :: "string list"
  tm_class_id :: "string list"
  tm_token_weights :: "'f list list"

datatype RequestType = RequestType_Pwt | RequestType_Nwt

record GetTopicModelArgs =
  gtm_model_name :: "string option"
  gtm_request_type :: "RequestType option"
  gtm_matrix_layout :: "MatrixLayout option"
  gtm_token :: "string list"
  gtm_class_id :: "string list"

definition new_GetTopicModelArgs :: GetTopicModelArgs where
  "new_GetTopicModelArgs =
     \<lparr>gtm_model_name = None, gtm_request_type = None, gtm_matrix_layout = None,
      gtm_token = [], gtm_class_id = []\<rparr>"

record 'f RegularizerSettings =
  rs_name :: string
  rs_tau :: 'f
  rs_use_relative_regularization :: bool

text \<open>
  The collaborators this file calls and does not define (a default-constructed
  \<^verbatim>\<open>ProcessBatchesArgs\<close>, \<^verbatim>\<open>PhiMatrixOperations\<close>, protobuf parsing and serialisation,
  \<^verbatim>\<open>ScoreManager::RequestScore\<close>) are the fields of one record; every definition below that calls one takes the record as its first argument.
\<close>

record ('f, 'sd) kernels =
  default_ProcessBatchesArgs :: "'f ProcessBatchesArgs"
  RetrieveExternalTopicModel :: "'f PhiMatrix \<Rightarrow> GetTopicModelArgs \<Rightarrow> 'f TopicModel"
  ApplyTopicModelOperation :: "'f TopicModel \<Rightarrow> 'f \<Rightarrow> 'f PhiMatrix \<Rightarrow> 'f PhiMatrix"
  InvokePhiRegularizers ::
    "'f RegularizerSettings list \<Rightarrow> 'f PhiMatrix \<Rightarrow> 'f PhiMatrix \<Rightarrow> 'f PhiMatrix \<Rightarrow> 'f PhiMatrix"
  FindPwt :: "'f PhiMatrix \<Rightarrow> 'f PhiMatrix \<Rightarrow> 'f PhiMatrix"
  FindPwt_rwt :: "'f PhiMatrix \<Rightarrow> 'f PhiMatrix \<Rightarrow> 'f PhiMatrix \<Rightarrow> 'f PhiMatrix"
  ParseFromArray :: "string \<Rightarrow> 'f TopicModel option"
  SerializeAsString :: "'f TopicModel \<Rightarrow> string"
  RequestScore :: "nat list \<Rightarrow> string \<Rightarrow> 'sd"

subsection \<open>The instance: registry, queue, batch managers, workers\<close>

datatype cache_ref = InstanceCache | LocalCache nat

record 'f ProcessorInput =
  pi_task_id :: nat
  pi_batch_manager :: nat
  pi_score_manager :: "nat option"
  pi_cache_manager :: "cache_ref option"
  pi_ptdw_cache_manager :: "cache_ref option"
  pi_model_name :: string
  pi_args :: "'f ProcessBatchesArgs"
  pi_reuse_theta_cache_manager :: "cache_ref option"
  pi_nwt_target_name :: "string option"
  pi_batch_filename :: "string option"
  pi_batch :: "Batch option"
  pi_batch_weight :: "'f option"

record 'f RegularizerConfig =
  rc_name :: string
  rc_tau :: 'f

record 'f MasterModelConfig =
  pwt_name :: string
  nwt_name :: string
  cfg_topic_name :: "string list"
  cfg_class_id :: "string list"
  cfg_class_weight :: "'f list"
  regularizer_config :: "'f RegularizerConfig list"
  score_config :: "string list"
  cfg_inner_iterations_count :: "int option"
  cache_theta :: bool
  cfg_opt_for_avx :: "bool option"
  cfg_reuse_theta :: "bool option"

record 'f MergeModelArgs =
  mm_nwt_source_name :: "string list"
  mm_source_weight :: "'f list"
  mm_nwt_target_name :: string
  mm_topic_name :: "string list"

record 'f RegularizeModelArgs =
  rm_pwt_source_name :: "string option"
  rm_nwt_source_name :: "string option"
  rm_rwt_target_name :: "string option"
  rm_regularizer_settings :: "'f RegularizerSettings list"

record NormalizeModelArgs =
  nm_pwt_target_name :: "string option"
  nm_nwt_source_name :: "string option"
  nm_rwt_source_name :: "string option"

text \<open>
  The history is a ghost variable: the calls the executor makes on the master component
  (\<open>Call_\<close>) and the effects on the instance (\<open>Ev_\<close>), in program order. No definition reads it.
\<close>

datatype 'f event =
    Call_ClearScoreCache
  | Call_ProcessBatches string "string option" "string list" "'f list" bool nat "nat option"
  | Call_MergeModel "'f MergeModelArgs"
  | Call_RegularizeModel "'f RegularizeModelArgs"
  | Call_NormalizeModel NormalizeModelArgs
  | Call_DisposeModel string
  | Call_StoreScores nat
  | Ev_SetPhiMatrix string "'f PhiMatrix"
  | Ev_Push nat
  | Ev_Poll nat bool
  | Ev_RequestThetaMatrix "MatrixLayout option"
  | Ev_Warning_ModelDoesNotExist string

text \<open>
  The state the master component works on.
  \<^item> Modelled from the spec: the matrix registry of \<^verbatim>\<open>Instance\<close> (\<open>models\<close>, with \<^verbatim>\<open>get\<close>,
    \<^verbatim>\<open>get_or_fail\<close>, \<^verbatim>\<open>set\<close> and \<^verbatim>\<open>dispose\<close>), the processor queue, and \<^verbatim>\<open>BatchManager\<close>
    (a set of outstanding task ids with \<^verbatim>\<open>Add\<close>, \<^verbatim>\<open>Remove\<close> and \<^verbatim>\<open>IsEverythingProcessed\<close>);
    instance.h and batch\_manager.h are not part of the sources.
  \<^item> A \<^verbatim>\<open>BatchManager\<close> or \<^verbatim>\<open>ScoreManager\<close> object is an address; \<open>next_addr\<close> is the next
    unused one. A task id (a random uuid in the code) is the next unused number.
  \<^item> A score manager's content is the list of the tasks that reported to it.
  \<^item> \<open>workers\<close> is what the processor threads will do: its \<open>k\<close>-th element lists the tasks
    they complete during the \<open>k\<close>-th sleep of the orchestrator. When it is exhausted the
    workers complete nothing more.
  \<^item> \<open>files\<close> is the file system; \<open>can_create\<close> says whether a file can be opened for writing.
\<close>

record ('f, 'sd) world =
  models :: "string \<rightharpoonup> 'f PhiMatrix"
  processor_size :: int
  processor_queue :: "'f ProcessorInput list"
  config :: "'f MasterModelConfig option"
  batch_managers :: "nat \<Rightarrow> nat set"
  score_managers :: "nat \<Rightarrow> nat list"
  instance_score_manager :: "nat list"
  score_tracker :: "'sd list"
  next_addr :: nat
  next_task_id :: nat
  workers :: "nat list list"
  files :: "string \<rightharpoonup> string"
  can_create :: "string \<Rightarrow> bool"
  history :: "'f event list"

definition record_event :: "'f event \<Rightarrow> ('f, 'sd) world \<Rightarrow> ('f, 'sd) world" where
  "record_event ev w = w\<lparr>history := history w @ [ev]\<rparr>"

definition GetPhiMatrix :: "string \<Rightarrow> ('f, 'sd) world \<Rightarrow> 'f PhiMatrix option" where
  "GetPhiMatrix name w = models w name"

definition GetPhiMatrixSafe :: "string \<Rightarrow> ('f, 'sd) world \<Rightarrow> error + 'f PhiMatrix" where
  "GetPhiMatrixSafe name w =
     (case models w name of None \<Rightarrow> Inl MissingModel | Some m \<Rightarrow> Inr m)"

definition SetPhiMatrix :: "string \<Rightarrow> 'f PhiMatrix \<Rightarrow> ('f, 'sd) world \<Rightarrow> ('f, 'sd) world" where
  "SetPhiMatrix name m w =
     record_event (Ev_SetPhiMatrix name m) (w\<lparr>models := (models w)(name \<mapsto> m)\<rparr>)"

definition DisposeModel :: "string \<Rightarrow> ('f, 'sd) world \<Rightarrow> ('f, 'sd) world" where
  "DisposeModel name w =
     (record_event (Call_DisposeModel name) w)\<lparr>models := (models w)(name := None)\<rparr>"

definition ClearScoreCache :: "('f, 'sd) world \<Rightarrow> ('f, 'sd) world" where
  "ClearScoreCache w = (record_event Call_ClearScoreCache w)\<lparr>instance_score_manager := []\<rparr>"

definition new_object :: "('f, 'sd) world \<Rightarrow> nat \<times> ('f, 'sd) world" where
  "new_object w =
     (next_addr w,
      w\<lparr>next_addr := next_addr w + 1,
        batch_managers := (batch_managers w)(next_addr w := {}),
        score_managers := (score_managers w)(next_addr w := [])\<rparr>)"

definition IsEverythingProcessed :: "nat \<Rightarrow> ('f, 'sd) world \<Rightarrow> bool" where
  "IsEverythingProcessed bm w \<longleftrightarrow> batch_managers w bm = {}"

text \<open>
  A worker finishes a task: the input leaves the queue, the task reports to the score manager
  of its input (when it has one) and is removed from the batch manager of its input. What
  the worker adds to the target matrix and to the caches is the processor's business and is
  not modelled.
\<close>

definition complete_task :: "nat \<Rightarrow> ('f, 'sd) world \<Rightarrow> ('f, 'sd) world" where
  "complete_task t w =
     (case find (\<lambda>p. pi_task_id p = t) (processor_queue w) of
        None \<Rightarrow> w
      | Some p \<Rightarrow>
          w\<lparr>processor_queue := filter (\<lambda>q. pi_task_id q \<noteq> t) (processor_queue w),
            score_managers :=
              (case pi_score_manager p of
                 None \<Rightarrow> score_managers w
               | Some a \<Rightarrow> (score_managers w)(a := score_managers w a @ [t])),
            batch_managers :=
              (batch_managers w)(pi_batch_manager p := batch_managers w (pi_batch_manager p) - {t})\<rparr>)"

text \<open>\<^verbatim>\<open>boost::this_thread::sleep\<close>: the workers run; \<open>None\<close> when they have nothing left to do.\<close>

definition sleep :: "('f, 'sd) world \<Rightarrow> ('f, 'sd) world option" where
  "sleep w =
     (case workers w of
        [] \<Rightarrow> None
      | done # rest \<Rightarrow> Some (fold complete_task done (w\<lparr>workers := rest\<rparr>)))"


subsection \<open>RequestProcessBatchesImpl\<close>

definition push :: "'f ProcessorInput \<Rightarrow> ('f, 'sd) world \<Rightarrow> ('f, 'sd) world" where
  "push p w = record_event (Ev_Push (pi_task_id p)) (w\<lparr>processor_queue := processor_queue w @ [p]\<rparr>)"

text \<open>The lambda \<^verbatim>\<open>createProcessorInput\<close>, with what it captures as arguments.\<close>

definition createProcessorInput ::
  "'f ProcessBatchesArgs \<Rightarrow> nat \<Rightarrow> nat option \<Rightarrow> cache_ref option \<Rightarrow> cache_ref option \<Rightarrow> string \<Rightarrow>
     ('f, 'sd) world \<Rightarrow> 'f ProcessorInput \<times> ('f, 'sd) world" where
  "createProcessorInput args batch_manager score_manager theta_cache_manager_ptr
       ptdw_cache_manager_ptr model_name w =
     (let task_id = next_task_id w in
      (\<lparr>pi_task_id = task_id,
        pi_batch_manager = batch_manager,
        pi_score_manager = score_manager,
        pi_cache_manager = theta_cache_manager_ptr,
        pi_ptdw_cache_manager = ptdw_cache_manager_ptr,
        pi_model_name = model_name,
        pi_args = args,
        pi_reuse_theta_cache_manager =
          (if pba_reuse_theta args = Some True then Some InstanceCache else None),
        pi_nwt_target_name = nwt_target_name args,
        pi_batch_filename = None,
        pi_batch = None,
        pi_batch_weight = None\<rparr>,
       w\<lparr>next_task_id := task_id + 1,
         batch_managers :=
           (batch_managers w)(batch_manager := insert task_id (batch_managers w batch_manager))\<rparr>))"

text \<open>The two enqueue loops.\<close>

function enqueue_batch_filename ::
  "'f ProcessBatchesArgs \<Rightarrow> nat \<Rightarrow> nat option \<Rightarrow> cache_ref option \<Rightarrow> cache_ref option \<Rightarrow> string \<Rightarrow>
     nat \<Rightarrow> ('f, 'sd) world \<Rightarrow> unit result \<times> ('f, 'sd) world" where
  "enqueue_batch_filename args bm sm tc pc model_name batch_index w =
     (if batch_index < length (batch_filename args) then
        (case createProcessorInput args bm sm tc pc model_name w of
           (p, w1) \<Rightarrow>
             (case Get (batch_filename args) (int batch_index) of
                Inl e \<Rightarrow> (Raised e, w1)
              | Inr f \<Rightarrow>
                  (case Get (batch_weight args) (int batch_index) of
                     Inl e \<Rightarrow> (Raised e, w1)
                   | Inr bw \<Rightarrow>
                       enqueue_batch_filename args bm sm tc pc model_name (batch_index + 1)
                         (push (p\<lparr>pi_batch_filename := Some f, pi_batch_weight := Some bw\<rparr>) w1))))
      else (Ok (), w))"
  by pat_completeness auto
termination
  by (relation "measure (\<lambda>(args, bm, sm, tc, pc, mn, i, w). length (batch_filename args) - i)") auto

declare enqueue_batch_filename.simps [simp del]

function enqueue_batch ::
  "'f ProcessBatchesArgs \<Rightarrow> nat \<Rightarrow> nat option \<Rightarrow> cache_ref option \<Rightarrow> cache_ref option \<Rightarrow> string \<Rightarrow>
     nat \<Rightarrow> ('f, 'sd) world \<Rightarrow> unit result \<times> ('f, 'sd) world" where
  "enqueue_batch args bm sm tc pc model_name batch_index w =
     (if batch_index < length (batch args) then
        (case createProcessorInput args bm sm tc pc model_name w of
           (p, w1) \<Rightarrow>
             (case Get (batch args) (int batch_index) of
                Inl e \<Rightarrow> (Raised e, w1)
              | Inr b \<Rightarrow>
                  (case Get (batch_weight args) (int batch_index) of
                     Inl e \<Rightarrow> (Raised e, w1)
                   | Inr bw \<Rightarrow>
                       enqueue_batch args bm sm tc pc model_name (batch_index + 1)
                         (push (p\<lparr>pi_batch := Some b, pi_batch_weight := Some bw\<rparr>) w1))))
      else (Ok (), w))"
  by pat_completeness auto
termination
  by (relation "measure (\<lambda>(args, bm, sm, tc, pc, mn, i, w). length (batch args) - i)") auto

declare enqueue_batch.simps [simp del]

text \<open>
  The polling loop \<^verbatim>\<open>while (!batch_manager->IsEverythingProcessed()) sleep(kIdleLoopFrequency)\<close>.
\<close>

lemma workers_fold_complete_task:
  "workers (fold complete_task ts w) = workers w"
  by (induction ts arbitrary: w) (auto simp: complete_task_def split: option.splits)

lemma sleep_workers_shorter:
  "sleep w = Some w' \<Longrightarrow> length (workers w') < length (workers w)"
  by (auto simp: sleep_def workers_fold_complete_task split: list.splits)

function wait_until_processed ::
  "nat \<Rightarrow> ('f, 'sd) world \<Rightarrow> unit result \<times> ('f, 'sd) world" where
  "wait_until_processed bm w =
     (if IsEverythingProcessed bm w then (Ok (), record_event (Ev_Poll bm True) w)
      else
        (case sleep (record_event (Ev_Poll bm False) w) of
           None \<Rightarrow> (Hangs, record_event (Ev_Poll bm False) w)
         | Some w' \<Rightarrow> wait_until_processed bm w'))"
  by pat_completeness auto
termination
  by (relation "measure (\<lambda>(bm, w). length (workers w))")
     (auto dest!: sleep_workers_shorter simp: record_event_def)

declare wait_until_processed.simps [simp del]

definition theta_cache_manager_ptr_of ::
  "'f ProcessBatchesArgs \<Rightarrow> ('f, 'sd) world \<Rightarrow> error + cache_ref option" where
  "theta_cache_manager_ptr_of args w =
     (case theta_matrix_type args of
        TMT_Cache \<Rightarrow>
          (case config w of
             None \<Rightarrow> Inl NullDereference
           | Some c \<Rightarrow> Inr (if cache_theta c then Some InstanceCache else None))
      | TMT_Dense \<Rightarrow> Inr (Some (LocalCache 0))
      | TMT_Sparse \<Rightarrow> Inr (Some (LocalCache 0))
      | _ \<Rightarrow> Inr None)"

definition ptdw_cache_manager_ptr_of :: "'f ProcessBatchesArgs \<Rightarrow> cache_ref option" where
  "ptdw_cache_manager_ptr_of args =
     (case theta_matrix_type args of
        TMT_DensePtdw \<Rightarrow> Some (LocalCache 0)
      | TMT_SparsePtdw \<Rightarrow> Some (LocalCache 0)
      | _ \<Rightarrow> None)"

definition theta_layout_of :: "'f ProcessBatchesArgs \<Rightarrow> MatrixLayout option" where
  "theta_layout_of args =
     (case theta_matrix_type args of
        TMT_Dense \<Rightarrow> Some Layout_Dense
      | TMT_DensePtdw \<Rightarrow> Some Layout_Dense
      | TMT_Sparse \<Rightarrow> Some Layout_Sparse
      | TMT_SparsePtdw \<Rightarrow> Some Layout_Sparse
      | _ \<Rightarrow> None)"

text \<open>
  \<^verbatim>\<open>RequestProcessBatchesImpl(args, batch_manager, async, score_manager, theta_matrix)\<close>, in
  the order of the source: the block \<^verbatim>\<open>if (args.has_nwt_target_name())\<close>, the two enqueue
  loops, and the part after \<^verbatim>\<open>if (async) return\<close>.
  \<open>theta_matrix\<close> says whether the pointer is non-null. The function writes the topic names
  into the caller's \<open>args\<close>, so it returns them. \<open>LocalCache 0\<close> is the \<^verbatim>\<open>CacheManager\<close> on the
  stack of the call.
\<close>

definition install_nwt_target ::
  "'f::zero ProcessBatchesArgs \<Rightarrow> 'f PhiMatrix \<Rightarrow> ('f, 'sd) world \<Rightarrow> unit result \<times> ('f, 'sd) world" where
  "install_nwt_target args p_wt w =
     (case nwt_target_name args of
        None \<Rightarrow> (Ok (), w)
      | Some target \<Rightarrow>
          if target = pwt_source_name args then (Raised InvalidOperation, w)
          else
            (Ok (),
             SetPhiMatrix target (Reshape (DensePhiMatrix target (phi_topic_name p_wt)) p_wt) w))"

definition enqueue_tasks ::
  "'f ProcessBatchesArgs \<Rightarrow> nat \<Rightarrow> nat option \<Rightarrow> cache_ref option \<Rightarrow> cache_ref option \<Rightarrow> string \<Rightarrow>
     ('f, 'sd) world \<Rightarrow> unit result \<times> ('f, 'sd) world" where
  "enqueue_tasks args batch_manager score_manager theta_cache_manager_ptr ptdw_cache_manager_ptr
       model_name w =
     bind
       (enqueue_batch_filename args batch_manager score_manager theta_cache_manager_ptr
          ptdw_cache_manager_ptr model_name 0 w)
       (\<lambda>_ w2.
          enqueue_batch args batch_manager score_manager theta_cache_manager_ptr
            ptdw_cache_manager_ptr model_name 0 w2)"

definition wait_and_request_theta ::
  "'f ProcessBatchesArgs \<Rightarrow> nat \<Rightarrow> bool \<Rightarrow> ('f, 'sd) world \<Rightarrow>
     'f ProcessBatchesArgs result \<times> ('f, 'sd) world" where
  "wait_and_request_theta args batch_manager theta_matrix w =
     bind (wait_until_processed batch_manager w)
       (\<lambda>_ w4.
          if theta_matrix \<and> has_theta_matrix_type args then
            (Ok args, record_event (Ev_RequestThetaMatrix (theta_layout_of args)) w4)
          else (Ok args, w4))"

definition RequestProcessBatchesImpl ::
  "'f::zero ProcessBatchesArgs \<Rightarrow> nat \<Rightarrow> bool \<Rightarrow> nat option \<Rightarrow> bool \<Rightarrow> ('f, 'sd) world \<Rightarrow>
     'f ProcessBatchesArgs result \<times> ('f, 'sd) world" where
  "RequestProcessBatchesImpl process_batches_args batch_manager async score_manager theta_matrix w0 =
     (let w = record_event
                (Call_ProcessBatches (pwt_source_name process_batches_args)
                   (nwt_target_name process_batches_args) (batch_filename process_batches_args)
                   (batch_weight process_batches_args) async batch_manager score_manager) w0;
          model_name = pwt_source_name process_batches_args
      in
      if processor_size w \<le> 0 then (Raised InvalidOperation, w)
      else
        (case GetPhiMatrixSafe model_name w of
           Inl e \<Rightarrow> (Raised e, w)
         | Inr p_wt \<Rightarrow>
             (let args = process_batches_args\<lparr>pba_topic_name := phi_topic_name p_wt\<rparr> in
              bind (install_nwt_target args p_wt w)
                (\<lambda>_ w1.
                   if async \<and> theta_matrix_type args \<noteq> TMT_None then (Raised InvalidOperation, w1)
                   else
                     (case theta_cache_manager_ptr_of args w1 of
                        Inl e \<Rightarrow> (Raised e, w1)
                      | Inr theta_cache_manager_ptr \<Rightarrow>
                          bind
                            (enqueue_tasks args batch_manager score_manager theta_cache_manager_ptr
                               (ptdw_cache_manager_ptr_of args) model_name w1)
                            (\<lambda>_ w3.
                               if async then (Ok args, w3)
                               else wait_and_request_theta args batch_manager theta_matrix w3))))))"

definition AsyncRequestProcessBatches ::
  "'f::zero ProcessBatchesArgs \<Rightarrow> nat \<Rightarrow> ('f, 'sd) world \<Rightarrow>
     'f ProcessBatchesArgs result \<times> ('f, 'sd) world" where
  "AsyncRequestProcessBatches process_batches_args batch_manager w =
     RequestProcessBatchesImpl process_batches_args batch_manager True None False w"


subsection \<open>MergeModel, RegularizeModel, NormalizeModel\<close>

text \<open>
  The loop of \<^verbatim>\<open>MergeModel\<close> over \<open>i < nwt_source_name_size()\<close>. It runs after the two size
  checks, so \<open>source_weight(i)\<close> is defined for every \<open>i\<close> and the loop is a recursion over
  the list of pairs \<open>(nwt_source_name(i), source_weight(i))\<close>.
\<close>

fun merge_sources ::
  "('f, 'sd) kernels \<Rightarrow> 'f MergeModelArgs \<Rightarrow> (string \<times> 'f) list \<Rightarrow> 'f PhiMatrix option \<Rightarrow>
     ('f, 'sd) world \<Rightarrow> 'f PhiMatrix option \<times> ('f, 'sd) world" where
  "merge_sources k args [] nwt_target w = (nwt_target, w)"
| "merge_sources k args ((model_name, weight) # rest) nwt_target w =
     (case GetPhiMatrix model_name w of
        None \<Rightarrow>
          merge_sources k args rest nwt_target
            (record_event (Ev_Warning_ModelDoesNotExist model_name) w)
      | Some n_wt \<Rightarrow>
          (let target0 =
                 (case nwt_target of
                    None \<Rightarrow>
                      DensePhiMatrix (mm_nwt_target_name args)
                        (if length (mm_topic_name args) \<noteq> 0 then mm_topic_name args
                         else phi_topic_name n_wt)
                  | Some t \<Rightarrow> t);
               target1 =
                 (if token_size n_wt > 0 then
                    ApplyTopicModelOperation k
                      (RetrieveExternalTopicModel k n_wt new_GetTopicModelArgs) weight target0
                  else target0)
           in merge_sources k args rest (Some target1) w))"

definition MergeModel ::
  "('f, 'sd) kernels \<Rightarrow> 'f MergeModelArgs \<Rightarrow> ('f, 'sd) world \<Rightarrow> unit result \<times> ('f, 'sd) world" where
  "MergeModel k merge_model_args w0 =
     (let w = record_event (Call_MergeModel merge_model_args) w0 in
      if length (mm_nwt_source_name merge_model_args) = 0 then (Raised InvalidOperation, w)
      else if length (mm_nwt_source_name merge_model_args) \<noteq>
              length (mm_source_weight merge_model_args) then (Raised InvalidOperation, w)
      else
        (case merge_sources k merge_model_args
                (zip (mm_nwt_source_name merge_model_args) (mm_source_weight merge_model_args))
                None w of
           (None, w1) \<Rightarrow> (Raised InvalidOperation, w1)
         | (Some nwt_target, w1) \<Rightarrow>
             (Ok (), SetPhiMatrix (mm_nwt_target_name merge_model_args) nwt_target w1)))"

definition RegularizeModel ::
  "('f::zero, 'sd) kernels \<Rightarrow> 'f RegularizeModelArgs \<Rightarrow> ('f, 'sd) world \<Rightarrow>
     unit result \<times> ('f, 'sd) world" where
  "RegularizeModel k regularize_model_args w0 =
     (let w = record_event (Call_RegularizeModel regularize_model_args) w0 in
      case rm_pwt_source_name regularize_model_args of
        None \<Rightarrow> (Raised InvalidOperation, w)
      | Some pwt_source_nm \<Rightarrow>
      (case rm_nwt_source_name regularize_model_args of
        None \<Rightarrow> (Raised InvalidOperation, w)
      | Some nwt_source_nm \<Rightarrow>
      (case rm_rwt_target_name regularize_model_args of
        None \<Rightarrow> (Raised InvalidOperation, w)
      | Some rwt_target_nm \<Rightarrow>
      (case GetPhiMatrixSafe nwt_source_nm w of
        Inl e \<Rightarrow> (Raised e, w)
      | Inr n_wt \<Rightarrow>
      (case GetPhiMatrixSafe pwt_source_nm w of
        Inl e \<Rightarrow> (Raised e, w)
      | Inr p_wt \<Rightarrow>
          (let rwt_target = Reshape (DensePhiMatrix rwt_target_nm (phi_topic_name n_wt)) n_wt in
           (Ok (),
            SetPhiMatrix rwt_target_nm
              (InvokePhiRegularizers k (rm_regularizer_settings regularize_model_args)
                 p_wt n_wt rwt_target) w)))))))"

definition NormalizeModel ::
  "('f::zero, 'sd) kernels \<Rightarrow> NormalizeModelArgs \<Rightarrow> ('f, 'sd) world \<Rightarrow>
     unit result \<times> ('f, 'sd) world" where
  "NormalizeModel k normalize_model_args w0 =
     (let w = record_event (Call_NormalizeModel normalize_model_args) w0 in
      case nm_pwt_target_name normalize_model_args of
        None \<Rightarrow> (Raised InvalidOperation, w)
      | Some pwt_target_nm \<Rightarrow>
      (case nm_nwt_source_name normalize_model_args of
        None \<Rightarrow> (Raised InvalidOperation, w)
      | Some nwt_source_nm \<Rightarrow>
      (case GetPhiMatrixSafe nwt_source_nm w of
        Inl e \<Rightarrow> (Raised e, w)
      | Inr n_wt \<Rightarrow>
      (case (case nm_rwt_source_name normalize_model_args of
               None \<Rightarrow> Inr None
             | Some rwt_source_nm \<Rightarrow>
                 (case GetPhiMatrixSafe rwt_source_nm w of
                    Inl e \<Rightarrow> Inl e
                  | Inr r \<Rightarrow> Inr (Some r))) of
        Inl e \<Rightarrow> (Raised e, w)
      | Inr rwt_phi_matrix \<Rightarrow>
          (let pwt_target = Reshape (DensePhiMatrix pwt_target_nm (phi_topic_name n_wt)) n_wt in
           (Ok (),
            SetPhiMatrix pwt_target_nm
              (case rwt_phi_matrix of
                 None \<Rightarrow> FindPwt k n_wt pwt_target
               | Some r_wt \<Rightarrow> FindPwt_rwt k n_wt r_wt pwt_target) w))))))"


subsection \<open>Decimal text of integers\<close>

text \<open>
  What \<^verbatim>\<open>fout << str.size()\<close> writes and \<^verbatim>\<open>boost::lexical_cast<std::string>(int)\<close> returns.
\<close>

fun string_of_nat :: "nat \<Rightarrow> string" where
  "string_of_nat n =
     (if n < 10 then [char_of (48 + n)]
      else string_of_nat (n div 10) @ [char_of (48 + n mod 10)])"

declare string_of_nat.simps [simp del]

definition lexical_cast :: "int \<Rightarrow> string" where
  "lexical_cast i = (if i < 0 then CHR ''-'' # string_of_nat (nat (- i)) else string_of_nat (nat i))"

subsection \<open>ExportModel\<close>

record ExportModelArgs =
  em_file_name :: string
  em_model_name :: "string option"

text \<open>
  The loop of \<^verbatim>\<open>ExportModel\<close> over the tokens. \<open>fout\<close> is what has been written to the file;
  \<open>requests\<close> is a ghost variable, the arguments of the calls of
  \<^verbatim>\<open>RetrieveExternalTopicModel\<close> so far, one per chunk written.
\<close>

function export_loop ::
  "('f, 'sd) kernels \<Rightarrow> 'f PhiMatrix \<Rightarrow> int \<Rightarrow> nat \<Rightarrow> GetTopicModelArgs \<Rightarrow> string \<Rightarrow>
     GetTopicModelArgs list \<Rightarrow> string \<times> GetTopicModelArgs list" where
  "export_loop k n_wt tokens_per_chunk token_id get_topic_model_args fout requests =
     (if int token_id < token_size n_wt then
        (let token = phi_token n_wt ! token_id;
             args1 = get_topic_model_args
               \<lparr>gtm_token := gtm_token get_topic_model_args @ [keyword token],
                gtm_class_id := gtm_class_id get_topic_model_args @ [class_id token]\<rparr>
         in
         if int token_id + 1 = token_size n_wt \<or>
            int (length (gtm_token args1)) \<ge> tokens_per_chunk then
           (let str = SerializeAsString k (RetrieveExternalTopicModel k n_wt args1) in
            export_loop k n_wt tokens_per_chunk (token_id + 1)
              (args1\<lparr>gtm_class_id := [], gtm_token := []\<rparr>)
              (fout @ string_of_nat (length str) @ str)
              (requests @ [args1]))
         else
           export_loop k n_wt tokens_per_chunk (token_id + 1) args1 fout requests)
      else (fout, requests))"
  by pat_completeness auto
termination
  by (relation "measure (\<lambda>(k, n_wt, tpc, token_id, args, fout, requests).
                  length (phi_token n_wt) - token_id)")
     (auto simp: token_size_def)

declare export_loop.simps [simp del]

definition default_model_name :: "('f, 'sd) world \<Rightarrow> string option \<Rightarrow> string" where
  "default_model_name w name =
     (case name of
        Some n \<Rightarrow> n
      | None \<Rightarrow> (case config w of Some c \<Rightarrow> pwt_name c | None \<Rightarrow> []))"

definition export_start_args :: "string \<Rightarrow> GetTopicModelArgs" where
  "export_start_args name =
     new_GetTopicModelArgs
       \<lparr>gtm_model_name := Some name, gtm_request_type := Some RequestType_Nwt,
        gtm_matrix_layout := Some Layout_Sparse\<rparr>"

text \<open>
  \<^verbatim>\<open>ExportModel\<close>. Opening the \<^verbatim>\<open>ofstream\<close> creates the file, empty, before the matrix is
  looked up; \<^verbatim>\<open>100 * 1024 * 1024 / n_wt.topic_size()\<close> is a division of non-negative
  \<^verbatim>\<open>int\<close>s, undefined for a matrix without topics.
\<close>

definition ExportModel ::
  "('f, 'sd) kernels \<Rightarrow> ExportModelArgs \<Rightarrow> ('f, 'sd) world \<Rightarrow> unit result \<times> ('f, 'sd) world" where
  "ExportModel k args w =
     (let name = default_model_name w (em_model_name args) in
      if files w (em_file_name args) \<noteq> None then (Raised DiskWrite, w)
      else if \<not> can_create w (em_file_name args) then (Raised DiskWrite, w)
      else
        (let w1 = w\<lparr>files := (files w)(em_file_name args \<mapsto> [])\<rparr> in
         case GetPhiMatrixSafe name w1 of
           Inl e \<Rightarrow> (Raised e, w1)
         | Inr n_wt \<Rightarrow>
             if token_size n_wt = 0 then (Raised InvalidOperation, w1)
             else if topic_size n_wt = 0 then (Raised DivisionByZero, w1)
             else
               (let tokens_per_chunk =
                      min (token_size n_wt) (100 * 1024 * 1024 div topic_size n_wt);
                    fout = fst (export_loop k n_wt tokens_per_chunk 0 (export_start_args name)
                                  [char_of (0 :: nat)] [])
                in (Ok (), w1\<lparr>files := (files w1)(em_file_name args \<mapsto> fout)\<rparr>))))"

text \<open>The chunks of an export: the token lists requested, one per chunk written.\<close>

definition export_requests :: "('f, 'sd) kernels \<Rightarrow> 'f PhiMatrix \<Rightarrow> string \<Rightarrow> GetTopicModelArgs list" where
  "export_requests k n_wt name =
     snd (export_loop k n_wt (min (token_size n_wt) (100 * 1024 * 1024 div topic_size n_wt)) 0
            (export_start_args name) [char_of (0 :: nat)] [])"

definition request_tokens :: "GetTopicModelArgs \<Rightarrow> Token list" where
  "request_tokens a = map (\<lambda>(kw, c). \<lparr>keyword = kw, class_id = c\<rparr>) (zip (gtm_token a) (gtm_class_id a))"

subsection \<open>ImportModel\<close>

text \<open>
  A \<^verbatim>\<open>std::ifstream\<close> opened in binary mode: the bytes not yet read and two of the state
  bits. The three operations the import uses:
  \<^item> \<^verbatim>\<open>fin >> c\<close> for a \<^verbatim>\<open>char\<close>: skips white space, then takes one byte;
  \<^item> \<^verbatim>\<open>fin >> n\<close> for an \<^verbatim>\<open>int\<close>: skips white space, then reads an optional sign and decimal
    digits; without a digit it stores 0 and fails, out of range it stores the nearest bound
    and fails; it sets \<^verbatim>\<open>eofbit\<close> when the scan reaches the end of the file;
  \<^item> \<^verbatim>\<open>fin.read(p, n)\<close>: takes \<open>n\<close> bytes, or what is left, and then sets both bits.
  Each fails at once, storing nothing, on a stream that is not good; an extraction
  that hits the end of the file while skipping white space stores nothing either. What
  is stored is an \<open>option\<close>: \<open>None\<close> leaves the variable as it was.
\<close>

record ifstream =
  buf :: string
  eofbit :: bool
  failbit :: bool

definition open_ifstream :: "string \<Rightarrow> ifstream" where
  "open_ifstream content = \<lparr>buf = content, eofbit = False, failbit = False\<rparr>"

definition good :: "ifstream \<Rightarrow> bool" where
  "good fin \<longleftrightarrow> \<not> eofbit fin \<and> \<not> failbit fin"

definition isspace :: "char \<Rightarrow> bool" where
  "isspace c \<longleftrightarrow> of_char c \<in> {32, 9, 10, 11, 12, 13 :: nat}"

definition isdigit :: "char \<Rightarrow> bool" where
  "isdigit c \<longleftrightarrow> 48 \<le> (of_char c :: nat) \<and> (of_char c :: nat) \<le> 57"

definition decimal_value :: "string \<Rightarrow> int" where
  "decimal_value ds = foldl (\<lambda>v c. 10 * v + (int (of_char c) - 48)) 0 ds"

definition extract_char :: "ifstream \<Rightarrow> ifstream \<times> char option" where
  "extract_char fin =
     (if \<not> good fin then (fin\<lparr>failbit := True\<rparr>, None)
      else
        (case dropWhile isspace (buf fin) of
           [] \<Rightarrow> (fin\<lparr>buf := [], eofbit := True, failbit := True\<rparr>, None)
         | c # rest \<Rightarrow> (fin\<lparr>buf := rest\<rparr>, Some c)))"

definition int32_clamp :: "int \<Rightarrow> int" where
  "int32_clamp v = max (- 2147483648) (min 2147483647 v)"

definition extract_int :: "ifstream \<Rightarrow> ifstream \<times> int option" where
  "extract_int fin =
     (if \<not> good fin then (fin\<lparr>failbit := True\<rparr>, None)
      else
        (case dropWhile isspace (buf fin) of
           [] \<Rightarrow> (fin\<lparr>buf := [], eofbit := True, failbit := True\<rparr>, None)
         | c # rest \<Rightarrow>
             (let negative = (c = CHR ''-'');
                  body = (if c = CHR ''-'' \<or> c = CHR ''+'' then rest else c # rest);
                  digits = takeWhile isdigit body;
                  remaining = dropWhile isdigit body;
                  v = (if negative then - decimal_value digits else decimal_value digits)
              in
              (fin\<lparr>buf := remaining, eofbit := (remaining = []),
                   failbit := (digits = [] \<or> int32_clamp v \<noteq> v)\<rparr>,
               Some (if digits = [] then 0 else int32_clamp v)))))"

definition read :: "nat \<Rightarrow> ifstream \<Rightarrow> ifstream \<times> string" where
  "read n fin =
     (if \<not> good fin then (fin\<lparr>failbit := True\<rparr>, replicate n (char_of (0 :: nat)))
      else if n \<le> length (buf fin) then (fin\<lparr>buf := drop n (buf fin)\<rparr>, take n (buf fin))
      else
        (fin\<lparr>buf := [], eofbit := True, failbit := True\<rparr>,
         buf fin @ replicate (n - length (buf fin)) (char_of (0 :: nat))))"

record ImportModelArgs =
  im_file_name :: string
  im_model_name :: "string option"

text \<open>One turn of the \<^verbatim>\<open>while (!fin.eof())\<close> loop of \<^verbatim>\<open>ImportModel\<close>, entered with \<^verbatim>\<open>eofbit\<close> unset.\<close>

datatype 'f import_step = Break | Throw error | Next ifstream "'f PhiMatrix"

definition import_body ::
  "('f::one, 'sd) kernels \<Rightarrow> string \<Rightarrow> ifstream \<Rightarrow> 'f PhiMatrix option \<Rightarrow> 'f import_step" where
  "import_body k name fin target =
     (case extract_int fin of
        (fin1, stored) \<Rightarrow>
          if eofbit fin1 then Break
          else
            (case stored of
               None \<Rightarrow> Throw UninitialisedRead
             | Some len \<Rightarrow>
                 if len \<le> 0 then Throw CorruptedMessage
                 else
                   (case read (nat len) fin1 of
                      (fin2, buffer) \<Rightarrow>
                        (case ParseFromArray k buffer of
                           None \<Rightarrow> Throw CorruptedMessage
                         | Some parsed \<Rightarrow>
                             (let topic_model = parsed\<lparr>tm_name := name\<rparr>;
                                  target0 =
                                    (case target of
                                       None \<Rightarrow> DensePhiMatrix name (tm_topic_name topic_model)
                                     | Some t \<Rightarrow> t)
                              in Next fin2 (ApplyTopicModelOperation k topic_model 1 target0))))))"

definition stream_measure :: "ifstream \<Rightarrow> nat" where
  "stream_measure fin =
     (if eofbit fin then 0 else 2 * length (buf fin) + (if failbit fin then 1 else 2))"

lemma length_dropWhile_le_any: "length (dropWhile P xs) \<le> length xs"
  by (induction xs) auto

lemma extract_int_buf_le:
  "length (buf (fst (extract_int fin))) \<le> length (buf fin)"
proof (cases "good fin")
  case False
  then show ?thesis by (simp add: extract_int_def)
next
  case True
  show ?thesis
  proof (cases "dropWhile isspace (buf fin)")
    case Nil
    show ?thesis unfolding extract_int_def Nil using True by simp
  next
    case (Cons c rest)
    have l: "length (c # rest) \<le> length (buf fin)"
      using length_dropWhile_le_any[of isspace "buf fin"] Cons by simp
    have "length (dropWhile isdigit (if c = CHR ''-'' \<or> c = CHR ''+'' then rest else c # rest))
         \<le> length (c # rest)"
      using length_dropWhile_le_any[of isdigit rest] length_dropWhile_le_any[of isdigit "c # rest"]
      by (simp del: dropWhile.simps)
    with l show ?thesis
      unfolding extract_int_def Cons Let_def using True by (simp del: dropWhile.simps)
  qed
qed

lemma extract_int_stored_good:
  "snd (extract_int fin) = Some v \<Longrightarrow> good fin"
  by (cases "good fin") (simp_all add: extract_int_def)

lemma read_measure:
  assumes "0 < n" and "\<not> eofbit fin1" and "\<not> eofbit (fst (read n fin1))"
  shows "2 * length (buf (fst (read n fin1))) + (if failbit (fst (read n fin1)) then 1 else 2)
         < 2 * length (buf fin1) + 2"
  using assms by (simp add: read_def good_def split: if_splits)

lemma import_body_measure:
  assumes "\<not> eofbit fin" and "import_body k name fin target = Next fin2 t"
  shows "stream_measure fin2 < stream_measure fin"
proof -
  obtain fin1 stored where e: "extract_int fin = (fin1, stored)" by (cases "extract_int fin")
  from assms(2) e have ne: "\<not> eofbit fin1"
    by (simp add: import_body_def split: if_splits)
  from assms(2) e ne obtain len where st: "stored = Some len" and pos: "0 < len"
    by (cases stored) (simp_all add: import_body_def split: if_splits)
  obtain fin2' buffer where r: "read (nat len) fin1 = (fin2', buffer)"
    by (cases "read (nat len) fin1")
  from assms(2) e ne st pos r have f2: "fin2' = fin2"
    by (cases "ParseFromArray k buffer") (simp_all add: import_body_def Let_def)
  have g: "good fin" using extract_int_stored_good[of fin len] e st by simp
  have le: "length (buf fin1) \<le> length (buf fin)" using extract_int_buf_le[of fin] e by simp
  show ?thesis
  proof (cases "eofbit fin2")
    case True
    with assms(1) show ?thesis by (simp add: stream_measure_def)
  next
    case False
    with read_measure[of "nat len" fin1] pos ne r f2
    have "2 * length (buf fin2) + (if failbit fin2 then 1 else 2) < 2 * length (buf fin1) + 2"
      by simp
    with le g False assms(1) show ?thesis
      by (simp add: stream_measure_def good_def)
  qed
qed

function import_loop ::
  "('f::one, 'sd) kernels \<Rightarrow> string \<Rightarrow> ifstream \<Rightarrow> 'f PhiMatrix option \<Rightarrow>
     error + 'f PhiMatrix option" where
  "import_loop k name fin target =
     (if eofbit fin then Inr target
      else
        (case import_body k name fin target of
           Break \<Rightarrow> Inr target
         | Throw e \<Rightarrow> Inl e
         | Next fin2 t \<Rightarrow> import_loop k name fin2 (Some t)))"
  by pat_completeness auto
termination
  by (relation "measure (\<lambda>(k, name, fin, target). stream_measure fin)")
     (auto simp: import_body_measure)

declare import_loop.simps [simp del]

text \<open>
  \<^verbatim>\<open>ImportModel\<close>. A file that cannot be opened is a file that does not exist. On a file
  without a byte to extract, \<^verbatim>\<open>version\<close> is read unassigned.
\<close>

definition ImportModel ::
  "('f::one, 'sd) kernels \<Rightarrow> ImportModelArgs \<Rightarrow> ('f, 'sd) world \<Rightarrow> unit result \<times> ('f, 'sd) world" where
  "ImportModel k args w =
     (let name = default_model_name w (im_model_name args) in
      case files w (im_file_name args) of
        None \<Rightarrow> (Raised DiskRead, w)
      | Some content \<Rightarrow>
          (case extract_char (open_ifstream content) of
             (fin, None) \<Rightarrow> (Raised UninitialisedRead, w)
           | (fin, Some version) \<Rightarrow>
               if version \<noteq> char_of (0 :: nat) then (Raised DiskRead, w)
               else
                 (case import_loop k name fin None of
                    Inl e \<Rightarrow> (Raised e, w)
                  | Inr None \<Rightarrow> (Raised CorruptedMessage, w)
                  | Inr (Some target) \<Rightarrow> (Ok (), SetPhiMatrix name target w))))"

text \<open>
  \<open>chunks_read k name fin target fin' target'\<close>: from the stream \<open>fin\<close> and the target \<open>target\<close>
  (\<open>None\<close> before the first chunk), some number of chunks have been read and applied, one
  after the other, leaving the stream \<open>fin'\<close> and the target \<open>target'\<close>. Reading one chunk is:
  the stream is not at its end; a length is read that does not end the file and is
  positive; that many bytes are read and parse as a topic model. Applying it is: the model,
  renamed, is added with weight 1 to the target, which for the first chunk is an empty
  matrix with the chunk's topic names.
\<close>

inductive chunks_read ::
  "('f::one, 'sd) kernels \<Rightarrow> string \<Rightarrow> ifstream \<Rightarrow> 'f PhiMatrix option \<Rightarrow>
     ifstream \<Rightarrow> 'f PhiMatrix option \<Rightarrow> bool"
  for k :: "('f::one, 'sd) kernels" and name :: string where
    none: "chunks_read k name fin target fin target"
  | one_more:
      "chunks_read k name fin target fin1 target1 \<Longrightarrow> \<not> eofbit fin1 \<Longrightarrow>
       extract_int fin1 = (fin1', Some len) \<Longrightarrow> \<not> eofbit fin1' \<Longrightarrow> 0 < len \<Longrightarrow>
       read (nat len) fin1' = (fin2, buffer) \<Longrightarrow> ParseFromArray k buffer = Some parsed \<Longrightarrow>
       chunks_read k name fin target fin2
         (Some (ApplyTopicModelOperation k (parsed\<lparr>tm_name := name\<rparr>) 1
                  (case target1 of
                     None \<Rightarrow> DensePhiMatrix name (tm_topic_name parsed)
                   | Some t \<Rightarrow> t)))"

subsection \<open>ArtmExecutor\<close>

text \<open>\<^verbatim>\<open>StringIndex\<close>: a prefix and an \<^verbatim>\<open>int\<close>, read as the prefix followed by the number.\<close>

definition StringIndex :: "string \<Rightarrow> int \<Rightarrow> string" where
  "StringIndex prefix i = prefix @ lexical_cast i"

text \<open>
  The executor's members. \<open>async_managers\<close> is \<^verbatim>\<open>async_\<close>, the batch managers of the
  asynchronous operations by operation id.
\<close>

record 'f ArtmExecutor =
  master_model_config :: "'f MasterModelConfig"
  ex_pwt_name :: string
  ex_nwt_name :: string
  process_batches_args :: "'f ProcessBatchesArgs"
  regularize_model_args :: "'f RegularizeModelArgs"
  async_managers :: "nat list"

definition new_ArtmExecutor :: "('f, 'sd) kernels \<Rightarrow> 'f MasterModelConfig \<Rightarrow> 'f ArtmExecutor" where
  "new_ArtmExecutor k cfg =
     \<lparr>master_model_config = cfg,
      ex_pwt_name = pwt_name cfg,
      ex_nwt_name = nwt_name cfg,
      process_batches_args =
        (default_ProcessBatchesArgs k)
          \<lparr>pba_inner_iterations_count :=
             (case cfg_inner_iterations_count cfg of
                None \<Rightarrow> pba_inner_iterations_count (default_ProcessBatchesArgs k)
              | Some n \<Rightarrow> Some n),
           pba_class_id := cfg_class_id cfg,
           pba_class_weight := cfg_class_weight cfg,
           pba_regularizer_name :=
             pba_regularizer_name (default_ProcessBatchesArgs k) @
             map rc_name (regularizer_config cfg),
           pba_regularizer_tau :=
             pba_regularizer_tau (default_ProcessBatchesArgs k) @
             map rc_tau (regularizer_config cfg),
           pba_opt_for_avx :=
             (case cfg_opt_for_avx cfg of
                None \<Rightarrow> pba_opt_for_avx (default_ProcessBatchesArgs k)
              | Some b \<Rightarrow> Some b),
           pba_reuse_theta :=
             (case cfg_reuse_theta cfg of
                None \<Rightarrow> pba_reuse_theta (default_ProcessBatchesArgs k)
              | Some b \<Rightarrow> Some b)\<rparr>,
      regularize_model_args =
        \<lparr>rm_pwt_source_name = None, rm_nwt_source_name = None, rm_rwt_target_name = None,
         rm_regularizer_settings =
           map (\<lambda>r. \<lparr>rs_name = rc_name r, rs_tau = rc_tau r,
                      rs_use_relative_regularization = False\<rparr>)
             (regularizer_config cfg)\<rparr>,
      async_managers = []\<rparr>"

text \<open>
  The private methods. \<^verbatim>\<open>iter->move\<close> is a virtual call: the methods take the \<open>move\<close> of the
  iterator at hand as an argument.
\<close>

definition offline_iter_move ::
  "'f OfflineBatchesIterator \<Rightarrow> 'f ProcessBatchesArgs \<Rightarrow>
     error + ('f OfflineBatchesIterator \<times> 'f ProcessBatchesArgs)" where
  "offline_iter_move iter args = Inr (iter, offline_move iter args)"

definition ProcessBatches ::
  "('it \<Rightarrow> 'f ProcessBatchesArgs \<Rightarrow> error + ('it \<times> 'f ProcessBatchesArgs)) \<Rightarrow> string \<Rightarrow> string \<Rightarrow>
     'it \<Rightarrow> nat \<Rightarrow> 'f::zero ArtmExecutor \<Rightarrow> ('f, 'sd) world \<Rightarrow>
     ('it \<times> 'f ArtmExecutor) result \<times> ('f, 'sd) world" where
  "ProcessBatches mv pwt nwt iter score_manager ex w =
     (case mv iter ((process_batches_args ex)\<lparr>pwt_source_name := pwt, nwt_target_name := Some nwt\<rparr>) of
        Inl e \<Rightarrow> (Raised e, w)
      | Inr (iter1, args1) \<Rightarrow>
          (case new_object w of
             (batch_manager, w1) \<Rightarrow>
               bind (RequestProcessBatchesImpl args1 batch_manager False (Some score_manager) False w1)
                 (\<lambda>args2 w2.
                    (Ok (iter1, ex\<lparr>process_batches_args := args2\<lparr>batch_filename := []\<rparr>\<rparr>), w2))))"

definition AsyncProcessBatches ::
  "('it \<Rightarrow> 'f ProcessBatchesArgs \<Rightarrow> error + ('it \<times> 'f ProcessBatchesArgs)) \<Rightarrow> string \<Rightarrow> string \<Rightarrow>
     'it \<Rightarrow> 'f::zero ArtmExecutor \<Rightarrow> ('f, 'sd) world \<Rightarrow>
     (int \<times> 'it \<times> 'f ArtmExecutor) result \<times> ('f, 'sd) world" where
  "AsyncProcessBatches mv pwt nwt iter ex w =
     (case mv iter ((process_batches_args ex)
                      \<lparr>pwt_source_name := pwt, nwt_target_name := Some nwt,
                       theta_matrix_type := TMT_None, has_theta_matrix_type := True\<rparr>) of
        Inl e \<Rightarrow> (Raised e, w)
      | Inr (iter1, args1) \<Rightarrow>
          (let operation_id = int (length (async_managers ex)) in
           case new_object w of
             (batch_manager, w1) \<Rightarrow>
               bind (RequestProcessBatchesImpl args1 batch_manager True None False w1)
                 (\<lambda>args2 w2.
                    (Ok (operation_id, iter1,
                         ex\<lparr>process_batches_args := args2\<lparr>batch_filename := []\<rparr>,
                            async_managers := async_managers ex @ [batch_manager]\<rparr>), w2))))"

definition Await :: "int \<Rightarrow> 'f ArtmExecutor \<Rightarrow> ('f, 'sd) world \<Rightarrow> unit result \<times> ('f, 'sd) world" where
  "Await operation_id ex w =
     (case Get (async_managers ex) operation_id of
        Inl e \<Rightarrow> (Raised e, w)
      | Inr batch_manager \<Rightarrow> wait_until_processed batch_manager w)"

definition Regularize ::
  "('f::zero, 'sd) kernels \<Rightarrow> string \<Rightarrow> string \<Rightarrow> string \<Rightarrow> 'f ArtmExecutor \<Rightarrow> ('f, 'sd) world \<Rightarrow>
     'f ArtmExecutor result \<times> ('f, 'sd) world" where
  "Regularize k pwt nwt rwt ex w =
     (if length (rm_regularizer_settings (regularize_model_args ex)) > 0 then
        (let args = (regularize_model_args ex)
               \<lparr>rm_nwt_source_name := Some nwt, rm_pwt_source_name := Some pwt,
                rm_rwt_target_name := Some rwt\<rparr>
         in bind (RegularizeModel k args w) (\<lambda>_ w1. (Ok (ex\<lparr>regularize_model_args := args\<rparr>), w1)))
      else (Ok ex, w))"

definition Normalize ::
  "('f::zero, 'sd) kernels \<Rightarrow> string \<Rightarrow> string \<Rightarrow> string \<Rightarrow> 'f ArtmExecutor \<Rightarrow> ('f, 'sd) world \<Rightarrow>
     unit result \<times> ('f, 'sd) world" where
  "Normalize k pwt nwt rwt ex w =
     NormalizeModel k
       \<lparr>nm_pwt_target_name = Some pwt, nm_nwt_source_name = Some nwt,
        nm_rwt_source_name =
          (if length (rm_regularizer_settings (regularize_model_args ex)) > 0 then Some rwt
           else None)\<rparr> w"

definition StoreScores ::
  "('f, 'sd) kernels \<Rightarrow> nat \<Rightarrow> ('f, 'sd) world \<Rightarrow> unit result \<times> ('f, 'sd) world" where
  "StoreScores k score_manager w =
     (case config w of
        None \<Rightarrow> (Raised NullDereference, w)
      | Some c \<Rightarrow>
          (Ok (),
           (record_event (Call_StoreScores score_manager) w)
             \<lparr>score_tracker := score_tracker w @
                map (RequestScore k (score_managers w score_manager)) (score_config c)\<rparr>))"

definition Merge ::
  "('f, 'sd) kernels \<Rightarrow> string \<Rightarrow> 'f \<Rightarrow> string \<Rightarrow> 'f \<Rightarrow> ('f, 'sd) world \<Rightarrow>
     unit result \<times> ('f, 'sd) world" where
  "Merge k nwt decay_w nwt_hat apply_w w =
     MergeModel k
       \<lparr>mm_nwt_source_name = [nwt, nwt_hat], mm_source_weight = [decay_w, apply_w],
        mm_nwt_target_name = nwt, mm_topic_name = []\<rparr> w"

definition Dispose :: "string \<Rightarrow> ('f, 'sd) world \<Rightarrow> ('f, 'sd) world" where
  "Dispose name w = DisposeModel name w"




text \<open>
  The online schedules. Both loops end because \<^verbatim>\<open>move\<close> advances the cursor of the iterator
  whenever \<^verbatim>\<open>more()\<close> holds; the three facts below say so for \<open>move\<close> and for the two methods
  that call it.
\<close>

lemma move_cursor:
  "move iter args = Inr (iter1, args1) \<Longrightarrow> iter_more iter \<Longrightarrow>
     iter1 = iter\<lparr>it_current := it_current iter + 1\<rparr>"
  by (auto simp: move_def iter_more_def Let_def split: if_splits sum.splits)

lemma ProcessBatches_iter:
  "ProcessBatches mv pwt nwt iter sm ex w = (Ok (iter1, ex1), w') \<Longrightarrow>
     \<exists>args1. mv iter ((process_batches_args ex)\<lparr>pwt_source_name := pwt, nwt_target_name := Some nwt\<rparr>)
        = Inr (iter1, args1)"
  by (auto simp: ProcessBatches_def bind_def split: sum.splits prod.splits result.splits)

lemma AsyncProcessBatches_iter:
  "AsyncProcessBatches mv pwt nwt iter ex w = (Ok (op_id, iter1, ex1), w') \<Longrightarrow>
     \<exists>args1. mv iter ((process_batches_args ex)
                      \<lparr>pwt_source_name := pwt, nwt_target_name := Some nwt,
                       theta_matrix_type := TMT_None, has_theta_matrix_type := True\<rparr>)
        = Inr (iter1, args1)"
  by (auto simp: AsyncProcessBatches_def Let_def bind_def split: sum.splits prod.splits result.splits)

text \<open>
  \<^verbatim>\<open>ExecuteOnlineAlgorithm\<close>. The state of its \<^verbatim>\<open>while (iter->more())\<close> loop is the index of
  \<^verbatim>\<open>nwt_hat_index\<close>, the iterator and the executor; \<open>online_body\<close> is one turn. The weights are
  read at the cursor, before \<^verbatim>\<open>ProcessBatches\<close> moves it.
\<close>

record 'f online_state =
  os_nwt_hat_index :: int
  os_iter :: "'f OnlineBatchesIterator"
  os_ex :: "'f ArtmExecutor"

definition online_body ::
  "('f::zero, 'sd) kernels \<Rightarrow> 'f online_state \<Rightarrow> ('f, 'sd) world \<Rightarrow>
     'f online_state result \<times> ('f, 'sd) world" where
  "online_body k st w =
     (let iter = os_iter st; ex = os_ex st;
          nwt_hat = StringIndex ''nwt_hat'' (os_nwt_hat_index st)
      in
      case apply_weight_current iter of
        Inl e \<Rightarrow> (Raised e, w)
      | Inr apply_w \<Rightarrow>
      (case decay_weight_current iter of
        Inl e \<Rightarrow> (Raised e, w)
      | Inr decay_w \<Rightarrow>
      (case new_object w of
        (score_manager, w0) \<Rightarrow>
          bind (ProcessBatches move (ex_pwt_name ex) nwt_hat iter score_manager ex w0)
            (\<lambda>r1 w1.
               bind (Merge k (ex_nwt_name ex) decay_w nwt_hat apply_w w1)
                 (\<lambda>_ w2.
                    bind (Regularize k (ex_pwt_name ex) (ex_nwt_name ex) ''rwt'' (snd r1)
                            (Dispose nwt_hat w2))
                      (\<lambda>ex2 w3.
                         bind (Normalize k (ex_pwt_name ex) (ex_nwt_name ex) ''rwt'' ex2 w3)
                           (\<lambda>_ w4.
                              bind (StoreScores k score_manager w4)
                                (\<lambda>_ w5.
                                   (Ok \<lparr>os_nwt_hat_index = os_nwt_hat_index st + 1,
                                        os_iter = fst r1, os_ex = ex2\<rparr>, w5)))))))))"

text \<open>How far the cursor is from the end of \<^verbatim>\<open>update_after_\<close>.\<close>

definition cursor_distance :: "'f OnlineBatchesIterator \<Rightarrow> nat" where
  "cursor_distance iter = length (it_update_after iter) - it_current iter"

lemma online_body_cursor:
  assumes "online_body k st w = (Ok st1, w1)" and "iter_more (os_iter st)"
  shows "cursor_distance (os_iter st1) < cursor_distance (os_iter st)"
proof -
  from assms(1) have "\<exists>args0 args1. move (os_iter st) args0 = Inr (os_iter st1, args1)"
    by (auto simp: online_body_def Let_def bind_def
        split: sum.splits prod.splits result.splits dest!: ProcessBatches_iter)
       (rule exI, rule exI, assumption)
  with move_cursor assms(2)
  have "os_iter st1 = (os_iter st)\<lparr>it_current := it_current (os_iter st) + 1\<rparr>" by blast
  with assms(2) show ?thesis by (simp add: cursor_distance_def iter_more_def)
qed

function online_loop ::
  "('f::zero, 'sd) kernels \<Rightarrow> 'f online_state \<Rightarrow> ('f, 'sd) world \<Rightarrow>
     'f online_state result \<times> ('f, 'sd) world" where
  "online_loop k st w =
     (if iter_more (os_iter st) then bind (online_body k st w) (\<lambda>st1 w1. online_loop k st1 w1)
      else (Ok st, w))"
  by pat_completeness auto
termination
  by (relation "measure (\<lambda>(k, st, w). cursor_distance (os_iter st))")
     (auto simp: online_body_cursor)

declare online_loop.simps [simp del]

definition ExecuteOnlineAlgorithm ::
  "('f::zero, 'sd) kernels \<Rightarrow> 'f OnlineBatchesIterator \<Rightarrow> 'f ArtmExecutor \<Rightarrow> ('f, 'sd) world \<Rightarrow>
     ('f OnlineBatchesIterator \<times> 'f ArtmExecutor) result \<times> ('f, 'sd) world" where
  "ExecuteOnlineAlgorithm k iter ex w =
     bind (online_loop k \<lparr>os_nwt_hat_index = 0, os_iter = iter, os_ex = ex\<rparr> (ClearScoreCache w))
       (\<lambda>st w1. (Ok (reset (os_iter st), os_ex st), w1))"

text \<open>
  \<^verbatim>\<open>ExecuteAsyncOnlineAlgorithm\<close>. The state of its \<^verbatim>\<open>while (true)\<close> loop is \<^verbatim>\<open>op_id\<close>,
  \<^verbatim>\<open>pwt_active\<close>, the indices of \<^verbatim>\<open>pwt_index\<close> and \<^verbatim>\<open>nwt_hat_index\<close>, the iterator and the
  executor. \<open>async_body\<close> is one turn; it returns \<^verbatim>\<open>is_last\<close> with the new state, and the loop
  ends when \<^verbatim>\<open>is_last\<close> is set. The weights are read with \<^verbatim>\<open>apply_weight(op_id)\<close> and
  \<^verbatim>\<open>decay_weight(op_id)\<close>.
\<close>

record 'f async_state =
  as_op_id :: int
  as_pwt_active :: string
  as_pwt_index :: int
  as_nwt_hat_index :: int
  as_iter :: "'f OnlineBatchesIterator"
  as_ex :: "'f ArtmExecutor"

definition async_body ::
  "('f::zero, 'sd) kernels \<Rightarrow> 'f async_state \<Rightarrow> ('f, 'sd) world \<Rightarrow>
     (bool \<times> 'f async_state) result \<times> ('f, 'sd) world" where
  "async_body k st w =
     (let iter = as_iter st; ex = as_ex st;
          is_last = (\<not> iter_more iter);
          pwt_index = as_pwt_index st + 1;
          nwt_hat_index = as_nwt_hat_index st + 1
      in
      case apply_weight iter (as_op_id st) of
        Inl e \<Rightarrow> (Raised e, w)
      | Inr apply_w \<Rightarrow>
      (case decay_weight iter (as_op_id st) of
        Inl e \<Rightarrow> (Raised e, w)
      | Inr decay_w \<Rightarrow>
          bind (if \<not> is_last then
                  AsyncProcessBatches move (as_pwt_active st) (StringIndex ''nwt_hat'' nwt_hat_index)
                    iter ex w
                else (Ok (as_op_id st, iter, ex), w))
            (\<lambda>r1 w1.
               bind (Await (as_op_id st) (snd (snd r1)) w1)
                 (\<lambda>_ w2.
                    bind (Merge k (ex_nwt_name ex) decay_w (StringIndex ''nwt_hat'' (nwt_hat_index - 1))
                            apply_w w2)
                      (\<lambda>_ w3.
                         bind (Regularize k (as_pwt_active st) (ex_nwt_name ex) ''rwt'' (snd (snd r1))
                                 (Dispose (StringIndex ''nwt_hat'' (nwt_hat_index - 1)) w3))
                           (\<lambda>ex2 w4.
                              (let pwt_active =
                                     (if is_last then ex_pwt_name ex
                                      else StringIndex ''pwt'' (pwt_index + 1))
                               in
                               bind (Normalize k pwt_active (ex_nwt_name ex) ''rwt'' ex2 w4)
                                 (\<lambda>_ w5.
                                    (let w6 = Dispose (StringIndex ''pwt'' (pwt_index - 1)) w5;
                                         st1 = \<lparr>as_op_id = fst r1, as_pwt_active = pwt_active,
                                                as_pwt_index = pwt_index,
                                                as_nwt_hat_index = nwt_hat_index,
                                                as_iter = fst (snd r1), as_ex = ex2\<rparr>
                                     in
                                     if is_last then
                                       (Ok (True, st1), Dispose (StringIndex ''pwt'' pwt_index) w6)
                                     else (Ok (False, st1), w6))))))))))"

lemma async_body_cursor:
  assumes "async_body k st w = (Ok (False, st1), w1)"
  shows "cursor_distance (as_iter st1) < cursor_distance (as_iter st)"
proof -
  have m: "iter_more (as_iter st)"
    using assms
    by (auto simp: async_body_def Let_def bind_def
        split: sum.splits prod.splits result.splits if_splits)
  with assms have "\<exists>args0 args1. move (as_iter st) args0 = Inr (as_iter st1, args1)"
    by (auto simp: async_body_def Let_def bind_def
        split: sum.splits prod.splits result.splits if_splits dest!: AsyncProcessBatches_iter)
       (rule exI, rule exI, assumption)
  with move_cursor m
  have "as_iter st1 = (as_iter st)\<lparr>it_current := it_current (as_iter st) + 1\<rparr>" by blast
  with m show ?thesis by (simp add: cursor_distance_def iter_more_def)
qed

function async_loop ::
  "('f::zero, 'sd) kernels \<Rightarrow> 'f async_state \<Rightarrow> ('f, 'sd) world \<Rightarrow>
     'f async_state result \<times> ('f, 'sd) world" where
  "async_loop k st w =
     bind (async_body k st w)
       (\<lambda>r w1. if fst r then (Ok (snd r), w1) else async_loop k (snd r) w1)"
  by pat_completeness auto
termination
  by (relation "measure (\<lambda>(k, st, w). cursor_distance (as_iter st))")
     (auto simp: async_body_cursor)

declare async_loop.simps [simp del]

definition ExecuteAsyncOnlineAlgorithm ::
  "('f::zero, 'sd) kernels \<Rightarrow> 'f OnlineBatchesIterator \<Rightarrow> 'f ArtmExecutor \<Rightarrow> ('f, 'sd) world \<Rightarrow>
     ('f OnlineBatchesIterator \<times> 'f ArtmExecutor) result \<times> ('f, 'sd) world" where
  "ExecuteAsyncOnlineAlgorithm k iter ex w =
     bind (AsyncProcessBatches move (ex_pwt_name ex) (StringIndex ''nwt_hat'' 0) iter ex
             (ClearScoreCache w))
       (\<lambda>r w1.
          bind (async_loop k
                  \<lparr>as_op_id = fst r, as_pwt_active = ex_pwt_name ex, as_pwt_index = 0,
                   as_nwt_hat_index = 0, as_iter = fst (snd r), as_ex = snd (snd r)\<rparr> w1)
            (\<lambda>st w2. (Ok (reset (as_iter st), as_ex st), w2)))"

text \<open>\<^verbatim>\<open>FitOnline\<close>: a new executor and a new iterator, then one of the two schedules.\<close>

record 'f FitOnlineMasterModelArgs =
  fo_batch_filename :: "string list"
  fo_batch_weight :: "'f list"
  fo_update_after :: "int list"
  fo_apply_weight :: "'f list"
  fo_decay_weight :: "'f list"
  fo_async :: bool

definition FitOnline ::
  "('f::zero, 'sd) kernels \<Rightarrow> 'f FitOnlineMasterModelArgs \<Rightarrow> ('f, 'sd) world \<Rightarrow>
     unit result \<times> ('f, 'sd) world" where
  "FitOnline k args w =
     (case config w of
        None \<Rightarrow> (Raised InvalidOperation, w)
      | Some cfg \<Rightarrow>
          (let artm_executor = new_ArtmExecutor k cfg;
               iter = new_OnlineBatchesIterator (fo_batch_filename args) (fo_batch_weight args)
                        (fo_update_after args) (fo_apply_weight args) (fo_decay_weight args)
           in
           bind (if fo_async args then ExecuteAsyncOnlineAlgorithm k iter artm_executor w
                 else ExecuteOnlineAlgorithm k iter artm_executor w)
             (\<lambda>_ w1. (Ok (), w1))))"

subsection \<open>Notions used in the statements\<close>

text \<open>The processor input that \<^verbatim>\<open>createProcessorInput\<close> builds for a given task id.\<close>

definition input_with_task ::
  "'f ProcessBatchesArgs \<Rightarrow> nat \<Rightarrow> nat option \<Rightarrow> cache_ref option \<Rightarrow> cache_ref option \<Rightarrow> string \<Rightarrow>
     nat \<Rightarrow> 'f ProcessorInput" where
  "input_with_task args bm sm tc pc mn t =
     \<lparr>pi_task_id = t, pi_batch_manager = bm, pi_score_manager = sm, pi_cache_manager = tc,
      pi_ptdw_cache_manager = pc, pi_model_name = mn, pi_args = args,
      pi_reuse_theta_cache_manager =
        (if pba_reuse_theta args = Some True then Some InstanceCache else None),
      pi_nwt_target_name = nwt_target_name args, pi_batch_filename = None, pi_batch = None,
      pi_batch_weight = None\<rparr>"

text \<open>
  The calls in a history, and \<open>only_events w w'\<close>: from \<open>w\<close> to \<open>w'\<close> the registry, the
  configuration and the next free address have not changed, and the history has grown by
  events that are not calls.
\<close>

definition is_call :: "'f event \<Rightarrow> bool" where
  "is_call ev =
     (case ev of
        Ev_SetPhiMatrix _ _ \<Rightarrow> False
      | Ev_Push _ \<Rightarrow> False
      | Ev_Poll _ _ \<Rightarrow> False
      | Ev_RequestThetaMatrix _ \<Rightarrow> False
      | Ev_Warning_ModelDoesNotExist _ \<Rightarrow> False
      | _ \<Rightarrow> True)"

definition calls :: "'f event list \<Rightarrow> 'f event list" where
  "calls h = filter is_call h"

definition only_events :: "('f, 'sd) world \<Rightarrow> ('f, 'sd) world \<Rightarrow> bool" where
  "only_events w w' \<longleftrightarrow>
     models w' = models w \<and> next_addr w' = next_addr w \<and> config w' = config w \<and>
     (\<exists>evs. history w' = history w @ evs \<and> calls evs = [])"

text \<open>
  \<open>advances w n cs w'\<close>: from \<open>w\<close> to \<open>w'\<close> the configuration has not changed, \<open>n\<close> objects have
  been created, and the calls \<open>cs\<close> have been made, in this order.
\<close>

definition advances ::
  "('f, 'sd) world \<Rightarrow> nat \<Rightarrow> 'f event list \<Rightarrow> ('f, 'sd) world \<Rightarrow> bool" where
  "advances w n cs w' \<longleftrightarrow>
     config w' = config w \<and> next_addr w' = next_addr w + n \<and>
     calls (history w') = calls (history w) @ cs"

text \<open>Two states of an executor with the same matrix names and the same regularizers.\<close>

definition same_setup :: "'f ArtmExecutor \<Rightarrow> 'f ArtmExecutor \<Rightarrow> bool" where
  "same_setup ex ex' \<longleftrightarrow>
     ex_pwt_name ex' = ex_pwt_name ex \<and> ex_nwt_name ex' = ex_nwt_name ex \<and>
     rm_regularizer_settings (regularize_model_args ex') =
       rm_regularizer_settings (regularize_model_args ex)"

text \<open>
  The calls on the master component made by the methods \<^verbatim>\<open>Regularize(pwt, nwt, rwt)\<close> and
  \<^verbatim>\<open>Normalize(pwt, nwt, rwt)\<close> of the executor: \<^verbatim>\<open>RegularizeModel\<close> is called when regularizers
  are configured, and \<^verbatim>\<open>NormalizeModel\<close> is given \<open>rwt\<close> under the same condition.
\<close>

definition regularize_calls :: "'f ArtmExecutor \<Rightarrow> string \<Rightarrow> string \<Rightarrow> string \<Rightarrow> 'f event list" where
  "regularize_calls ex pwt nwt rwt =
     (if rm_regularizer_settings (regularize_model_args ex) = [] then []
      else [Call_RegularizeModel
              \<lparr>rm_pwt_source_name = Some pwt, rm_nwt_source_name = Some nwt,
               rm_rwt_target_name = Some rwt,
               rm_regularizer_settings = rm_regularizer_settings (regularize_model_args ex)\<rparr>])"

definition normalize_call :: "'f ArtmExecutor \<Rightarrow> string \<Rightarrow> string \<Rightarrow> string \<Rightarrow> 'f event" where
  "normalize_call ex pwt nwt rwt =
     Call_NormalizeModel
       \<lparr>nm_pwt_target_name = Some pwt, nm_nwt_source_name = Some nwt,
        nm_rwt_source_name =
          (if rm_regularizer_settings (regularize_model_args ex) = [] then None else Some rwt)\<rparr>"

text \<open>
  The calls of one pass of the offline schedule whose score manager is the object \<open>a\<close>; the
  batch manager of its \<^verbatim>\<open>ProcessBatches\<close> is the next object.
\<close>

definition offline_pass_calls ::
  "'f ArtmExecutor \<Rightarrow> 'f OfflineBatchesIterator \<Rightarrow> nat \<Rightarrow> 'f event list" where
  "offline_pass_calls ex iter a =
     [Call_ProcessBatches (ex_pwt_name ex) (Some (ex_nwt_name ex)) (off_batch_filename iter)
        (off_batch_weight iter) False (a + 1) (Some a)] @
     regularize_calls ex (ex_pwt_name ex) (ex_nwt_name ex) ''rwt'' @
     [normalize_call ex (ex_pwt_name ex) (ex_nwt_name ex) ''rwt'', Call_StoreScores a]"

text \<open>
  The indices of the batches of group \<open>K\<close> of an online iterator: from the previous entry of
  \<^verbatim>\<open>update_after\<close> (0 for the first group) up to but excluding the entry \<open>K\<close>, read as \<^verbatim>\<open>unsigned\<close>.
\<close>

definition online_group :: "'f OnlineBatchesIterator \<Rightarrow> nat \<Rightarrow> nat list" where
  "online_group iter K =
     (if K < length (it_update_after iter) then
        [int_to_unsigned (if K = 0 then 0 else it_update_after iter ! (K - 1)) ..<
         int_to_unsigned (it_update_after iter ! K)]
      else [])"

text \<open>
  The asynchronous schedule, for operations numbered from 0. \<open>async_pwt_active ex K\<close> is
  \<^verbatim>\<open>pwt_active\<close> at the start of turn \<open>K\<close> of the loop. \<open>async_process_call ex iter a0 K\<close> is the
  call that starts operation \<open>K\<close>: group \<open>K\<close> of the iterator, processed into
  \<open>nwt_hat\<close>\<^emph>\<open>K\<close> with the batch manager \<open>a0 + K\<close>. \<open>async_merge_call ex iter K\<close> merges
  \<open>nwt_hat\<close>\<^emph>\<open>K\<close> into \<open>nwt\<close> with the weights at index \<open>K\<close>. \<open>async_iteration_calls ex iter a0 N K\<close>
  are the calls of turn \<open>K\<close> of a run with \<open>N\<close> operations.
\<close>

definition async_pwt_active :: "'f ArtmExecutor \<Rightarrow> nat \<Rightarrow> string" where
  "async_pwt_active ex K = (if K = 0 then ex_pwt_name ex else StringIndex ''pwt'' (int K + 1))"

definition async_process_call ::
  "'f ArtmExecutor \<Rightarrow> 'f OnlineBatchesIterator \<Rightarrow> nat \<Rightarrow> nat \<Rightarrow> 'f event" where
  "async_process_call ex iter a0 K =
     Call_ProcessBatches (async_pwt_active ex (K - 1)) (Some (StringIndex ''nwt_hat'' (int K)))
       (map ((!) (it_batch_filename iter)) (online_group iter K))
       (map ((!) (it_batch_weight iter)) (online_group iter K)) True (a0 + K) None"

definition async_merge_call :: "'f ArtmExecutor \<Rightarrow> 'f OnlineBatchesIterator \<Rightarrow> nat \<Rightarrow> 'f event" where
  "async_merge_call ex iter K =
     Call_MergeModel
       \<lparr>mm_nwt_source_name = [ex_nwt_name ex, StringIndex ''nwt_hat'' (int K)],
        mm_source_weight = [it_decay_weight iter ! K, it_apply_weight iter ! K],
        mm_nwt_target_name = ex_nwt_name ex, mm_topic_name = []\<rparr>"

definition async_iteration_calls ::
  "'f ArtmExecutor \<Rightarrow> 'f OnlineBatchesIterator \<Rightarrow> nat \<Rightarrow> nat \<Rightarrow> nat \<Rightarrow> 'f event list" where
  "async_iteration_calls ex iter a0 N K =
     (if K + 1 < N then [async_process_call ex iter a0 (K + 1)] else []) @
     [async_merge_call ex iter K, Call_DisposeModel (StringIndex ''nwt_hat'' (int K))] @
     regularize_calls ex (async_pwt_active ex K) (ex_nwt_name ex) ''rwt'' @
     [normalize_call ex (if K + 1 < N then StringIndex ''pwt'' (int K + 2) else ex_pwt_name ex)
        (ex_nwt_name ex) ''rwt'',
      Call_DisposeModel (StringIndex ''pwt'' (int K))] @
     (if K + 1 < N then [] else [Call_DisposeModel (StringIndex ''pwt'' (int K + 1))])"

text \<open>The \<^verbatim>\<open>MergeModel\<close> calls and the \<^verbatim>\<open>ProcessBatches\<close> calls in a history.\<close>

definition merge_calls :: "'f event list \<Rightarrow> 'f event list" where
  "merge_calls h = filter (\<lambda>ev. case ev of Call_MergeModel _ \<Rightarrow> True | _ \<Rightarrow> False) h"

definition process_calls :: "'f event list \<Rightarrow> 'f event list" where
  "process_calls h =
     filter (\<lambda>ev. case ev of Call_ProcessBatches _ _ _ _ _ _ _ \<Rightarrow> True | _ \<Rightarrow> False) h"

text \<open>
  What \<^verbatim>\<open>MergeModel\<close> is to register. \<open>present_sources\<close> are the listed sources found in the
  registry, each with its weight, in the order of the list. \<open>merged_target\<close> starts from an
  empty matrix with the target name and the topic names of the arguments (those of the first
  source found, when the arguments name none) and adds every source found that has a token,
  with its weight, in order.
\<close>

definition present_sources :: "('f, 'sd) world \<Rightarrow> 'f MergeModelArgs \<Rightarrow> ('f \<times> 'f PhiMatrix) list" where
  "present_sources w args =
     List.map_filter (\<lambda>(n, wt). map_option (\<lambda>m. (wt, m)) (models w n))
       (zip (mm_nwt_source_name args) (mm_source_weight args))"

definition merge_step ::
  "('f, 'sd) kernels \<Rightarrow> 'f PhiMatrix \<Rightarrow> 'f \<times> 'f PhiMatrix \<Rightarrow> 'f PhiMatrix" where
  "merge_step k t p =
     (if token_size (snd p) > 0 then
        ApplyTopicModelOperation k (RetrieveExternalTopicModel k (snd p) new_GetTopicModelArgs)
          (fst p) t
      else t)"

definition merged_target ::
  "('f, 'sd) kernels \<Rightarrow> 'f MergeModelArgs \<Rightarrow> ('f \<times> 'f PhiMatrix) list \<Rightarrow> 'f PhiMatrix" where
  "merged_target k args ps =
     foldl (merge_step k)
       (DensePhiMatrix (mm_nwt_target_name args)
          (if mm_topic_name args = [] then phi_topic_name (snd (hd ps)) else mm_topic_name args))
       ps"


text \<open>What one chunk adds to the exported file: the size of the serialised message in decimal,
  then the message.\<close>

definition chunk_text :: "('f, 'sd) kernels \<Rightarrow> 'f PhiMatrix \<Rightarrow> GetTopicModelArgs \<Rightarrow> string" where
  "chunk_text k n_wt a =
     (let str = SerializeAsString k (RetrieveExternalTopicModel k n_wt a)
      in string_of_nat (length str) @ str)"

subsection \<open>A small configuration for concrete runs\<close>

text \<open>
  Collaborators that do the least possible, and an instance with two processor threads, an
  empty registry and an empty queue.
\<close>

definition example_args :: "int ProcessBatchesArgs" where
  "example_args =
     \<lparr>pwt_source_name = [], nwt_target_name = None, batch_filename = [], batch_weight = [],
      batch = [], pba_topic_name = [], theta_matrix_type = TMT_Cache,
      has_theta_matrix_type = False, pba_reuse_theta = None, pba_inner_iterations_count = None,
      pba_class_id = [], pba_class_weight = [], pba_regularizer_name = [],
      pba_regularizer_tau = [], pba_opt_for_avx = None\<rparr>"

definition example_kernels :: "(int, nat list \<times> string) kernels" where
  "example_kernels =
     \<lparr>default_ProcessBatchesArgs = example_args,
      RetrieveExternalTopicModel =
        (\<lambda>m a. \<lparr>tm_name = phi_model_name m, tm_topic_name = phi_topic_name m,
                 tm_token = gtm_token a, tm_class_id = gtm_class_id a, tm_token_weights = []\<rparr>),
      ApplyTopicModelOperation = (\<lambda>tm weight m. m),
      InvokePhiRegularizers = (\<lambda>settings p_wt n_wt r_wt. r_wt),
      FindPwt = (\<lambda>n_wt p_wt. p_wt),
      FindPwt_rwt = (\<lambda>n_wt r_wt p_wt. p_wt),
      ParseFromArray =
        (\<lambda>buffer. if buffer = ''ok'' then
                     Some \<lparr>tm_name = [], tm_topic_name = [''t''], tm_token = [], tm_class_id = [],
                           tm_token_weights = []\<rparr>
                   else None),
      SerializeAsString = (\<lambda>tm. concat (tm_token tm)),
      RequestScore = (\<lambda>tasks name. (tasks, name))\<rparr>"

definition example_config :: "int MasterModelConfig" where
  "example_config =
     \<lparr>pwt_name = ''pwt'', nwt_name = ''nwt'', cfg_topic_name = [''t''], cfg_class_id = [],
      cfg_class_weight = [], regularizer_config = [], score_config = [''s''],
      cfg_inner_iterations_count = None, cache_theta = False, cfg_opt_for_avx = None,
      cfg_reuse_theta = None\<rparr>"

definition example_matrix :: "string \<Rightarrow> int PhiMatrix" where
  "example_matrix name =
     \<lparr>phi_model_name = name, phi_topic_name = [''t''],
      phi_token = [\<lparr>keyword = ''a'', class_id = ''c''\<rparr>], phi_cells = [[1]]\<rparr>"

definition example_world :: "(int, nat list \<times> string) world" where
  "example_world =
     \<lparr>models = Map.empty, processor_size = 2, processor_queue = [], config = Some example_config,
      batch_managers = (\<lambda>a. {}), score_managers = (\<lambda>a. []), instance_score_manager = [],
      score_tracker = [], next_addr = 0, next_task_id = 0, workers = [], files = Map.empty,
      can_create = (\<lambda>f. True), history = []\<rparr>"

definition example_iterator :: "int OnlineBatchesIterator" where
  "example_iterator =
     new_OnlineBatchesIterator [''b1'', ''b2'', ''b3'', ''b4''] [1, 1, 1, 1] [2, 4] [5, 6] [7, 8]"

definition example_registry_world :: "(int, nat list \<times> string) world" where
  "example_registry_world = example_world\<lparr>models := [''pwt'' \<mapsto> example_matrix ''pwt'']\<rparr>"

definition example_process_args :: "int ProcessBatchesArgs" where
  "example_process_args =
     example_args\<lparr>pwt_source_name := ''pwt'', nwt_target_name := Some ''nwt'',
       batch_filename := [''b1'', ''b2''], batch_weight := [1, 1]\<rparr>"

text \<open>A matrix with one token and more than \<open>100 * 1024 * 1024\<close> topics.\<close>

definition wide_matrix :: "int PhiMatrix" where
  "wide_matrix =
     \<lparr>phi_model_name = ''pwt'', phi_topic_name = map string_of_nat [0 ..< 104857601],
      phi_token = [\<lparr>keyword = ''a'', class_id = ''c''\<rparr>], phi_cells = [replicate 104857601 0]\<rparr>"

text \<open>
  Two files with the version byte, one chunk of two bytes, and then the length 0: in
  \<open>''m''\<close> one more byte follows the length, \<open>''t''\<close> ends with it.
\<close>

definition example_import_world :: "(int, nat list \<times> string) world" where
  "example_import_world =
     example_registry_world
       \<lparr>files := [''m'' \<mapsto> char_of (0 :: nat) # ''2ok0x'', ''t'' \<mapsto> char_of (0 :: nat) # ''2ok0'']\<rparr>"




definition example_online_args :: "int FitOnlineMasterModelArgs" where
  "example_online_args =
     \<lparr>fo_batch_filename = [''b1'', ''b2''], fo_batch_weight = [1, 1], fo_update_after = [1, 2],
      fo_apply_weight = [5, 6], fo_decay_weight = [7, 8], fo_async = True\<rparr>"

definition example_online_world :: "(int, nat list \<times> string) world" where
  "example_online_world = example_registry_world\<lparr>workers := [[0], [1]]\<rparr>"

section \<open>Properties\<close>

subsection \<open>Basic facts\<close>

lemma calls_simps [simp]:
  "calls [] = []"
  "calls (xs @ ys) = calls xs @ calls ys"
  "calls (ev # xs) = (if is_call ev then ev # calls xs else calls xs)"
  by (simp_all add: calls_def)

lemma is_call_simps [simp]:
  "is_call Call_ClearScoreCache"
  "is_call (Call_ProcessBatches p n fs ws a bm sm)"
  "is_call (Call_MergeModel ma)"
  "is_call (Call_RegularizeModel ra)"
  "is_call (Call_NormalizeModel na)"
  "is_call (Call_DisposeModel nm)"
  "is_call (Call_StoreScores s)"
  "\<not> is_call (Ev_SetPhiMatrix nm m)"
  "\<not> is_call (Ev_Push t)"
  "\<not> is_call (Ev_Poll b r)"
  "\<not> is_call (Ev_RequestThetaMatrix l)"
  "\<not> is_call (Ev_Warning_ModelDoesNotExist nm)"
  by (simp_all add: is_call_def)

lemma only_events_refl [simp]: "only_events w w"
  by (simp add: only_events_def)

lemma only_events_trans: "only_events w w1 \<Longrightarrow> only_events w1 w2 \<Longrightarrow> only_events w w2"
  by (auto simp: only_events_def)

lemma bind_simps [simp]:
  "bind (Ok a, s) f = f a s"
  "bind (Raised e, s) f = (Raised e, s)"
  "bind (Hangs, s) f = (Hangs, s)"
  by (simp_all add: bind_def)

lemma record_event_fields [simp]:
  "models (record_event ev w) = models w"
  "processor_size (record_event ev w) = processor_size w"
  "processor_queue (record_event ev w) = processor_queue w"
  "config (record_event ev w) = config w"
  "batch_managers (record_event ev w) = batch_managers w"
  "score_managers (record_event ev w) = score_managers w"
  "next_task_id (record_event ev w) = next_task_id w"
  "next_addr (record_event ev w) = next_addr w"
  "workers (record_event ev w) = workers w"
  "history (record_event ev w) = history w @ [ev]"
  by (simp_all add: record_event_def)

lemma SetPhiMatrix_fields [simp]:
  "models (SetPhiMatrix n m w) = (models w)(n \<mapsto> m)"
  "processor_size (SetPhiMatrix n m w) = processor_size w"
  "processor_queue (SetPhiMatrix n m w) = processor_queue w"
  "config (SetPhiMatrix n m w) = config w"
  "batch_managers (SetPhiMatrix n m w) = batch_managers w"
  "score_managers (SetPhiMatrix n m w) = score_managers w"
  "next_task_id (SetPhiMatrix n m w) = next_task_id w"
  "next_addr (SetPhiMatrix n m w) = next_addr w"
  "workers (SetPhiMatrix n m w) = workers w"
  "history (SetPhiMatrix n m w) = history w @ [Ev_SetPhiMatrix n m]"
  by (simp_all add: SetPhiMatrix_def)

lemma only_events_record_event [simp]: "\<not> is_call ev \<Longrightarrow> only_events w (record_event ev w)"
  by (simp add: only_events_def)

lemma only_events_bind:
  assumes "only_events w (snd r)"
    and "\<And>a s. r = (Ok a, s) \<Longrightarrow> only_events s (snd (f a s))"
  shows "only_events w (snd (bind r f))"
proof (cases r)
  case (Pair x s)
  then show ?thesis
    using assms by (cases x) (auto intro: only_events_trans)
qed

lemma map_offset: "map (\<lambda>d. f (t + d)) [0..<n] = map f [t..<t + n]"
  by (induction n) simp_all

lemma map_plus_upt: "map ((+) t) [0..<n] = [t..<t + n]"
  by (induction n) simp_all

lemma bind_eq_Ok:
  "bind r f = (Ok b, s') \<longleftrightarrow> (\<exists>a s. r = (Ok a, s) \<and> f a s = (Ok b, s'))"
  by (cases r; cases "fst r") (auto simp: bind_def)

lemma bind_Hangs:
  "fst (bind r f) = Hangs \<Longrightarrow>
     (fst r = Hangs \<and> snd (bind r f) = snd r) \<or> (\<exists>a s. r = (Ok a, s) \<and> fst (f a s) = Hangs)"
  by (cases r; cases "fst r") (auto simp: bind_def)

lemma sum_case_eq_Ok:
  "(case x of Inl e \<Rightarrow> (Raised e, s) | Inr v \<Rightarrow> g v) = (Ok a, w') \<longleftrightarrow>
     (\<exists>v. x = Inr v \<and> g v = (Ok a, w'))"
  by (cases x) auto

subsection \<open>The online iterator\<close>

lemma move_loop_slice:
  assumes "hi \<le> length (it_batch_filename iter)" "hi \<le> length (it_batch_weight iter)"
    and "hi \<le> 2 ^ 31"
  shows "move_loop iter i hi args =
     Inr (args\<lparr>batch_filename := batch_filename args @ map ((!) (it_batch_filename iter)) [i..<hi],
               batch_weight := batch_weight args @ map ((!) (it_batch_weight iter)) [i..<hi]\<rparr>)"
  using assms
proof (induction iter i hi args rule: move_loop.induct)
  case (1 iter i last_i args)
  show ?case
  proof (cases "i < last_i")
    case True
    then have rng: "unsigned_to_int i = int i" "i < length (it_batch_filename iter)"
      "i < length (it_batch_weight iter)"
      using "1.prems" by (auto simp: unsigned_to_int_def)
    have g1: "Get (it_batch_filename iter) (int i) = Inr (it_batch_filename iter ! i)"
      and g2: "Get (it_batch_weight iter) (int i) = Inr (it_batch_weight iter ! i)"
      using rng by (simp_all add: Get_def)
    show ?thesis
      using True "1.IH" "1.prems"
      by (subst move_loop.simps) (simp add: rng g1 g2 upt_conv_Cons)
  next
    case False
    then show ?thesis by (subst move_loop.simps) simp
  qed
qed

text \<open>
  C4. \<open>more\<close> holds exactly when the cursor is below the length of \<open>update_after\<close>. \<open>move\<close>
  replaces the batch lists of the arguments: when the cursor is out of range by empty lists,
  leaving the cursor; when it is in range by the file names and weights with indices from
  \<open>lo\<close> (the previous entry of \<open>update_after\<close>, or 0 at cursor 0) up to but excluding \<open>hi\<close>
  (the entry at the cursor), in order, and the cursor grows by one. The group has to lie
  inside the two batch arrays (the iterator's invariant); outside, the reads are undefined.
\<close>

theorem online_iterator_more_move:
  fixes iter :: "'f OnlineBatchesIterator"
  defines "lo \<equiv> (if it_current iter = 0 then 0 else it_update_after iter ! (it_current iter - 1))"
    and "hi \<equiv> it_update_after iter ! it_current iter"
  assumes rng: "it_current iter < length (it_update_after iter) \<Longrightarrow>
        0 \<le> lo \<and> lo < 2 ^ 31 \<and> 0 \<le> hi \<and> hi \<le> int (length (it_batch_filename iter)) \<and>
        hi \<le> int (length (it_batch_weight iter)) \<and> length (it_batch_filename iter) < 2 ^ 31"
  shows "(iter_more iter \<longleftrightarrow> it_current iter < length (it_update_after iter)) \<and>
    move iter args =
      (if it_current iter < length (it_update_after iter) then
         Inr (iter\<lparr>it_current := it_current iter + 1\<rparr>,
              args\<lparr>batch_filename := map ((!) (it_batch_filename iter)) [nat lo..<nat hi],
                   batch_weight := map ((!) (it_batch_weight iter)) [nat lo..<nat hi]\<rparr>)
       else Inr (iter, args\<lparr>batch_filename := [], batch_weight := []\<rparr>))"
proof (cases "it_current iter < length (it_update_after iter)")
  case False
  then show ?thesis by (simp add: iter_more_def move_def)
next
  case True
  note r = rng[OF True]
  have g1: "(if it_current iter = 0 then Inr 0
               else Get (it_update_after iter) (int (it_current iter) - 1)) = Inr lo"
    using True by (auto simp: lo_def Get_def nat_diff_distrib)
  have g2: "Get (it_update_after iter) (int (it_current iter)) = Inr hi"
    using True by (simp add: hi_def Get_def)
  have u1: "int_to_unsigned lo = nat lo" using r by (simp add: int_to_unsigned_def)
  have u2: "int_to_unsigned hi = nat hi" using r by (simp add: int_to_unsigned_def)
  have "move_loop iter (nat lo) (nat hi) (args\<lparr>batch_filename := [], batch_weight := []\<rparr>) =
      Inr (args\<lparr>batch_filename := map ((!) (it_batch_filename iter)) [nat lo..<nat hi],
                batch_weight := map ((!) (it_batch_weight iter)) [nat lo..<nat hi]\<rparr>)"
    using r by (subst move_loop_slice) auto
  then show ?thesis
    using True by (simp add: iter_more_def move_def Let_def g1 g2 u1 u2)
qed

theorem online_iterator_more_move_witness:
  "iter_more (example_iterator\<lparr>it_current := 1\<rparr>) \<and>
   move (example_iterator\<lparr>it_current := 1\<rparr>) example_args =
     Inr (example_iterator\<lparr>it_current := 2\<rparr>,
          example_args\<lparr>batch_filename := [''b3'', ''b4''], batch_weight := [1, 1]\<rparr>)"
  using online_iterator_more_move [of "example_iterator\<lparr>it_current := 1\<rparr>" example_args]
  by (simp add: example_iterator_def new_OnlineBatchesIterator_def upt_conv_Cons)

subsection \<open>MergeModel\<close>

lemma merge_sources_world:
  "snd (merge_sources k args ps tgt w) =
     w\<lparr>history := history w @
        map Ev_Warning_ModelDoesNotExist (filter (\<lambda>n. models w n = None) (map fst ps))\<rparr>"
proof (induction ps arbitrary: tgt w)
  case Nil
  then show ?case by simp
next
  case (Cons p ps)
  obtain n wt where p: "p = (n, wt)" by (cases p)
  show ?case
    by (cases "models w n") (simp_all add: p GetPhiMatrix_def Cons.IH record_event_def Let_def)
qed

lemma merge_sources_None_iff:
  "fst (merge_sources k args ps tgt w) = None \<longleftrightarrow>
     tgt = None \<and> (\<forall>n \<in> set (map fst ps). models w n = None)"
proof (induction ps arbitrary: tgt w)
  case Nil
  then show ?case by simp
next
  case (Cons p ps)
  obtain n wt where p: "p = (n, wt)" by (cases p)
  show ?case
    by (cases "models w n") (auto simp: p GetPhiMatrix_def Cons.IH record_event_def Let_def)
qed

lemma merge_sources_target:
  "fst (merge_sources k args ps tgt w) =
     (let pr = List.map_filter (\<lambda>(n, wt). map_option (\<lambda>m. (wt, m)) (models w n)) ps in
      if pr = [] then tgt
      else Some (foldl (merge_step k)
                   (case tgt of
                      None \<Rightarrow>
                        DensePhiMatrix (mm_nwt_target_name args)
                          (if mm_topic_name args = [] then phi_topic_name (snd (hd pr))
                           else mm_topic_name args)
                    | Some t \<Rightarrow> t) pr))"
proof (induction ps arbitrary: tgt w)
  case Nil
  then show ?case by (simp add: List.map_filter_simps)
next
  case (Cons p ps)
  obtain n wt where p: "p = (n, wt)" by (cases p)
  show ?case
  proof (cases "models w n")
    case None
    then show ?thesis
      by (simp add: p GetPhiMatrix_def Cons.IH record_event_def List.map_filter_simps)
  next
    case (Some m)
    then show ?thesis
      by (cases tgt)
         (simp_all add: p GetPhiMatrix_def Cons.IH Let_def List.map_filter_simps merge_step_def)
  qed
qed

text \<open>
  C5. \<open>MergeModel\<close> raises \<open>InvalidOperation\<close> exactly when the source names and the weights
  differ in number or no listed source is in the registry (an empty list included), and then
  the registry is as before. Otherwise it returns: one warning is logged for every missing
  source, in order, and the registry differs from the old one only under the target name,
  where it holds \<open>merged_target\<close>: the matrix with the target name and the topic names of the
  arguments (or of the first source found) to which every source found has been added with
  its weight, in the order of the list.
\<close>

theorem MergeModel_raises_iff:
  fixes args :: "'f MergeModelArgs" and w :: "('f, 'sd) world" and k :: "('f, 'sd) kernels"
  defines "src \<equiv> mm_nwt_source_name args" and "wts \<equiv> mm_source_weight args"
  defines "missing \<equiv> filter (\<lambda>n. models w n = None) src"
  defines "t \<equiv> merged_target k args (present_sources w args)"
  shows "(fst (MergeModel k args w) = Raised InvalidOperation \<longleftrightarrow>
            length src \<noteq> length wts \<or> (\<forall>n \<in> set src. models w n = None)) \<and>
         (fst (MergeModel k args w) = Raised InvalidOperation \<longrightarrow>
            models (snd (MergeModel k args w)) = models w) \<and>
         (fst (MergeModel k args w) \<noteq> Raised InvalidOperation \<longrightarrow>
            MergeModel k args w =
               (Ok (),
                w\<lparr>models := (models w)(mm_nwt_target_name args \<mapsto> t),
                  history := history w @ [Call_MergeModel args] @
                    map Ev_Warning_ModelDoesNotExist missing @
                    [Ev_SetPhiMatrix (mm_nwt_target_name args) t]\<rparr>))"
proof -
  let ?w = "record_event (Call_MergeModel args) w"
  let ?r = "merge_sources k args (zip src wts) None ?w"
  have m: "models ?w = models w" by (simp add: record_event_def)
  show ?thesis
  proof (cases "length src = length wts")
    case False
    then show ?thesis
      by (auto simp: MergeModel_def Let_def src_def wts_def record_event_def)
  next
    case True
    then have z: "map fst (zip src wts) = src" by simp
    have snd_r: "snd ?r = ?w\<lparr>history := history ?w @ map Ev_Warning_ModelDoesNotExist missing\<rparr>"
      by (simp add: merge_sources_world z m missing_def)
    have none_r: "fst ?r = None \<longleftrightarrow> (\<forall>n \<in> set src. models w n = None)"
      using merge_sources_None_iff[of k args "zip src wts" None ?w] by (simp only: z m) simp
    show ?thesis
    proof (cases "fst ?r")
      case None
      then have "?r = (None, snd ?r)" by (metis prod.collapse)
      then show ?thesis
        using None none_r True snd_r
        by (auto simp: MergeModel_def Let_def src_def[symmetric] wts_def[symmetric] record_event_def)
    next
      case (Some t')
      have "fst ?r = Some t \<or> fst ?r = None"
        unfolding merge_sources_target[of k args "zip src wts" None ?w] m
        by (simp add: Let_def t_def merged_target_def present_sources_def src_def wts_def)
      with Some have t': "t' = t" by simp
      from Some have "?r = (Some t, snd ?r)" unfolding t' by (metis prod.collapse)
      then show ?thesis
        using Some none_r True snd_r
        by (auto simp: MergeModel_def Let_def src_def[symmetric] wts_def[symmetric]
            record_event_def SetPhiMatrix_def)
    qed
  qed
qed

theorem MergeModel_raises_iff_witness:
  "fst (MergeModel example_kernels
          \<lparr>mm_nwt_source_name = [''nwt'', ''nwt_hat0''], mm_source_weight = [7, 5],
           mm_nwt_target_name = ''nwt'', mm_topic_name = []\<rparr>
          (example_world\<lparr>models := [''nwt_hat0'' \<mapsto> example_matrix ''nwt_hat0'']\<rparr>))
     = Ok () \<and>
   models (snd (MergeModel example_kernels
          \<lparr>mm_nwt_source_name = [''nwt'', ''nwt_hat0''], mm_source_weight = [7, 5],
           mm_nwt_target_name = ''nwt'', mm_topic_name = []\<rparr>
          (example_world\<lparr>models := [''nwt_hat0'' \<mapsto> example_matrix ''nwt_hat0'']\<rparr>))) ''nwt''
     = Some (DensePhiMatrix ''nwt'' [''t'']) \<and>
   fst (MergeModel example_kernels
          \<lparr>mm_nwt_source_name = [''nwt'', ''nwt_hat0''], mm_source_weight = [7, 5],
           mm_nwt_target_name = ''nwt'', mm_topic_name = []\<rparr>
          example_world)
     = Raised InvalidOperation"
proof -
  let ?args = "\<lparr>mm_nwt_source_name = [''nwt'', ''nwt_hat0''], mm_source_weight = [7, 5 :: int],
           mm_nwt_target_name = ''nwt'', mm_topic_name = []\<rparr>"
  let ?w = "example_world\<lparr>models := [''nwt_hat0'' \<mapsto> example_matrix ''nwt_hat0'']\<rparr>"
  note found = MergeModel_raises_iff [of example_kernels ?args ?w]
  note missing = MergeModel_raises_iff [of example_kernels ?args example_world]
  have t: "merged_target example_kernels ?args (present_sources ?w ?args) =
             DensePhiMatrix ''nwt'' [''t'']"
    by (simp add: merged_target_def present_sources_def merge_step_def List.map_filter_simps
        example_matrix_def example_kernels_def token_size_def example_world_def)
  have ne: "fst (MergeModel example_kernels ?args ?w) \<noteq> Raised InvalidOperation"
    using found by (simp add: example_world_def)
  with found have "MergeModel example_kernels ?args ?w =
      (Ok (),
       ?w\<lparr>models := (models ?w)(''nwt'' \<mapsto> DensePhiMatrix ''nwt'' [''t'']),
          history := history ?w @ [Call_MergeModel ?args] @
            map Ev_Warning_ModelDoesNotExist
              (filter (\<lambda>n. models ?w n = None) [''nwt'', ''nwt_hat0'']) @
            [Ev_SetPhiMatrix ''nwt'' (DensePhiMatrix ''nwt'' [''t''])]\<rparr>)"
    unfolding t by simp
  moreover have "fst (MergeModel example_kernels ?args example_world) = Raised InvalidOperation"
    using missing by (simp add: example_world_def)
  ultimately show ?thesis by simp
qed
subsection \<open>RequestProcessBatchesImpl\<close>

lemma createProcessorInput_eq:
  "createProcessorInput args bm sm tc pc mn w =
     (input_with_task args bm sm tc pc mn (next_task_id w),
      w\<lparr>next_task_id := next_task_id w + 1,
        batch_managers := (batch_managers w)(bm := insert (next_task_id w) (batch_managers w bm))\<rparr>)"
  by (simp add: createProcessorInput_def input_with_task_def Let_def)

lemma enqueue_batch_filename_ok:
  fixes w :: "('f, 'sd) world"
  assumes "length (batch_filename args) \<le> length (batch_weight args)"
    and "i \<le> length (batch_filename args)"
  shows "enqueue_batch_filename args bm sm tc pc mn i w =
     (Ok (),
      w\<lparr>next_task_id := next_task_id w + (length (batch_filename args) - i),
        batch_managers := (batch_managers w)
          (bm := batch_managers w bm \<union>
             {next_task_id w ..< next_task_id w + (length (batch_filename args) - i)}),
        processor_queue := processor_queue w @
          map (\<lambda>d. (input_with_task args bm sm tc pc mn (next_task_id w + d))
                     \<lparr>pi_batch_filename := Some (batch_filename args ! (i + d)),
                      pi_batch_weight := Some (batch_weight args ! (i + d))\<rparr>)
            [0 ..< length (batch_filename args) - i],
        history := history w @
          map (\<lambda>d. Ev_Push (next_task_id w + d)) [0 ..< length (batch_filename args) - i]\<rparr>)"
  using assms
proof (induction args bm sm tc pc mn i w rule: enqueue_batch_filename.induct)
  case (1 args bm sm tc pc mn i w)
  let ?n = "length (batch_filename args)"
  show ?case
  proof (cases "i < ?n")
    case False
    with "1.prems" have "i = ?n" by simp
    then show ?thesis by (subst enqueue_batch_filename.simps) simp
  next
    case True
    have g1: "Get (batch_filename args) (int i) = Inr (batch_filename args ! i)"
      and g2: "Get (batch_weight args) (int i) = Inr (batch_weight args ! i)"
      using True "1.prems" by (simp_all add: Get_def)
    have decomp: "[0..<?n - i] = 0 # map Suc [0..<?n - Suc i]"
      using True by (simp add: upt_conv_Cons map_Suc_upt Suc_diff_Suc)
    have img: "insert (next_task_id w) (batch_managers w bm) \<union>
          {Suc (next_task_id w)..<Suc (next_task_id w + (?n - Suc i))} =
        batch_managers w bm \<union> {next_task_id w..<next_task_id w + (?n - i)}"
      using True by auto
    let ?w1 = "push
        ((input_with_task args bm sm tc pc mn (next_task_id w))
           \<lparr>pi_batch_filename := Some (batch_filename args ! i),
            pi_batch_weight := Some (batch_weight args ! i)\<rparr>)
        (w\<lparr>next_task_id := next_task_id w + 1,
           batch_managers := (batch_managers w)(bm := insert (next_task_id w) (batch_managers w bm))\<rparr>)"
    have step: "enqueue_batch_filename args bm sm tc pc mn i w =
        enqueue_batch_filename args bm sm tc pc mn (i + 1) ?w1"
      by (subst enqueue_batch_filename.simps) (simp add: True createProcessorInput_eq g1 g2)
    have "Suc i \<le> ?n" using True by simp
    note ih = "1.IH"[OF True createProcessorInput_eq[symmetric] g1 g2 "1.prems"(1)]
    have a1: "Suc (next_task_id w + ?n - Suc i) = next_task_id w + ?n - i"
      using True by arith
    have a2: "insert (next_task_id w) (batch_managers w bm \<union>
          {Suc (next_task_id w)..<next_task_id w + ?n - i}) =
        batch_managers w bm \<union> {next_task_id w..<next_task_id w + ?n - i}"
      using True by auto
    show ?thesis
      unfolding step using ih True
      by (simp add: push_def record_event_def decomp comp_def a1 a2 fun_eq_iff input_with_task_def)
  qed
qed


lemma enqueue_batch_ok:
  fixes w :: "('f, 'sd) world"
  assumes "length (batch args) \<le> length (batch_weight args)"
    and "i \<le> length (batch args)"
  shows "enqueue_batch args bm sm tc pc mn i w =
     (Ok (),
      w\<lparr>next_task_id := next_task_id w + (length (batch args) - i),
        batch_managers := (batch_managers w)
          (bm := batch_managers w bm \<union>
             {next_task_id w ..< next_task_id w + (length (batch args) - i)}),
        processor_queue := processor_queue w @
          map (\<lambda>d. (input_with_task args bm sm tc pc mn (next_task_id w + d))
                     \<lparr>pi_batch := Some (batch args ! (i + d)),
                      pi_batch_weight := Some (batch_weight args ! (i + d))\<rparr>)
            [0 ..< length (batch args) - i],
        history := history w @
          map (\<lambda>d. Ev_Push (next_task_id w + d)) [0 ..< length (batch args) - i]\<rparr>)"
  using assms
proof (induction args bm sm tc pc mn i w rule: enqueue_batch.induct)
  case (1 args bm sm tc pc mn i w)
  let ?n = "length (batch args)"
  show ?case
  proof (cases "i < ?n")
    case False
    with "1.prems" have "i = ?n" by simp
    then show ?thesis by (subst enqueue_batch.simps) simp
  next
    case True
    have g1: "Get (batch args) (int i) = Inr (batch args ! i)"
      and g2: "Get (batch_weight args) (int i) = Inr (batch_weight args ! i)"
      using True "1.prems" by (simp_all add: Get_def)
    have decomp: "[0..<?n - i] = 0 # map Suc [0..<?n - Suc i]"
      using True by (simp add: upt_conv_Cons map_Suc_upt Suc_diff_Suc)
    let ?w1 = "push
        ((input_with_task args bm sm tc pc mn (next_task_id w))
           \<lparr>pi_batch := Some (batch args ! i),
            pi_batch_weight := Some (batch_weight args ! i)\<rparr>)
        (w\<lparr>next_task_id := next_task_id w + 1,
           batch_managers := (batch_managers w)(bm := insert (next_task_id w) (batch_managers w bm))\<rparr>)"
    have step: "enqueue_batch args bm sm tc pc mn i w =
        enqueue_batch args bm sm tc pc mn (i + 1) ?w1"
      by (subst enqueue_batch.simps) (simp add: True createProcessorInput_eq g1 g2)
    note ih = "1.IH"[OF True createProcessorInput_eq[symmetric] g1 g2 "1.prems"(1)]
    have a1: "Suc (next_task_id w + ?n - Suc i) = next_task_id w + ?n - i"
      using True by arith
    have a2: "insert (next_task_id w) (batch_managers w bm \<union>
          {Suc (next_task_id w)..<next_task_id w + ?n - i}) =
        batch_managers w bm \<union> {next_task_id w..<next_task_id w + ?n - i}"
      using True by auto
    show ?thesis
      unfolding step using ih True
      by (simp add: push_def record_event_def decomp comp_def a1 a2 fun_eq_iff input_with_task_def)
  qed
qed

lemma enqueue_batch_filename_frame:
  "only_events w (snd (enqueue_batch_filename args bm sm tc pc mn i w))"
proof (induction args bm sm tc pc mn i w rule: enqueue_batch_filename.induct)
  case (1 args bm sm tc pc mn i w)
  show ?case
    apply (subst enqueue_batch_filename.simps)
    apply (auto simp: createProcessorInput_eq split: sum.splits)
    subgoal by (simp add: only_events_def)
    subgoal by (simp add: only_events_def)
    subgoal for f bw
      using "1.IH"[OF _ createProcessorInput_eq[symmetric], of f bw]
      by (auto simp: only_events_def push_def record_event_def)
    done
qed

lemma enqueue_batch_frame:
  "only_events w (snd (enqueue_batch args bm sm tc pc mn i w))"
proof (induction args bm sm tc pc mn i w rule: enqueue_batch.induct)
  case (1 args bm sm tc pc mn i w)
  show ?case
    apply (subst enqueue_batch.simps)
    apply (auto simp: createProcessorInput_eq split: sum.splits)
    subgoal by (simp add: only_events_def)
    subgoal by (simp add: only_events_def)
    subgoal for f bw
      using "1.IH"[OF _ createProcessorInput_eq[symmetric], of f bw]
      by (auto simp: only_events_def push_def record_event_def)
    done
qed

lemma models_fold_complete_task:
  "models (fold complete_task ts w) = models w"
  "next_addr (fold complete_task ts w) = next_addr w"
  "config (fold complete_task ts w) = config w"
  by (induction ts arbitrary: w) (auto simp: complete_task_def split: option.splits)

lemma history_fold_complete_task:
  "history (fold complete_task ts w) = history w"
  by (induction ts arbitrary: w) (auto simp: complete_task_def split: option.splits)

lemma sleep_only_events:
  "sleep w = Some w' \<Longrightarrow> only_events w w'"
  by (auto simp: sleep_def only_events_def models_fold_complete_task history_fold_complete_task
      split: list.splits)

lemma wait_until_processed_frame:
  "only_events w (snd (wait_until_processed bm w))"
proof (induction bm w rule: wait_until_processed.induct)
  case (1 bm w)
  show ?case
  proof (cases "IsEverythingProcessed bm w")
    case True
    then show ?thesis by (subst wait_until_processed.simps) simp
  next
    case False
    show ?thesis
    proof (cases "sleep (record_event (Ev_Poll bm False) w)")
      case None
      with False show ?thesis by (subst wait_until_processed.simps) simp
    next
      case (Some w1)
      have a: "only_events w (record_event (Ev_Poll bm False) w)" by simp
      have b: "only_events (record_event (Ev_Poll bm False) w) w1"
        using Some by (rule sleep_only_events)
      have c: "only_events w1 (snd (wait_until_processed bm w1))"
        using False Some by (rule "1.IH")
      from only_events_trans[OF only_events_trans[OF a b] c] show ?thesis
        using False Some by (subst wait_until_processed.simps) simp
    qed
  qed
qed

text \<open>What the polling loop guarantees when it returns, and when it does not return.\<close>

lemma wait_until_processed_Ok:
  "wait_until_processed bm w = (Ok u, w') \<Longrightarrow>
     IsEverythingProcessed bm w' \<and>
     (\<exists>n. history w' = history w @ replicate n (Ev_Poll bm False) @ [Ev_Poll bm True])"
proof (induction bm w rule: wait_until_processed.induct)
  case (1 bm w)
  show ?case
  proof (cases "IsEverythingProcessed bm w")
    case True
    with "1.prems" have "w' = record_event (Ev_Poll bm True) w"
      by (subst (asm) wait_until_processed.simps) simp
    with True show ?thesis
      by (auto simp: record_event_def IsEverythingProcessed_def intro: exI[of _ 0])
  next
    case False
    with "1.prems" obtain w1 where s: "sleep (record_event (Ev_Poll bm False) w) = Some w1"
      and r: "wait_until_processed bm w1 = (Ok u, w')"
      by (subst (asm) wait_until_processed.simps) (auto split: option.splits)
    from "1.IH"[OF False s r] obtain n where
      p: "IsEverythingProcessed bm w'"
      and h: "history w' = history w1 @ replicate n (Ev_Poll bm False) @ [Ev_Poll bm True]"
      by auto
    have "history w1 = history w @ [Ev_Poll bm False]"
      using s by (auto simp: sleep_def record_event_def history_fold_complete_task split: list.splits)
    with h have "history w' = history w @ replicate (Suc n) (Ev_Poll bm False) @ [Ev_Poll bm True]"
      by (simp add: replicate_app_Cons_same)
    with p show ?thesis by blast
  qed
qed

lemma wait_until_processed_Hangs:
  "fst (wait_until_processed bm w) = Hangs \<Longrightarrow>
     \<not> IsEverythingProcessed bm (snd (wait_until_processed bm w)) \<and>
     workers (snd (wait_until_processed bm w)) = []"
proof (induction bm w rule: wait_until_processed.induct)
  case (1 bm w)
  show ?case
  proof (cases "IsEverythingProcessed bm w")
    case True
    with "1.prems" show ?thesis by (subst (asm) wait_until_processed.simps) simp
  next
    case False
    show ?thesis
    proof (cases "sleep (record_event (Ev_Poll bm False) w)")
      case None
      then have "workers w = []"
        by (auto simp: sleep_def record_event_def split: list.splits)
      with None False show ?thesis
        by (subst (1 2) wait_until_processed.simps)
           (simp add: record_event_def IsEverythingProcessed_def)
    next
      case (Some w1)
      have e: "wait_until_processed bm w = wait_until_processed bm w1"
        using False Some by (subst wait_until_processed.simps) simp
      from "1.IH"[OF False Some] "1.prems" show ?thesis by (simp add: e)
    qed
  qed
qed

lemma wait_until_processed_not_Raised:
  "fst (wait_until_processed bm w) \<noteq> Raised e"
proof (induction bm w rule: wait_until_processed.induct)
  case (1 bm w)
  show ?case
    apply (subst wait_until_processed.simps)
    using "1.IH" by (auto split: option.splits)
qed


lemma theta_cache_None [simp]:
  "theta_matrix_type args = TMT_None \<Longrightarrow> theta_cache_manager_ptr_of args w = Inr None"
  by (simp add: theta_cache_manager_ptr_of_def)

lemma theta_matrix_type_topic [simp]:
  "theta_cache_manager_ptr_of (args\<lparr>pba_topic_name := t\<rparr>) w = theta_cache_manager_ptr_of args w"
  "ptdw_cache_manager_ptr_of (args\<lparr>pba_topic_name := t\<rparr>) = ptdw_cache_manager_ptr_of args"
  "theta_layout_of (args\<lparr>pba_topic_name := t\<rparr>) = theta_layout_of args"
  by (simp_all add: theta_cache_manager_ptr_of_def ptdw_cache_manager_ptr_of_def theta_layout_of_def)

lemma theta_cache_frame [simp]:
  "theta_cache_manager_ptr_of args (SetPhiMatrix n m w) = theta_cache_manager_ptr_of args w"
  "theta_cache_manager_ptr_of args (record_event ev w) = theta_cache_manager_ptr_of args w"
  by (simp_all add: theta_cache_manager_ptr_of_def split: ThetaMatrixType.splits)


lemma enqueue_batch_filename_not_Hangs:
  "fst (enqueue_batch_filename args bm sm tc pc mn i w) \<noteq> Hangs"
proof (induction args bm sm tc pc mn i w rule: enqueue_batch_filename.induct)
  case (1 args bm sm tc pc mn i w)
  show ?case
    apply (subst enqueue_batch_filename.simps)
    using "1.IH" by (auto split: sum.splits prod.splits)
qed

lemma enqueue_batch_not_Hangs:
  "fst (enqueue_batch args bm sm tc pc mn i w) \<noteq> Hangs"
proof (induction args bm sm tc pc mn i w rule: enqueue_batch.induct)
  case (1 args bm sm tc pc mn i w)
  show ?case
    apply (subst enqueue_batch.simps)
    using "1.IH" by (auto split: sum.splits prod.splits)
qed

lemma enqueue_tasks_not_Hangs:
  "fst (enqueue_tasks args bm sm tc pc mn w) \<noteq> Hangs"
  using enqueue_batch_filename_not_Hangs[of args bm sm tc pc mn 0 w]
    enqueue_batch_not_Hangs[of args bm sm tc pc mn 0]
  by (auto simp: enqueue_tasks_def dest!: bind_Hangs)

lemma enqueue_tasks_frame:
  "only_events w (snd (enqueue_tasks args bm sm tc pc mn w))"
  unfolding enqueue_tasks_def
  by (intro only_events_bind enqueue_batch_filename_frame enqueue_batch_frame)

lemma enqueue_tasks_ok:
  fixes w :: "('f, 'sd) world"
  assumes "length (batch_filename args) \<le> length (batch_weight args)"
    and "length (batch args) \<le> length (batch_weight args)"
  defines "m \<equiv> length (batch_filename args) + length (batch args)"
  shows "\<exists>q. enqueue_tasks args bm sm tc pc mn w =
     (Ok (),
      w\<lparr>next_task_id := next_task_id w + m,
        batch_managers := (batch_managers w)
          (bm := batch_managers w bm \<union> {next_task_id w ..< next_task_id w + m}),
        processor_queue := processor_queue w @ q,
        history := history w @ map Ev_Push [next_task_id w ..< next_task_id w + m]\<rparr>) \<and>
     map pi_task_id q = [next_task_id w ..< next_task_id w + m]"
proof -
  have up: "[t..<t + (a + b)] = [t..<t + a] @ [t + a..<t + a + b]" for t a b :: nat
    by (metis add.assoc le_add1 upt_add_eq_append)
  have un: "{t..<t + a} \<union> {t + a..<t + a + b} = {t..<t + (a + b)}" for t a b :: nat
    by auto
  show ?thesis
    using assms(1,2)
    apply (simp add: enqueue_tasks_def enqueue_batch_filename_ok enqueue_batch_ok m_def)
    apply (rule exI[of _ "map (\<lambda>d. (input_with_task args bm sm tc pc mn (next_task_id w + d))
                     \<lparr>pi_batch_filename := Some (batch_filename args ! d),
                      pi_batch_weight := Some (batch_weight args ! d)\<rparr>)
            [0 ..< length (batch_filename args)] @
          map (\<lambda>d. (input_with_task args bm sm tc pc mn (next_task_id w + length (batch_filename args) + d))
                     \<lparr>pi_batch := Some (batch args ! d),
                      pi_batch_weight := Some (batch_weight args ! d)\<rparr>)
            [0 ..< length (batch args)]"])
    apply (simp add: map_offset map_plus_upt comp_def input_with_task_def up un Un_assoc fun_eq_iff)
    done
qed

lemma install_nwt_target_frame:
  "install_nwt_target args p_wt w = (Ok u, w1) \<Longrightarrow>
     w1 = (case nwt_target_name args of None \<Rightarrow> w
           | Some target \<Rightarrow>
               SetPhiMatrix target (Reshape (DensePhiMatrix target (phi_topic_name p_wt)) p_wt) w)"
  by (auto simp: install_nwt_target_def split: option.splits if_splits)

lemma wait_and_request_theta_frame:
  "only_events w (snd (wait_and_request_theta args bm th w))"
  unfolding wait_and_request_theta_def
  by (intro only_events_bind wait_until_processed_frame) auto

lemma wait_and_request_theta_Ok:
  assumes "wait_and_request_theta args bm th w = (Ok a, w')"
  shows "IsEverythingProcessed bm w' \<and>
     (\<exists>n. history w' =
        history w @ replicate n (Ev_Poll bm False) @ [Ev_Poll bm True] @
        (if th \<and> has_theta_matrix_type args
         then [Ev_RequestThetaMatrix (theta_layout_of args)] else []))"
proof -
  from assms obtain u w4 where wt: "wait_until_processed bm w = (Ok u, w4)"
    and f: "(if th \<and> has_theta_matrix_type args
             then (Ok args, record_event (Ev_RequestThetaMatrix (theta_layout_of args)) w4)
             else (Ok args, w4)) = (Ok a, w')"
    unfolding wait_and_request_theta_def bind_eq_Ok by blast
  from f have w': "w' = (if th \<and> has_theta_matrix_type args
                  then record_event (Ev_RequestThetaMatrix (theta_layout_of args)) w4 else w4)"
    by (auto split: if_splits)
  from wait_until_processed_Ok[OF wt] w' show ?thesis
    by (auto simp: IsEverythingProcessed_def)
qed

lemma wait_and_request_theta_Hangs:
  assumes "fst (wait_and_request_theta args bm th w) = Hangs"
  shows "\<not> IsEverythingProcessed bm (snd (wait_and_request_theta args bm th w)) \<and>
     workers (snd (wait_and_request_theta args bm th w)) = []"
proof -
  let ?f = "\<lambda>(_::unit) w4.
          if th \<and> has_theta_matrix_type args then
            (Ok args, record_event (Ev_RequestThetaMatrix (theta_layout_of args)) w4)
          else (Ok args, w4)"
  from assms have "fst (bind (wait_until_processed bm w) ?f) = Hangs"
    by (simp add: wait_and_request_theta_def)
  from bind_Hangs[OF this] have "fst (wait_until_processed bm w) = Hangs"
    and "snd (bind (wait_until_processed bm w) ?f) = snd (wait_until_processed bm w)"
    by (auto split: if_splits)
  with wait_until_processed_Hangs[of bm w] show ?thesis
    by (simp add: wait_and_request_theta_def)
qed

text \<open>The part of the call after the target matrix has been installed only adds events.\<close>

lemma ProcessBatches_after_install:
  fixes w :: "('f::zero, 'sd) world"
  assumes "models w (pwt_source_name args) = Some p_wt"
    and "nwt_target_name args = Some target" "target \<noteq> pwt_source_name args"
    and "0 < processor_size w"
  shows "only_events
          (SetPhiMatrix target (Reshape (DensePhiMatrix target (phi_topic_name p_wt)) p_wt)
            (record_event (Call_ProcessBatches (pwt_source_name args) (nwt_target_name args)
               (batch_filename args) (batch_weight args) async bm sm) w))
          (snd (RequestProcessBatchesImpl args bm async sm th w))"
  using assms
  by (auto simp: RequestProcessBatchesImpl_def Let_def GetPhiMatrixSafe_def install_nwt_target_def
      split: sum.splits
      intro!: only_events_bind enqueue_tasks_frame wait_and_request_theta_frame)

text \<open>
  C10. The check of \<open>async\<close> against \<open>theta_matrix_type\<close> comes after the target matrix has been
  installed: a call with a target name different from the source name, \<open>async\<close> set and a
  \<open>theta_matrix_type\<close> other than \<open>None\<close> raises \<open>InvalidOperation\<close>, and in the state at the
  \<^verbatim>\<open>throw\<close> the registry holds, under the target name, a new matrix with the topics and
  tokens of the source and all cells zero. Nothing else has changed but the history.
\<close>

theorem ProcessBatches_async_theta_error_mutates_registry:
  fixes w :: "('f::zero, 'sd) world"
  assumes "0 < processor_size w"
    and "models w (pwt_source_name args) = Some p_wt"
    and "nwt_target_name args = Some target"
    and "target \<noteq> pwt_source_name args"
    and "theta_matrix_type args \<noteq> TMT_None"
  shows "RequestProcessBatchesImpl args bm True sm th w =
     (Raised InvalidOperation,
      w\<lparr>models := (models w)(target \<mapsto>
           \<lparr>phi_model_name = target, phi_topic_name = phi_topic_name p_wt,
            phi_token = phi_token p_wt,
            phi_cells = replicate (length (phi_token p_wt))
                          (replicate (length (phi_topic_name p_wt)) 0)\<rparr>),
        history := history w @
          [Call_ProcessBatches (pwt_source_name args) (Some target) (batch_filename args)
             (batch_weight args) True bm sm,
           Ev_SetPhiMatrix target
             \<lparr>phi_model_name = target, phi_topic_name = phi_topic_name p_wt,
              phi_token = phi_token p_wt,
              phi_cells = replicate (length (phi_token p_wt))
                            (replicate (length (phi_topic_name p_wt)) 0)\<rparr>]\<rparr>)"
  using assms
  by (simp add: RequestProcessBatchesImpl_def Let_def record_event_def GetPhiMatrixSafe_def
      install_nwt_target_def SetPhiMatrix_def Reshape_def DensePhiMatrix_def)

theorem ProcessBatches_async_theta_error_mutates_registry_witness:
  "RequestProcessBatchesImpl (example_process_args\<lparr>theta_matrix_type := TMT_Dense\<rparr>) 0 True None False
       example_registry_world =
     (Raised InvalidOperation,
      example_registry_world
        \<lparr>models := [''pwt'' \<mapsto> example_matrix ''pwt'',
                    ''nwt'' \<mapsto> \<lparr>phi_model_name = ''nwt'', phi_topic_name = [''t''],
                               phi_token = [\<lparr>keyword = ''a'', class_id = ''c''\<rparr>],
                               phi_cells = [[0]]\<rparr>],
         history :=
           [Call_ProcessBatches ''pwt'' (Some ''nwt'') [''b1'', ''b2''] [1, 1] True 0 None,
            Ev_SetPhiMatrix ''nwt''
              \<lparr>phi_model_name = ''nwt'', phi_topic_name = [''t''],
               phi_token = [\<lparr>keyword = ''a'', class_id = ''c''\<rparr>], phi_cells = [[0]]\<rparr>]\<rparr>)"
  using ProcessBatches_async_theta_error_mutates_registry
    [of example_registry_world "example_process_args\<lparr>theta_matrix_type := TMT_Dense\<rparr>"
        "example_matrix ''pwt''" "''nwt''" 0 None False]
  by (simp add: example_registry_world_def example_world_def example_process_args_def
      example_args_def example_matrix_def)

text \<open>
  C8. With the source matrix in the registry: a call whose target name equals the source
  name raises \<open>InvalidOperation\<close> and changes nothing but the history; a call whose target
  name differs (and with a processor) makes a new matrix reshaped from the source and
  installs it under the target name, and every other event of the call, each \<open>Ev_Push\<close>
  among them, comes after that \<open>Ev_SetPhiMatrix\<close> in the history. Whatever the call does
  afterwards, the registry at its end is the old one with that matrix under the target name.
\<close>

theorem ProcessBatches_same_source_target:
  fixes w :: "('f::zero, 'sd) world"
  assumes "models w (pwt_source_name args) = Some p_wt"
  shows "(nwt_target_name args = Some (pwt_source_name args) \<longrightarrow>
            RequestProcessBatchesImpl args bm async sm th w =
              (Raised InvalidOperation,
               w\<lparr>history := history w @
                   [Call_ProcessBatches (pwt_source_name args) (nwt_target_name args)
                      (batch_filename args) (batch_weight args) async bm sm]\<rparr>)) \<and>
         (\<forall>target. nwt_target_name args = Some target \<and> target \<noteq> pwt_source_name args \<and>
              0 < processor_size w \<longrightarrow>
            models (snd (RequestProcessBatchesImpl args bm async sm th w)) =
              (models w)(target \<mapsto> Reshape (DensePhiMatrix target (phi_topic_name p_wt)) p_wt) \<and>
            (\<exists>evs. history (snd (RequestProcessBatchesImpl args bm async sm th w)) =
               history w @
               [Call_ProcessBatches (pwt_source_name args) (nwt_target_name args)
                  (batch_filename args) (batch_weight args) async bm sm,
                Ev_SetPhiMatrix target (Reshape (DensePhiMatrix target (phi_topic_name p_wt)) p_wt)]
               @ evs))"
  using assms ProcessBatches_after_install[OF assms, of _ async bm sm th]
  by (auto simp: RequestProcessBatchesImpl_def Let_def record_event_def GetPhiMatrixSafe_def
      install_nwt_target_def only_events_def)

theorem ProcessBatches_same_source_target_witness:
  "fst (RequestProcessBatchesImpl (example_process_args\<lparr>nwt_target_name := Some ''pwt''\<rparr>) 0 False
          None False example_registry_world) = Raised InvalidOperation \<and>
   models (snd (RequestProcessBatchesImpl example_process_args 0 False None False
                  example_registry_world)) =
     [''pwt'' \<mapsto> example_matrix ''pwt'',
      ''nwt'' \<mapsto> Reshape (DensePhiMatrix ''nwt'' [''t'']) (example_matrix ''pwt'')]"
  using ProcessBatches_same_source_target
    [of example_registry_world "example_process_args\<lparr>nwt_target_name := Some ''pwt''\<rparr>"
        "example_matrix ''pwt''" 0 False None False]
    ProcessBatches_same_source_target
    [of example_registry_world example_process_args "example_matrix ''pwt''" 0 False None False]
  by (simp add: example_registry_world_def example_world_def example_process_args_def
      example_args_def example_matrix_def)

text \<open>
  C9. With the source matrix in the registry and \<open>async\<close> set: for a \<open>theta_matrix_type\<close> other
  than \<open>None\<close> the call raises \<open>InvalidOperation\<close> and enqueues nothing. For \<open>None\<close> (with a
  processor, a target name that is not the source name, and a weight for every batch) it
  returns, the workers have not run, all its tasks are still outstanding in the batch
  manager and in the queue, and its events are the call, the installation of the target
  and one push per task: no poll of the batch manager.
\<close>

theorem ProcessBatches_async:
  fixes w :: "('f::zero, 'sd) world"
  assumes src: "models w (pwt_source_name args) = Some p_wt"
  shows "(theta_matrix_type args \<noteq> TMT_None \<longrightarrow>
            fst (RequestProcessBatchesImpl args bm True sm th w) = Raised InvalidOperation \<and>
            processor_queue (snd (RequestProcessBatchesImpl args bm True sm th w)) = processor_queue w) \<and>
         (theta_matrix_type args = TMT_None \<and> 0 < processor_size w \<and>
          nwt_target_name args \<noteq> Some (pwt_source_name args) \<and>
          length (batch_filename args) \<le> length (batch_weight args) \<and>
          length (batch args) \<le> length (batch_weight args) \<longrightarrow>
            fst (RequestProcessBatchesImpl args bm True sm th w) =
              Ok (args\<lparr>pba_topic_name := phi_topic_name p_wt\<rparr>) \<and>
            workers (snd (RequestProcessBatchesImpl args bm True sm th w)) = workers w \<and>
            batch_managers (snd (RequestProcessBatchesImpl args bm True sm th w)) bm =
              batch_managers w bm \<union>
              {next_task_id w ..<
               next_task_id w + (length (batch_filename args) + length (batch args))} \<and>
            map pi_task_id (processor_queue (snd (RequestProcessBatchesImpl args bm True sm th w))) =
              map pi_task_id (processor_queue w) @
              [next_task_id w ..<
               next_task_id w + (length (batch_filename args) + length (batch args))] \<and>
            history (snd (RequestProcessBatchesImpl args bm True sm th w)) =
              history w @
              [Call_ProcessBatches (pwt_source_name args) (nwt_target_name args)
                 (batch_filename args) (batch_weight args) True bm sm] @
              (case nwt_target_name args of
                 None \<Rightarrow> []
               | Some target \<Rightarrow>
                   [Ev_SetPhiMatrix target
                      (Reshape (DensePhiMatrix target (phi_topic_name p_wt)) p_wt)]) @
              map Ev_Push
                [next_task_id w ..<
                 next_task_id w + (length (batch_filename args) + length (batch args))])"
proof -
  let ?r = "RequestProcessBatchesImpl args bm True sm th w"
  let ?args = "args\<lparr>pba_topic_name := phi_topic_name p_wt\<rparr>"
  have 1: "fst ?r = Raised InvalidOperation \<and> processor_queue (snd ?r) = processor_queue w"
    if "theta_matrix_type args \<noteq> TMT_None"
    using src that
    by (auto simp: RequestProcessBatchesImpl_def Let_def GetPhiMatrixSafe_def install_nwt_target_def
        split: option.splits)
  have 2: "fst ?r = Ok ?args \<and> workers (snd ?r) = workers w \<and>
      batch_managers (snd ?r) bm = batch_managers w bm \<union>
        {next_task_id w ..< next_task_id w + (length (batch_filename args) + length (batch args))} \<and>
      map pi_task_id (processor_queue (snd ?r)) = map pi_task_id (processor_queue w) @
        [next_task_id w ..< next_task_id w + (length (batch_filename args) + length (batch args))] \<and>
      history (snd ?r) = history w @
        [Call_ProcessBatches (pwt_source_name args) (nwt_target_name args)
           (batch_filename args) (batch_weight args) True bm sm] @
        (case nwt_target_name args of None \<Rightarrow> []
         | Some target \<Rightarrow>
             [Ev_SetPhiMatrix target (Reshape (DensePhiMatrix target (phi_topic_name p_wt)) p_wt)]) @
        map Ev_Push
          [next_task_id w ..< next_task_id w + (length (batch_filename args) + length (batch args))]"
    if a: "theta_matrix_type args = TMT_None" "0 < processor_size w"
      "nwt_target_name args \<noteq> Some (pwt_source_name args)"
      "length (batch_filename args) \<le> length (batch_weight args)"
      "length (batch args) \<le> length (batch_weight args)"
  proof -
    define w1 where "w1 = snd (install_nwt_target ?args p_wt
        (record_event (Call_ProcessBatches (pwt_source_name args) (nwt_target_name args)
           (batch_filename args) (batch_weight args) True bm sm) w))"
    have i: "install_nwt_target ?args p_wt
        (record_event (Call_ProcessBatches (pwt_source_name args) (nwt_target_name args)
           (batch_filename args) (batch_weight args) True bm sm) w) = (Ok (), w1)"
      using a(3) by (auto simp: w1_def install_nwt_target_def split: option.splits)
    have w1: "next_task_id w1 = next_task_id w" "workers w1 = workers w"
      "batch_managers w1 = batch_managers w" "processor_queue w1 = processor_queue w"
      "history w1 = history w @
        [Call_ProcessBatches (pwt_source_name args) (nwt_target_name args)
           (batch_filename args) (batch_weight args) True bm sm] @
        (case nwt_target_name args of None \<Rightarrow> []
         | Some target \<Rightarrow>
             [Ev_SetPhiMatrix target (Reshape (DensePhiMatrix target (phi_topic_name p_wt)) p_wt)])"
      using a(3) by (auto simp: w1_def install_nwt_target_def split: option.splits)
    obtain q where e: "enqueue_tasks ?args bm sm None (ptdw_cache_manager_ptr_of args)
          (pwt_source_name args) w1 =
        (Ok (),
         w1\<lparr>next_task_id := next_task_id w1 + (length (batch_filename args) + length (batch args)),
           batch_managers := (batch_managers w1)
             (bm := batch_managers w1 bm \<union> {next_task_id w1 ..<
                next_task_id w1 + (length (batch_filename args) + length (batch args))}),
           processor_queue := processor_queue w1 @ q,
           history := history w1 @ map Ev_Push [next_task_id w1 ..<
                next_task_id w1 + (length (batch_filename args) + length (batch args))]\<rparr>)"
      and q: "map pi_task_id q = [next_task_id w1 ..<
                next_task_id w1 + (length (batch_filename args) + length (batch args))]"
      using enqueue_tasks_ok[of ?args bm sm None "ptdw_cache_manager_ptr_of args"
          "pwt_source_name args" w1] a(4,5)
      by auto
    have "?r = (Ok ?args, snd (enqueue_tasks ?args bm sm None (ptdw_cache_manager_ptr_of args)
          (pwt_source_name args) w1))"
      using src a(1,2) i e
      by (simp add: RequestProcessBatchesImpl_def Let_def GetPhiMatrixSafe_def)
    then show ?thesis
      by (simp add: e q w1)
  qed
  from 1 2 show ?thesis by blast
qed

theorem ProcessBatches_async_witness:
  "fst (RequestProcessBatchesImpl (example_process_args\<lparr>theta_matrix_type := TMT_Dense\<rparr>) 0 True
          None False example_registry_world) = Raised InvalidOperation \<and>
   fst (RequestProcessBatchesImpl (example_process_args\<lparr>theta_matrix_type := TMT_None\<rparr>) 0 True
          None False example_registry_world) =
     Ok (example_process_args\<lparr>theta_matrix_type := TMT_None, pba_topic_name := [''t'']\<rparr>) \<and>
   batch_managers
     (snd (RequestProcessBatchesImpl (example_process_args\<lparr>theta_matrix_type := TMT_None\<rparr>) 0 True
             None False example_registry_world)) 0 = {0 ..< 2}"
  using ProcessBatches_async
    [of example_registry_world "example_process_args\<lparr>theta_matrix_type := TMT_Dense\<rparr>"
        "example_matrix ''pwt''" 0 None False]
    ProcessBatches_async
    [of example_registry_world "example_process_args\<lparr>theta_matrix_type := TMT_None\<rparr>"
        "example_matrix ''pwt''" 0 None False]
  by (simp add: example_registry_world_def example_world_def example_process_args_def
      example_args_def example_matrix_def numeral_2_eq_2)

text \<open>
  C2. A call with \<open>async\<close> unset returns only from a state in which its batch manager has no
  outstanding task: the last events before the return are polls of \<open>IsEverythingProcessed\<close>
  that answered no, one per sleep, then one that answered yes, then the Theta request when
  one is due. The call never returns exactly when tasks stay outstanding after the workers
  have stopped.
\<close>

theorem ProcessBatches_sync_waits:
  fixes w :: "('f::zero, 'sd) world"
  shows "(\<forall>a w'. RequestProcessBatchesImpl args bm False sm th w = (Ok a, w') \<longrightarrow>
            IsEverythingProcessed bm w' \<and>
            (\<exists>h n. history w' =
               h @ replicate n (Ev_Poll bm False) @ [Ev_Poll bm True] @
               (if th \<and> has_theta_matrix_type args
                then [Ev_RequestThetaMatrix (theta_layout_of args)] else []))) \<and>
         (fst (RequestProcessBatchesImpl args bm False sm th w) = Hangs \<longrightarrow>
            \<not> IsEverythingProcessed bm (snd (RequestProcessBatchesImpl args bm False sm th w)) \<and>
            workers (snd (RequestProcessBatchesImpl args bm False sm th w)) = [])"
proof -
  let ?r = "RequestProcessBatchesImpl args bm False sm th w"
  have 1: "IsEverythingProcessed bm w' \<and>
            (\<exists>h n. history w' =
               h @ replicate n (Ev_Poll bm False) @ [Ev_Poll bm True] @
               (if th \<and> has_theta_matrix_type args
                then [Ev_RequestThetaMatrix (theta_layout_of args)] else []))"
    if r: "?r = (Ok a, w')" for a w'
  proof -
    from r have "\<exists>args' w3. wait_and_request_theta args' bm th w3 = (Ok a, w') \<and>
        has_theta_matrix_type args' = has_theta_matrix_type args \<and>
        theta_layout_of args' = theta_layout_of args"
      by (auto simp: RequestProcessBatchesImpl_def Let_def bind_eq_Ok sum_case_eq_Ok
          split: if_split_asm)
    then obtain args' w3 where wr: "wait_and_request_theta args' bm th w3 = (Ok a, w')"
      and same: "has_theta_matrix_type args' = has_theta_matrix_type args"
        "theta_layout_of args' = theta_layout_of args"
      by blast
    from wait_and_request_theta_Ok[OF wr] obtain n where
      p: "IsEverythingProcessed bm w'"
      and h: "history w' =
        history w3 @ replicate n (Ev_Poll bm False) @ [Ev_Poll bm True] @
        (if th \<and> has_theta_matrix_type args'
         then [Ev_RequestThetaMatrix (theta_layout_of args')] else [])"
      by blast
    from h same have "\<exists>h n. history w' =
               h @ replicate n (Ev_Poll bm False) @ [Ev_Poll bm True] @
               (if th \<and> has_theta_matrix_type args
                then [Ev_RequestThetaMatrix (theta_layout_of args)] else [])"
      by (intro exI[of _ "history w3"] exI[of _ n]) simp
    with p show ?thesis by blast
  qed
  have 2: "\<not> IsEverythingProcessed bm (snd ?r) \<and> workers (snd ?r) = []" if "fst ?r = Hangs"
    using that
    by (auto simp: RequestProcessBatchesImpl_def Let_def install_nwt_target_def
        enqueue_tasks_not_Hangs
        split: if_splits sum.splits option.splits dest!: bind_Hangs wait_and_request_theta_Hangs)
  from 1 2 show ?thesis by blast
qed

lemma example_sync_run:
  "fst (RequestProcessBatchesImpl example_process_args 0 False None False
          (example_registry_world\<lparr>workers := [[0], [1]]\<rparr>)) =
     Ok (example_process_args\<lparr>pba_topic_name := [''t'']\<rparr>)"
  by (simp add: insert_Diff_if RequestProcessBatchesImpl_def Let_def GetPhiMatrixSafe_def install_nwt_target_def
      enqueue_tasks_def enqueue_batch_filename.simps enqueue_batch.simps
      wait_and_request_theta_def wait_until_processed.simps createProcessorInput_def Get_def
      push_def IsEverythingProcessed_def sleep_def complete_task_def
      theta_cache_manager_ptr_of_def ptdw_cache_manager_ptr_of_def example_config_def
      example_registry_world_def example_world_def example_process_args_def
      example_args_def example_matrix_def)

theorem ProcessBatches_sync_waits_witness:
  "fst (RequestProcessBatchesImpl example_process_args 0 False None False
          (example_registry_world\<lparr>workers := [[0], [1]]\<rparr>)) =
     Ok (example_process_args\<lparr>pba_topic_name := [''t'']\<rparr>) \<and>
   IsEverythingProcessed 0
     (snd (RequestProcessBatchesImpl example_process_args 0 False None False
             (example_registry_world\<lparr>workers := [[0], [1]]\<rparr>))) \<and>
   fst (RequestProcessBatchesImpl example_process_args 0 False None False
          (example_registry_world\<lparr>workers := [[0]]\<rparr>)) = Hangs \<and>
   \<not> IsEverythingProcessed 0
     (snd (RequestProcessBatchesImpl example_process_args 0 False None False
             (example_registry_world\<lparr>workers := [[0]]\<rparr>)))"
proof -
  let ?r = "RequestProcessBatchesImpl example_process_args 0 False None False
          (example_registry_world\<lparr>workers := [[0], [1]]\<rparr>)"
  let ?h = "RequestProcessBatchesImpl example_process_args 0 False None False
          (example_registry_world\<lparr>workers := [[0]]\<rparr>)"
  have "?r = (Ok (example_process_args\<lparr>pba_topic_name := [''t'']\<rparr>), snd ?r)"
    using example_sync_run by (metis prod.collapse)
  moreover have "fst ?h = Hangs"
    by (simp add: RequestProcessBatchesImpl_def Let_def GetPhiMatrixSafe_def install_nwt_target_def
      enqueue_tasks_def enqueue_batch_filename.simps enqueue_batch.simps
      wait_and_request_theta_def wait_until_processed.simps createProcessorInput_def Get_def
      push_def IsEverythingProcessed_def sleep_def complete_task_def
      theta_cache_manager_ptr_of_def ptdw_cache_manager_ptr_of_def example_config_def
      example_registry_world_def example_world_def example_process_args_def
      example_args_def example_matrix_def)
  ultimately show ?thesis
    using example_sync_run
      ProcessBatches_sync_waits [of example_process_args 0 None False
        "example_registry_world\<lparr>workers := [[0], [1]]\<rparr>"]
      ProcessBatches_sync_waits [of example_process_args 0 None False
        "example_registry_world\<lparr>workers := [[0]]\<rparr>"]
    by blast
qed
subsection \<open>ExportModel\<close>

lemma request_tokens_append:
  "length (gtm_token a) = length (gtm_class_id a) \<Longrightarrow>
   request_tokens (a\<lparr>gtm_token := gtm_token a @ [keyword t], gtm_class_id := gtm_class_id a @ [class_id t]\<rparr>)
     = request_tokens a @ [t]"
  by (simp add: request_tokens_def)

lemma export_loop_spec:
  fixes n_wt :: "'f PhiMatrix"
  assumes "length (gtm_token a) = length (gtm_class_id a)"
    and "int (length (gtm_token a)) < max 1 tpc"
    and "i \<le> length (phi_token n_wt)"
  shows "\<exists>new. export_loop k n_wt tpc i a fout reqs =
            (fout @ concat (map (chunk_text k n_wt) new), reqs @ new) \<and>
          concat (map request_tokens new) @
            (if i = length (phi_token n_wt) then request_tokens a else []) =
            request_tokens a @ drop i (phi_token n_wt) \<and>
          (\<forall>c \<in> set new. 1 \<le> length (gtm_token c) \<and> int (length (gtm_token c)) \<le> max 1 tpc \<and>
             length (gtm_class_id c) = length (gtm_token c))"
  using assms
proof (induction "length (phi_token n_wt) - i" arbitrary: i a fout reqs)
  case 0
  then have "i = length (phi_token n_wt)" by simp
  then show ?case
    by (subst export_loop.simps) (simp add: token_size_def)
next
  case (Suc m)
  let ?n = "length (phi_token n_wt)"
  note prems = Suc.prems
  from Suc.hyps(2) have True: "i < ?n" and m: "m = ?n - (i + 1)" by simp_all
  show ?case
  proof -
    let ?t = "phi_token n_wt ! i"
    let ?a1 = "a\<lparr>gtm_token := gtm_token a @ [keyword ?t], gtm_class_id := gtm_class_id a @ [class_id ?t]\<rparr>"
    have rt: "request_tokens ?a1 = request_tokens a @ [?t]"
      using prems(1) by (rule request_tokens_append)
    have dr: "drop i (phi_token n_wt) = ?t # drop (Suc i) (phi_token n_wt)"
      using True by (simp add: Cons_nth_drop_Suc)
    show ?thesis
    proof (cases "int i + 1 = token_size n_wt \<or> int (length (gtm_token ?a1)) \<ge> tpc")
      case flush: True
      let ?a2 = "?a1\<lparr>gtm_class_id := [], gtm_token := []\<rparr>"
      have step: "export_loop k n_wt tpc i a fout reqs =
          export_loop k n_wt tpc (i + 1) ?a2 (fout @ chunk_text k n_wt ?a1) (reqs @ [?a1])"
        using True flush
        by (subst export_loop.simps) (simp add: token_size_def Let_def chunk_text_def)
      have "\<exists>new. export_loop k n_wt tpc (i + 1) ?a2 (fout @ chunk_text k n_wt ?a1) (reqs @ [?a1]) =
            ((fout @ chunk_text k n_wt ?a1) @ concat (map (chunk_text k n_wt) new), (reqs @ [?a1]) @ new) \<and>
          concat (map request_tokens new) @
            (if i + 1 = ?n then request_tokens ?a2 else []) =
            request_tokens ?a2 @ drop (i + 1) (phi_token n_wt) \<and>
          (\<forall>c \<in> set new. 1 \<le> length (gtm_token c) \<and> int (length (gtm_token c)) \<le> max 1 tpc \<and>
             length (gtm_class_id c) = length (gtm_token c))"
        using True
        by (intro Suc.hyps(1)[OF m]) simp_all
      then obtain new where
        e: "export_loop k n_wt tpc (i + 1) ?a2 (fout @ chunk_text k n_wt ?a1) (reqs @ [?a1]) =
            ((fout @ chunk_text k n_wt ?a1) @ concat (map (chunk_text k n_wt) new), (reqs @ [?a1]) @ new)"
        and c: "concat (map request_tokens new) @
            (if i + 1 = ?n then request_tokens ?a2 else []) =
            request_tokens ?a2 @ drop (i + 1) (phi_token n_wt)"
        and b: "\<forall>c \<in> set new. 1 \<le> length (gtm_token c) \<and> int (length (gtm_token c)) \<le> max 1 tpc \<and>
             length (gtm_class_id c) = length (gtm_token c)"
        by blast
      have e2: "request_tokens ?a2 = []" "request_tokens (a\<lparr>gtm_class_id := [], gtm_token := []\<rparr>) = []"
        by (simp_all add: request_tokens_def)
      show ?thesis
        apply (rule exI[of _ "?a1 # new"])
        using e c b True prems rt dr
        by (simp add: step e2 split: if_splits)
    next
      case noflush: False
      have step: "export_loop k n_wt tpc i a fout reqs =
          export_loop k n_wt tpc (i + 1) ?a1 fout reqs"
        using True noflush
        by (subst export_loop.simps) (simp add: token_size_def Let_def)
      have "\<exists>new. export_loop k n_wt tpc (i + 1) ?a1 fout reqs =
            (fout @ concat (map (chunk_text k n_wt) new), reqs @ new) \<and>
          concat (map request_tokens new) @
            (if i + 1 = ?n then request_tokens ?a1 else []) =
            request_tokens ?a1 @ drop (i + 1) (phi_token n_wt) \<and>
          (\<forall>c \<in> set new. 1 \<le> length (gtm_token c) \<and> int (length (gtm_token c)) \<le> max 1 tpc \<and>
             length (gtm_class_id c) = length (gtm_token c))"
        using True noflush prems
        by (intro Suc.hyps(1)[OF m]) (auto simp: token_size_def)
      then show ?thesis
        using True noflush rt dr by (auto simp: step token_size_def)
    qed
  qed
qed


lemma export_requests_spec:
  fixes n_wt :: "'f PhiMatrix"
  defines "bound \<equiv> min (token_size n_wt) (100 * 1024 * 1024 div topic_size n_wt)"
  shows "export_loop k n_wt bound 0 (export_start_args name) [char_of (0 :: nat)] [] =
           (char_of (0 :: nat) # concat (map (chunk_text k n_wt) (export_requests k n_wt name)),
            export_requests k n_wt name)"
    and "concat (map request_tokens (export_requests k n_wt name)) = phi_token n_wt"
    and "\<forall>c \<in> set (export_requests k n_wt name).
           1 \<le> length (gtm_token c) \<and> int (length (gtm_token c)) \<le> max 1 bound \<and>
           length (gtm_class_id c) = length (gtm_token c)"
proof -
  have "\<exists>new. export_loop k n_wt bound 0 (export_start_args name) [char_of (0 :: nat)] [] =
            ([char_of (0 :: nat)] @ concat (map (chunk_text k n_wt) new), [] @ new) \<and>
          concat (map request_tokens new) @
            (if 0 = length (phi_token n_wt) then request_tokens (export_start_args name) else []) =
            request_tokens (export_start_args name) @ drop 0 (phi_token n_wt) \<and>
          (\<forall>c \<in> set new. 1 \<le> length (gtm_token c) \<and> int (length (gtm_token c)) \<le> max 1 bound \<and>
             length (gtm_class_id c) = length (gtm_token c))"
    by (rule export_loop_spec) (simp_all add: export_start_args_def new_GetTopicModelArgs_def)
  then obtain new where
    e: "export_loop k n_wt bound 0 (export_start_args name) [char_of (0 :: nat)] [] =
            ([char_of (0 :: nat)] @ concat (map (chunk_text k n_wt) new), [] @ new)"
    and c: "concat (map request_tokens new) @
            (if 0 = length (phi_token n_wt) then request_tokens (export_start_args name) else []) =
            request_tokens (export_start_args name) @ drop 0 (phi_token n_wt)"
    and b: "\<forall>c \<in> set new. 1 \<le> length (gtm_token c) \<and> int (length (gtm_token c)) \<le> max 1 bound \<and>
             length (gtm_class_id c) = length (gtm_token c)"
    by blast
  have n: "export_requests k n_wt name = new"
    using e by (simp add: export_requests_def bound_def)
  have r0: "request_tokens (export_start_args name) = []"
    by (simp add: request_tokens_def export_start_args_def new_GetTopicModelArgs_def)
  show "export_loop k n_wt bound 0 (export_start_args name) [char_of (0 :: nat)] [] =
           (char_of (0 :: nat) # concat (map (chunk_text k n_wt) (export_requests k n_wt name)),
            export_requests k n_wt name)"
    using e n by simp
  show "concat (map request_tokens (export_requests k n_wt name)) = phi_token n_wt"
    using c n r0 by (simp split: if_splits)
  show "\<forall>c \<in> set (export_requests k n_wt name).
           1 \<le> length (gtm_token c) \<and> int (length (gtm_token c)) \<le> max 1 bound \<and>
           length (gtm_class_id c) = length (gtm_token c)"
    using b n by simp
qed

text \<open>
  C7 (as amended). For a matrix with at least one token and one topic, exported to a file
  that does not exist yet: the file holds the version byte and then the chunks; every chunk
  has at least one token and at most \<open>max 1 bound\<close> tokens, for
  \<open>bound = min token_size (100 * 1024 * 1024 div topic_size)\<close>, which is \<open>bound\<close> itself unless
  the matrix has more than \<open>100 * 1024 * 1024\<close> topics; and the chunks, in order, hold the
  tokens of the matrix in order, each once.
\<close>

theorem ExportModel_chunks:
  fixes n_wt :: "'f PhiMatrix" and w :: "('f, 'sd) world" and args :: ExportModelArgs
    and k :: "('f, 'sd) kernels"
  defines "name \<equiv> default_model_name w (em_model_name args)"
  defines "chunks \<equiv> export_requests k n_wt name"
    and "bound \<equiv> min (token_size n_wt) (100 * 1024 * 1024 div topic_size n_wt)"
  assumes fresh: "files w (em_file_name args) = None" and creatable: "can_create w (em_file_name args)"
    and registered: "models w name = Some n_wt"
    and tokens: "0 < token_size n_wt" and topics: "0 < topic_size n_wt"
  shows "ExportModel k args w =
           (Ok (),
            w\<lparr>files := (files w)(em_file_name args \<mapsto>
                 char_of (0 :: nat) # concat (map (chunk_text k n_wt) chunks))\<rparr>) \<and>
         (\<forall>c \<in> set chunks.
            1 \<le> length (gtm_token c) \<and> int (length (gtm_token c)) \<le> max 1 bound \<and>
            length (gtm_class_id c) = length (gtm_token c)) \<and>
         (topic_size n_wt \<le> 100 * 1024 * 1024 \<longrightarrow>
            (\<forall>c \<in> set chunks. int (length (gtm_token c)) \<le> bound)) \<and>
         concat (map request_tokens chunks) = phi_token n_wt"
proof -
  note s = export_requests_spec[of k n_wt name, folded bound_def chunks_def]
  have b1: "1 \<le> bound" if "topic_size n_wt \<le> 100 * 1024 * 1024"
  proof -
    have "1 \<le> 100 * 1024 * 1024 div topic_size n_wt"
      using zdiv_mono1[of "topic_size n_wt" "100 * 1024 * 1024" "topic_size n_wt"] that topics
      by simp
    with tokens show ?thesis by (simp add: bound_def)
  qed
  have "ExportModel k args w =
           (Ok (),
            w\<lparr>files := (files w)(em_file_name args \<mapsto>
                 char_of (0 :: nat) # concat (map (chunk_text k n_wt) chunks))\<rparr>)"
    using fresh creatable registered tokens topics s(1)[unfolded bound_def]
    by (simp add: ExportModel_def Let_def GetPhiMatrixSafe_def name_def[symmetric])
  moreover have "\<forall>c \<in> set chunks. int (length (gtm_token c)) \<le> bound"
    if "topic_size n_wt \<le> 100 * 1024 * 1024"
    using s(3) b1[OF that] by (auto simp: max_def split: if_splits)
  ultimately show ?thesis using s(2,3) by blast
qed

theorem ExportModel_chunks_witness:
  "fst (ExportModel example_kernels \<lparr>em_file_name = ''f'', em_model_name = None\<rparr>
          example_registry_world) = Ok () \<and>
   concat (map request_tokens (export_requests example_kernels (example_matrix ''pwt'') ''pwt'')) =
     [\<lparr>keyword = ''a'', class_id = ''c''\<rparr>]"
  using ExportModel_chunks
    [of example_registry_world "\<lparr>em_file_name = ''f'', em_model_name = None\<rparr>"
        "example_matrix ''pwt''" example_kernels]
  by (simp add: default_model_name_def example_registry_world_def example_world_def
      example_config_def example_matrix_def token_size_def topic_size_def)

text \<open>
  The bound of the claim as first stated, \<open>bound\<close> without the \<open>max\<close>, fails for the matrix with
  one token and \<open>104857601\<close> topics: there \<open>bound = 0\<close> and the one chunk holds one token.
\<close>

lemma wide_matrix_sizes:
  "token_size wide_matrix = 1" "topic_size wide_matrix = 104857601"
  "phi_token wide_matrix = [\<lparr>keyword = ''a'', class_id = ''c''\<rparr>]"
  unfolding wide_matrix_def token_size_def topic_size_def
  by (simp_all only: PhiMatrix.select_convs length_map length_upt list.size diff_zero
      of_nat_numeral of_nat_Suc of_nat_0 One_nat_def add_0 add.commute[of 0] plus_nat.add_0)

theorem ExportModel_chunk_bound_counterexample:
  "\<not> (\<forall>c \<in> set (export_requests example_kernels wide_matrix ''pwt'').
        int (length (gtm_token c)) \<le>
          min (token_size wide_matrix) (100 * 1024 * 1024 div topic_size wide_matrix))"
proof -
  have b: "min (token_size wide_matrix) (100 * 1024 * 1024 div topic_size wide_matrix) = 0"
    by (simp add: wide_matrix_sizes)
  have "concat (map request_tokens (export_requests example_kernels wide_matrix ''pwt'')) \<noteq> []"
    by (simp add: export_requests_spec(2) wide_matrix_sizes)
  then obtain c where c: "c \<in> set (export_requests example_kernels wide_matrix ''pwt'')"
    by (cases "export_requests example_kernels wide_matrix ''pwt''") auto
  with export_requests_spec(3)[of example_kernels wide_matrix "''pwt''"]
  have "1 \<le> length (gtm_token c)" by blast
  with c b show ?thesis by force
qed

subsection \<open>ImportModel\<close>

lemma import_body_Next:
  "import_body k name fin target = Next fin2 t \<longleftrightarrow>
     (\<exists>fin1 len buffer parsed.
        extract_int fin = (fin1, Some len) \<and> \<not> eofbit fin1 \<and> 0 < len \<and>
        read (nat len) fin1 = (fin2, buffer) \<and> ParseFromArray k buffer = Some parsed \<and>
        t = ApplyTopicModelOperation k (parsed\<lparr>tm_name := name\<rparr>) 1
              (case target of None \<Rightarrow> DensePhiMatrix name (tm_topic_name parsed) | Some t0 \<Rightarrow> t0))"
  by (cases "extract_int fin"; cases "snd (extract_int fin)")
     (auto simp: import_body_def Let_def split: prod.splits option.splits)

lemma import_body_Throw_CorruptedMessage:
  "import_body k name fin target = Throw CorruptedMessage \<longleftrightarrow>
     (\<exists>len. snd (extract_int fin) = Some len \<and> \<not> eofbit (fst (extract_int fin)) \<and>
        (len \<le> 0 \<or> ParseFromArray k (snd (read (nat len) (fst (extract_int fin)))) = None))"
  by (cases "extract_int fin"; cases "snd (extract_int fin)")
     (auto simp: import_body_def Let_def split: prod.splits option.splits)

lemma import_body_Break:
  "import_body k name fin target = Break \<longleftrightarrow> eofbit (fst (extract_int fin))"
  by (cases "extract_int fin"; cases "snd (extract_int fin)")
     (auto simp: import_body_def Let_def split: prod.splits option.splits)

lemma chunks_read_import_loop:
  "chunks_read k name fin target fin' target' \<Longrightarrow>
     import_loop k name fin target = import_loop k name fin' target'"
proof (induction rule: chunks_read.induct)
  case (none fin target)
  show ?case by simp
next
  case (one_more fin target fin1 target1 fin1' len fin2 buffer parsed)
  let ?t = "ApplyTopicModelOperation k (parsed\<lparr>tm_name := name\<rparr>) 1
              (case target1 of None \<Rightarrow> DensePhiMatrix name (tm_topic_name parsed) | Some t \<Rightarrow> t)"
  have "import_body k name fin1 target1 = Next fin2 ?t"
    unfolding import_body_Next using one_more.hyps(3-7) by blast
  with one_more.hyps(2) have "import_loop k name fin1 target1 = import_loop k name fin2 (Some ?t)"
    by (subst import_loop.simps) simp
  with one_more.IH show ?case by simp
qed

lemma import_loop_chunks:
  "chunks_read k name fin0 tgt0 fin target \<Longrightarrow>
     \<exists>fin' target'.
       chunks_read k name fin0 tgt0 fin' target' \<and>
       ((eofbit fin' \<or> eofbit (fst (extract_int fin'))) \<and>
          import_loop k name fin target = Inr target' \<or>
        \<not> eofbit fin' \<and>
          (\<exists>e. import_body k name fin' target' = Throw e \<and>
                import_loop k name fin target = Inl e))"
proof (induction k name fin target rule: import_loop.induct)
  case (1 k name fin target)
  show ?case
  proof (cases "eofbit fin")
    case True
    then have "import_loop k name fin target = Inr target" by (subst import_loop.simps) simp
    with True "1.prems" show ?thesis by blast
  next
    case False
    show ?thesis
    proof (cases "import_body k name fin target")
      case Break
      with False have "import_loop k name fin target = Inr target"
        by (subst import_loop.simps) simp
      moreover from Break have "eofbit (fst (extract_int fin))" by (simp add: import_body_Break)
      ultimately show ?thesis using "1.prems" by blast
    next
      case (Throw e)
      with False have "import_loop k name fin target = Inl e"
        by (subst import_loop.simps) simp
      with False Throw "1.prems" show ?thesis by blast
    next
      case (Next fin2 t)
      with False have l: "import_loop k name fin target = import_loop k name fin2 (Some t)"
        by (subst import_loop.simps) simp
      from Next[unfolded import_body_Next] obtain fin1 len buffer parsed where
        "extract_int fin = (fin1, Some len)" "\<not> eofbit fin1" "0 < len"
        "read (nat len) fin1 = (fin2, buffer)" "ParseFromArray k buffer = Some parsed"
        and t: "t = ApplyTopicModelOperation k (parsed\<lparr>tm_name := name\<rparr>) 1
              (case target of None \<Rightarrow> DensePhiMatrix name (tm_topic_name parsed) | Some t0 \<Rightarrow> t0)"
        by blast
      from chunks_read.one_more[OF "1.prems" False this(1-5)]
      have "chunks_read k name fin0 tgt0 fin2 (Some t)" unfolding t .
      from "1.IH"[OF False Next this] show ?thesis unfolding l .
    qed
  qed
qed

text \<open>
  C6. What \<open>ImportModel\<close> does on a stream. It changes the state only when it returns, and then
  only by registering, under the model name, the target built from the chunks that were read
  and applied before the stream ended. On a stream whose version byte is 0, after any number
  of chunks read and applied:
  \<^item> if no chunk has been read and the stream ends, or ends with the next length, it raises
    \<open>CorruptedMessage\<close>;
  \<^item> if the next length is followed by at least one more byte and is not positive, or its
    chunk does not parse, it raises \<open>CorruptedMessage\<close>;
  \<^item> if at least one chunk has been read and the stream ends, or ends with the next length,
    whatever its value, it returns and registers the target built so far.
  In the last case a file cut right after a length, or ending with a length that is not
  positive, is imported without an error.
\<close>

theorem ImportModel_corrupted_stream:
  fixes w :: "('f::one, 'sd) world" and args :: ImportModelArgs and k :: "('f, 'sd) kernels"
  defines "name \<equiv> default_model_name w (im_model_name args)"
  defines "r \<equiv> ImportModel k args w"
  shows "(fst r \<noteq> Ok () \<longrightarrow> snd r = w) \<and>
         (fst r = Ok () \<longrightarrow>
            (\<exists>content fin0 fin target.
               files w (im_file_name args) = Some content \<and>
               extract_char (open_ifstream content) = (fin0, Some (char_of (0 :: nat))) \<and>
               chunks_read k name fin0 None fin (Some target) \<and>
               (eofbit fin \<or> eofbit (fst (extract_int fin))) \<and>
               snd r = SetPhiMatrix name target w)) \<and>
         (\<forall>content fin0 fin target.
            files w (im_file_name args) = Some content \<and>
            extract_char (open_ifstream content) = (fin0, Some (char_of (0 :: nat))) \<and>
            chunks_read k name fin0 None fin target \<longrightarrow>
            (target = None \<and> (eofbit fin \<or> eofbit (fst (extract_int fin))) \<longrightarrow>
               r = (Raised CorruptedMessage, w)) \<and>
            (\<not> eofbit fin \<and>
             (\<exists>len. snd (extract_int fin) = Some len \<and> \<not> eofbit (fst (extract_int fin)) \<and>
                (len \<le> 0 \<or>
                 ParseFromArray k (snd (read (nat len) (fst (extract_int fin)))) = None)) \<longrightarrow>
               r = (Raised CorruptedMessage, w)) \<and>
            (\<forall>t. target = Some t \<and> (eofbit fin \<or> eofbit (fst (extract_int fin))) \<longrightarrow>
               r = (Ok (), SetPhiMatrix name t w)))"
proof -
  have 1: "fst r \<noteq> Ok () \<longrightarrow> snd r = w"
    by (auto simp: r_def ImportModel_def Let_def split: option.splits prod.splits sum.splits)
  have 2: "\<exists>content fin0 fin target.
               files w (im_file_name args) = Some content \<and>
               extract_char (open_ifstream content) = (fin0, Some (char_of (0 :: nat))) \<and>
               chunks_read k name fin0 None fin (Some target) \<and>
               (eofbit fin \<or> eofbit (fst (extract_int fin))) \<and>
               snd r = SetPhiMatrix name target w"
    if ok: "fst r = Ok ()"
  proof -
    from ok obtain content fin0 target where
      f: "files w (im_file_name args) = Some content"
      and v: "extract_char (open_ifstream content) = (fin0, Some (char_of (0 :: nat)))"
      and l: "import_loop k name fin0 None = Inr (Some target)"
      and s: "snd r = SetPhiMatrix name target w"
      by (auto simp: r_def ImportModel_def Let_def name_def
          split: option.splits prod.splits sum.splits if_splits)
    from import_loop_chunks[OF chunks_read.none, of k name fin0 None] l
    obtain fin' where "chunks_read k name fin0 None fin' (Some target)"
      "eofbit fin' \<or> eofbit (fst (extract_int fin'))"
      by auto
    with f v s show ?thesis by blast
  qed
  have 3: "(target = None \<and> (eofbit fin \<or> eofbit (fst (extract_int fin))) \<longrightarrow>
               r = (Raised CorruptedMessage, w)) \<and>
            (\<not> eofbit fin \<and>
             (\<exists>len. snd (extract_int fin) = Some len \<and> \<not> eofbit (fst (extract_int fin)) \<and>
                (len \<le> 0 \<or>
                 ParseFromArray k (snd (read (nat len) (fst (extract_int fin)))) = None)) \<longrightarrow>
               r = (Raised CorruptedMessage, w)) \<and>
            (\<forall>t. target = Some t \<and> (eofbit fin \<or> eofbit (fst (extract_int fin))) \<longrightarrow>
               r = (Ok (), SetPhiMatrix name t w))"
    if f: "files w (im_file_name args) = Some content"
      and v: "extract_char (open_ifstream content) = (fin0, Some (char_of (0 :: nat)))"
      and p: "chunks_read k name fin0 None fin target"
    for content fin0 fin target
  proof -
    have l: "import_loop k name fin0 None = import_loop k name fin target"
      using p by (rule chunks_read_import_loop)
    have e: "import_loop k name fin target = Inr target"
      if "eofbit fin \<or> eofbit (fst (extract_int fin))"
    proof (cases "eofbit fin")
      case True
      then show ?thesis by (subst import_loop.simps) simp
    next
      case False
      with that have "import_body k name fin target = Break" by (simp add: import_body_Break)
      with False show ?thesis by (subst import_loop.simps) simp
    qed
    have c: "import_loop k name fin target = Inl CorruptedMessage"
      if ne: "\<not> eofbit fin"
        and "\<exists>len. snd (extract_int fin) = Some len \<and> \<not> eofbit (fst (extract_int fin)) \<and>
                 (len \<le> 0 \<or>
                  ParseFromArray k (snd (read (nat len) (fst (extract_int fin)))) = None)"
    proof -
      from that(2) have "import_body k name fin target = Throw CorruptedMessage"
        by (simp add: import_body_Throw_CorruptedMessage)
      with ne show ?thesis by (subst import_loop.simps) simp
    qed
    from e c l f v show ?thesis
      by (auto simp: r_def ImportModel_def Let_def name_def)
  qed
  from 1 2 3 show ?thesis by blast
qed


lemma example_import_steps:
  "extract_char (open_ifstream (char_of (0 :: nat) # ''2ok0x'')) =
     (\<lparr>buf = ''2ok0x'', eofbit = False, failbit = False\<rparr>, Some (char_of (0 :: nat)))"
  "extract_int \<lparr>buf = ''2ok0x'', eofbit = False, failbit = False\<rparr> =
     (\<lparr>buf = ''ok0x'', eofbit = False, failbit = False\<rparr>, Some 2)"
  "read (nat 2) \<lparr>buf = ''ok0x'', eofbit = False, failbit = False\<rparr> =
     (\<lparr>buf = ''0x'', eofbit = False, failbit = False\<rparr>, ''ok'')"
  "ParseFromArray example_kernels ''ok'' =
     Some \<lparr>tm_name = [], tm_topic_name = [''t''], tm_token = [], tm_class_id = [],
           tm_token_weights = []\<rparr>"
  "extract_int \<lparr>buf = ''0x'', eofbit = False, failbit = False\<rparr> =
     (\<lparr>buf = ''x'', eofbit = False, failbit = False\<rparr>, Some 0)"
  by (simp_all add: extract_char_def open_ifstream_def good_def isspace_def
      extract_int_def isdigit_def decimal_value_def int32_clamp_def read_def Let_def
      example_kernels_def)

theorem ImportModel_corrupted_stream_witness:
  "ImportModel example_kernels \<lparr>im_file_name = ''m'', im_model_name = None\<rparr> example_import_world =
     (Raised CorruptedMessage, example_import_world)"
proof -
  have n: "default_model_name example_import_world None = ''pwt''"
    by (simp add: default_model_name_def example_import_world_def example_registry_world_def
        example_world_def example_config_def)
  have f: "files example_import_world ''m'' = Some (char_of (0 :: nat) # ''2ok0x'')"
    by (simp add: example_import_world_def)
  have p: "chunks_read example_kernels ''pwt''
             \<lparr>buf = ''2ok0x'', eofbit = False, failbit = False\<rparr> None
             \<lparr>buf = ''0x'', eofbit = False, failbit = False\<rparr> (Some (DensePhiMatrix ''pwt'' [''t'']))"
    using chunks_read.one_more[OF chunks_read.none _ example_import_steps(2) _ _
        example_import_steps(3) example_import_steps(4), of "''pwt''" None]
    by (simp add: example_kernels_def)
  show ?thesis
    using ImportModel_corrupted_stream
      [of example_kernels "\<lparr>im_file_name = ''m'', im_model_name = None\<rparr>" example_import_world]
      n f p example_import_steps(1,5)
    by (simp only: ImportModelArgs.simps) fastforce
qed

text \<open>
  A chunk length that is not positive and is the last thing in the file does not raise:
  reading it reaches the end of the file, the loop ends, and the chunk read before it has
  been applied, so the target is registered.
\<close>

theorem ImportModel_length_at_end_counterexample:
  "snd (extract_int \<lparr>buf = ''0'', eofbit = False, failbit = False\<rparr>) = Some 0 \<and>
   ImportModel example_kernels \<lparr>im_file_name = ''t'', im_model_name = None\<rparr> example_import_world =
     (Ok (), SetPhiMatrix ''pwt'' (DensePhiMatrix ''pwt'' [''t'']) example_import_world)"
proof -
  have n: "default_model_name example_import_world None = ''pwt''"
    by (simp add: default_model_name_def example_import_world_def example_registry_world_def
        example_world_def example_config_def)
  have f: "files example_import_world ''t'' = Some (char_of (0 :: nat) # ''2ok0'')"
    by (simp add: example_import_world_def)
  have c: "extract_char (open_ifstream (char_of (0 :: nat) # ''2ok0'')) =
             (\<lparr>buf = ''2ok0'', eofbit = False, failbit = False\<rparr>, Some (char_of (0 :: nat)))"
    by (simp add: extract_char_def open_ifstream_def good_def isspace_def)
  have b1: "import_body example_kernels ''pwt'' \<lparr>buf = ''2ok0'', eofbit = False, failbit = False\<rparr> None =
              Next \<lparr>buf = ''0'', eofbit = False, failbit = False\<rparr> (DensePhiMatrix ''pwt'' [''t''])"
    by (simp add: good_def isspace_def import_body_def extract_int_def isdigit_def
        decimal_value_def int32_clamp_def read_def Let_def example_kernels_def)
  have e: "extract_int \<lparr>buf = ''0'', eofbit = False, failbit = False\<rparr> =
             (\<lparr>buf = [], eofbit = True, failbit = False\<rparr>, Some 0)"
    by (simp add: good_def isspace_def extract_int_def isdigit_def decimal_value_def
        int32_clamp_def Let_def)
  have b2: "import_body example_kernels ''pwt'' \<lparr>buf = ''0'', eofbit = False, failbit = False\<rparr>
              (Some (DensePhiMatrix ''pwt'' [''t''])) = Break"
    by (simp add: import_body_def e)
  have l2: "import_loop example_kernels ''pwt'' \<lparr>buf = ''0'', eofbit = False, failbit = False\<rparr>
              (Some (DensePhiMatrix ''pwt'' [''t''])) = Inr (Some (DensePhiMatrix ''pwt'' [''t'']))"
    by (subst import_loop.simps) (simp add: b2)
  have l1: "import_loop example_kernels ''pwt'' \<lparr>buf = ''2ok0'', eofbit = False, failbit = False\<rparr> None =
              Inr (Some (DensePhiMatrix ''pwt'' [''t'']))"
    by (subst import_loop.simps) (simp add: b1 l2)
  show ?thesis
    by (simp add: e ImportModel_def Let_def n f c l1)
qed
subsection \<open>The calls of the executor\<close>

lemma calls_append [simp]: "calls (xs @ ys) = calls xs @ calls ys"
  by (simp add: calls_def)

lemma calls_Cons: "calls (x # xs) = (if is_call x then x # calls xs else calls xs)"
  by (simp add: calls_def)

lemma advances_refl [simp]: "advances w 0 [] w"
  by (simp add: advances_def)

lemma advances_trans:
  "advances w n cs w1 \<Longrightarrow> advances w1 m ds w2 \<Longrightarrow> advances w (n + m) (cs @ ds) w2"
  by (simp add: advances_def)

lemma only_events_advances: "only_events w w' \<Longrightarrow> advances w 0 [] w'"
  by (auto simp: only_events_def advances_def)

lemma advances_record_event:
  "advances w 0 (if is_call ev then [ev] else []) (record_event ev w)"
  by (simp add: advances_def record_event_def calls_Cons)

lemma advances_SetPhiMatrix [simp]: "advances w 0 [] (SetPhiMatrix n m w)"
  by (simp add: advances_def SetPhiMatrix_def record_event_def calls_Cons)

lemma advances_new_object: "advances w 1 [] (snd (new_object w))" "fst (new_object w) = next_addr w"
  by (simp_all add: advances_def new_object_def)

lemma advances_DisposeModel: "advances w 0 [Call_DisposeModel name] (DisposeModel name w)"
  by (simp add: advances_def DisposeModel_def record_event_def calls_Cons)

lemma advances_ClearScoreCache: "advances w 0 [Call_ClearScoreCache] (ClearScoreCache w)"
  by (simp add: advances_def ClearScoreCache_def record_event_def calls_Cons)

lemma advances_bind_quiet:
  assumes "advances w n cs (snd r)"
    and "\<And>a w1. r = (Ok a, w1) \<Longrightarrow> advances w1 0 [] (snd (f a w1))"
  shows "advances w n cs (snd (bind r f))"
proof (cases r)
  case (Pair res w1)
  show ?thesis
  proof (cases res)
    case (Ok a)
    with Pair assms(1) assms(2)[of a w1] advances_trans[of w n cs w1 0 "[]" "snd (f a w1)"]
    show ?thesis by (simp add: bind_def)
  qed (use Pair assms(1) in \<open>simp_all add: bind_def\<close>)
qed

lemma install_nwt_target_advances: "advances w 0 [] (snd (install_nwt_target args p_wt w))"
  by (simp add: install_nwt_target_def split: option.splits)

lemma enqueue_tasks_advances: "advances w 0 [] (snd (enqueue_tasks args bm sm tc pc mn w))"
  by (rule only_events_advances[OF enqueue_tasks_frame])

lemma wait_and_request_theta_advances:
  "advances w 0 [] (snd (wait_and_request_theta args bm th w))"
  by (rule only_events_advances[OF wait_and_request_theta_frame])

lemma wait_until_processed_advances: "advances w 0 [] (snd (wait_until_processed bm w))"
  by (rule only_events_advances[OF wait_until_processed_frame])

lemma RequestProcessBatchesImpl_advances:
  "advances w 0
     [Call_ProcessBatches (pwt_source_name args) (nwt_target_name args) (batch_filename args)
        (batch_weight args) async bm sm]
     (snd (RequestProcessBatchesImpl args bm async sm th w))"
proof -
  let ?ev = "Call_ProcessBatches (pwt_source_name args) (nwt_target_name args) (batch_filename args)
        (batch_weight args) async bm sm"
  let ?w = "record_event ?ev w"
  have a: "advances w 0 [?ev] ?w"
    using advances_record_event[of w ?ev] by simp
  have b: "advances ?w 0 [] (snd (RequestProcessBatchesImpl args bm async sm th w))"
    unfolding RequestProcessBatchesImpl_def Let_def
    by (auto split: sum.splits
        intro!: advances_bind_quiet install_nwt_target_advances enqueue_tasks_advances
          wait_and_request_theta_advances)
  from advances_trans[OF a b] show ?thesis by simp
qed

lemma merge_sources_advances: "advances w 0 [] (snd (merge_sources k args ps tgt w))"
  by (simp add: merge_sources_world advances_def calls_def filter_empty_conv)

lemma MergeModel_advances:
  "advances w 0 [Call_MergeModel args] (snd (MergeModel k args w))"
proof -
  let ?w = "record_event (Call_MergeModel args) w"
  have a: "advances w 0 [Call_MergeModel args] ?w"
    using advances_record_event[of w "Call_MergeModel args"] by simp
  have b: "advances ?w 0 [] (snd (MergeModel k args w))"
    unfolding MergeModel_def Let_def
    using merge_sources_advances[of ?w k args
        "zip (mm_nwt_source_name args) (mm_source_weight args)" None]
      advances_trans[of ?w 0 "[]" _ 0 "[]"]
    by (auto split: prod.splits option.splits)
  from advances_trans[OF a b] show ?thesis by simp
qed

lemma RegularizeModel_advances:
  "advances w 0 [Call_RegularizeModel args] (snd (RegularizeModel k args w))"
proof -
  let ?w = "record_event (Call_RegularizeModel args) w"
  have a: "advances w 0 [Call_RegularizeModel args] ?w"
    using advances_record_event[of w "Call_RegularizeModel args"] by simp
  have b: "advances ?w 0 [] (snd (RegularizeModel k args w))"
    unfolding RegularizeModel_def Let_def
    by (auto split: option.splits sum.splits)
  from advances_trans[OF a b] show ?thesis by simp
qed

lemma NormalizeModel_advances:
  "advances w 0 [Call_NormalizeModel args] (snd (NormalizeModel k args w))"
proof -
  let ?w = "record_event (Call_NormalizeModel args) w"
  have a: "advances w 0 [Call_NormalizeModel args] ?w"
    using advances_record_event[of w "Call_NormalizeModel args"] by simp
  have b: "advances ?w 0 [] (snd (NormalizeModel k args w))"
    unfolding NormalizeModel_def Let_def
    by (auto split: option.splits sum.splits)
  from advances_trans[OF a b] show ?thesis by simp
qed


lemma same_setup_refl [simp]: "same_setup ex ex"
  by (simp add: same_setup_def)

lemma same_setup_trans: "same_setup ex ex1 \<Longrightarrow> same_setup ex1 ex2 \<Longrightarrow> same_setup ex ex2"
  by (simp add: same_setup_def)

lemma same_setup_calls:
  assumes "same_setup ex ex'"
  shows "regularize_calls ex' pwt nwt rwt = regularize_calls ex pwt nwt rwt"
    and "normalize_call ex' pwt nwt rwt = normalize_call ex pwt nwt rwt"
    and "offline_pass_calls ex' iter a = offline_pass_calls ex iter a"
  using assms
  by (simp_all add: same_setup_def regularize_calls_def normalize_call_def offline_pass_calls_def)


lemma AsyncProcessBatches_calls:
  assumes "AsyncProcessBatches mv pwt nwt iter ex w = (Ok (op_id, iter1, ex1), w')"
  shows "\<exists>args1.
     mv iter ((process_batches_args ex)
                \<lparr>pwt_source_name := pwt, nwt_target_name := Some nwt,
                 theta_matrix_type := TMT_None, has_theta_matrix_type := True\<rparr>) =
       Inr (iter1, args1) \<and>
     advances w 1
       [Call_ProcessBatches (pwt_source_name args1) (nwt_target_name args1) (batch_filename args1)
          (batch_weight args1) True (next_addr w) None] w' \<and>
     same_setup ex ex1 \<and> async_managers ex1 = async_managers ex @ [next_addr w] \<and>
     op_id = int (length (async_managers ex))"
proof -
  let ?a = "(process_batches_args ex)
                \<lparr>pwt_source_name := pwt, nwt_target_name := Some nwt,
                 theta_matrix_type := TMT_None, has_theta_matrix_type := True\<rparr>"
  obtain args1 where m: "mv iter ?a = Inr (iter1, args1)"
    using AsyncProcessBatches_iter[OF assms] by blast
  let ?w1 = "snd (new_object w)"
  from assms m obtain args2 where
    r: "RequestProcessBatchesImpl args1 (next_addr w) True None False ?w1 = (Ok args2, w')"
    and e: "ex1 = ex\<lparr>process_batches_args := args2\<lparr>batch_filename := []\<rparr>,
                     async_managers := async_managers ex @ [next_addr w]\<rparr>"
    and o: "op_id = int (length (async_managers ex))"
    by (auto simp: AsyncProcessBatches_def Let_def bind_eq_Ok new_object_def split: prod.splits)
  have "advances ?w1 0
     [Call_ProcessBatches (pwt_source_name args1) (nwt_target_name args1) (batch_filename args1)
        (batch_weight args1) True (next_addr w) None] w'"
    using RequestProcessBatchesImpl_advances[of ?w1 args1 True "next_addr w" None False] r
    by simp
  from advances_trans[OF advances_new_object(1) this] m e o show ?thesis
    by (auto simp: same_setup_def)
qed

lemma Regularize_calls:
  assumes "Regularize k pwt nwt rwt ex w = (Ok ex1, w')"
  shows "advances w 0 (regularize_calls ex pwt nwt rwt) w' \<and> same_setup ex ex1 \<and>
         async_managers ex1 = async_managers ex"
proof (cases "rm_regularizer_settings (regularize_model_args ex) = []")
  case True
  with assms show ?thesis by (simp add: Regularize_def regularize_calls_def)
next
  case False
  let ?args = "(regularize_model_args ex)
               \<lparr>rm_nwt_source_name := Some nwt, rm_pwt_source_name := Some pwt,
                rm_rwt_target_name := Some rwt\<rparr>"
  have eq: "?args = \<lparr>rm_pwt_source_name = Some pwt, rm_nwt_source_name = Some nwt,
               rm_rwt_target_name = Some rwt,
               rm_regularizer_settings = rm_regularizer_settings (regularize_model_args ex)\<rparr>"
    by (cases "regularize_model_args ex") simp
  from assms False have r: "fst (RegularizeModel k ?args w) = Ok ()"
    "w' = snd (RegularizeModel k ?args w)" "ex1 = ex\<lparr>regularize_model_args := ?args\<rparr>"
    by (auto simp: Regularize_def Let_def bind_eq_Ok)
  from RegularizeModel_advances[of w ?args k] r False show ?thesis
    by (simp add: regularize_calls_def eq same_setup_def)
qed

lemma Normalize_calls:
  "advances w 0 [normalize_call ex pwt nwt rwt] (snd (Normalize k pwt nwt rwt ex w))"
  unfolding Normalize_def normalize_call_def
  using NormalizeModel_advances[of w _ k]
  by (cases "rm_regularizer_settings (regularize_model_args ex) = []") simp_all



subsection \<open>The score tracker\<close>






lemma tracker_SetPhiMatrix [simp]: "score_tracker (SetPhiMatrix n m w) = score_tracker w"
  by (simp add: SetPhiMatrix_def record_event_def)

lemma tracker_record_event [simp]: "score_tracker (record_event ev w) = score_tracker w"
  by (simp add: record_event_def)


lemma tracker_MergeModel: "score_tracker (snd (MergeModel k args w)) = score_tracker w"
proof -
  let ?w = "record_event (Call_MergeModel args) w"
  let ?m = "merge_sources k args (zip (mm_nwt_source_name args) (mm_source_weight args)) None ?w"
  have "score_tracker (snd ?m) = score_tracker w"
    by (simp add: merge_sources_world record_event_def)
  then show ?thesis
    by (cases ?m) (auto simp: MergeModel_def Let_def record_event_def split: option.splits)
qed











lemma Get_Inr: "Get xs i = Inr x \<Longrightarrow> 0 \<le> i \<and> nat i < length xs \<and> x = xs ! nat i"
  by (auto simp: Get_def split: if_splits)

lemma unsigned_to_int_nonneg:
  "0 \<le> unsigned_to_int i \<Longrightarrow> i < 2 ^ 32 \<Longrightarrow> nat (unsigned_to_int i) = i"
  by (auto simp: unsigned_to_int_def split: if_splits)

lemma move_loop_result:
  "move_loop iter i hi args = Inr a \<Longrightarrow> hi \<le> 2 ^ 32 \<Longrightarrow>
     a = args\<lparr>batch_filename := batch_filename args @ map ((!) (it_batch_filename iter)) [i..<hi],
              batch_weight := batch_weight args @ map ((!) (it_batch_weight iter)) [i..<hi]\<rparr>"
proof (induction iter i hi args rule: move_loop.induct)
  case (1 iter i last_i args)
  show ?case
  proof (cases "i < last_i")
    case False
    with "1.prems"(1) show ?thesis by (subst (asm) move_loop.simps) simp
  next
    case True
    from "1.prems"(1) True obtain f wt where
      g1: "Get (it_batch_filename iter) (unsigned_to_int i) = Inr f"
      and g2: "Get (it_batch_weight iter) (unsigned_to_int i) = Inr wt"
      and r: "move_loop iter (i + 1) last_i
                (args\<lparr>batch_filename := batch_filename args @ [f],
                      batch_weight := batch_weight args @ [wt]\<rparr>) = Inr a"
      by (subst (asm) move_loop.simps) (auto split: sum.splits)
    from Get_Inr[OF g1] Get_Inr[OF g2] unsigned_to_int_nonneg[of i] True "1.prems"(2)
    have f: "f = it_batch_filename iter ! i" and wt: "wt = it_batch_weight iter ! i" by auto
    from "1.IH"[OF True g1 g2 r "1.prems"(2)] True show ?thesis
      by (simp add: f wt upt_conv_Cons)
  qed
qed

lemma move_result:
  assumes "move iter args = Inr (iter1, args1)"
  shows "args1 = args\<lparr>batch_filename := map ((!) (it_batch_filename iter))
                                            (online_group iter (it_current iter)),
                      batch_weight := map ((!) (it_batch_weight iter))
                                        (online_group iter (it_current iter))\<rparr> \<and>
         iter1 = (if iter_more iter then iter\<lparr>it_current := it_current iter + 1\<rparr> else iter)"
proof (cases "it_current iter < length (it_update_after iter)")
  case False
  with assms show ?thesis by (auto simp: move_def online_group_def Let_def iter_more_def)
next
  case True
  from assms True obtain first_v last_v where
    f: "(if it_current iter = 0 then Inr 0
         else Get (it_update_after iter) (int (it_current iter) - 1)) = Inr first_v"
    and l: "Get (it_update_after iter) (int (it_current iter)) = Inr last_v"
    and m: "move_loop iter (int_to_unsigned first_v) (int_to_unsigned last_v)
              (args\<lparr>batch_filename := [], batch_weight := []\<rparr>) = Inr args1"
    and i: "iter1 = iter\<lparr>it_current := it_current iter + 1\<rparr>"
    by (auto simp: move_def Let_def split: sum.splits if_splits)
  from f True have fv: "first_v = (if it_current iter = 0 then 0
                                   else it_update_after iter ! (it_current iter - 1))"
    by (auto dest!: Get_Inr simp: nat_diff_distrib split: if_splits)
  from l have lv: "last_v = it_update_after iter ! it_current iter"
    by (auto dest!: Get_Inr)
  have "int_to_unsigned last_v \<le> 2 ^ 32" by (simp add: int_to_unsigned_def)
  from move_loop_result[OF m this] True i show ?thesis
    by (simp add: online_group_def fv lv iter_more_def)
qed

lemma Await_advances: "advances w 0 [] (snd (Await op ex w))"
  by (simp add: Await_def wait_until_processed_advances split: sum.splits)

lemma async_tail_calls:
  assumes aw: "Await op ex1 wa = (Ok u2, w2)"
    and mg: "Merge k nwt decay_w nwt_hat apply_w w2 = (Ok u3, w3)"
    and rg: "Regularize k pwt_act nwt ''rwt'' ex1 (Dispose nwt_hat w3) = (Ok ex2, w4)"
    and nm: "Normalize k pwt_new nwt ''rwt'' ex2 w4 = (Ok u5, w5)"
  shows "advances wa 0
           ([Call_MergeModel
              \<lparr>mm_nwt_source_name = [nwt, nwt_hat], mm_source_weight = [decay_w, apply_w],
               mm_nwt_target_name = nwt, mm_topic_name = []\<rparr>,
             Call_DisposeModel nwt_hat] @
            regularize_calls ex1 pwt_act nwt ''rwt'' @
            [normalize_call ex1 pwt_new nwt ''rwt'', Call_DisposeModel d])
           (Dispose d w5) \<and>
         same_setup ex1 ex2 \<and> async_managers ex2 = async_managers ex1"
proof -
  have a1: "advances wa 0 [] w2" using Await_advances[of wa op ex1] aw by simp
  have a2: "advances w2 0
              [Call_MergeModel
                 \<lparr>mm_nwt_source_name = [nwt, nwt_hat], mm_source_weight = [decay_w, apply_w],
                  mm_nwt_target_name = nwt, mm_topic_name = []\<rparr>] w3"
    using MergeModel_advances[of w2 "\<lparr>mm_nwt_source_name = [nwt, nwt_hat],
        mm_source_weight = [decay_w, apply_w], mm_nwt_target_name = nwt, mm_topic_name = []\<rparr>" k] mg
    by (simp add: Merge_def)
  have a3: "advances w3 0 [Call_DisposeModel nwt_hat] (Dispose nwt_hat w3)"
    by (simp add: Dispose_def advances_DisposeModel)
  from Regularize_calls[OF rg] have
    a4: "advances (Dispose nwt_hat w3) 0 (regularize_calls ex1 pwt_act nwt ''rwt'') w4"
    and s: "same_setup ex1 ex2" and m: "async_managers ex2 = async_managers ex1"
    by simp_all
  have a5: "advances w4 0 [normalize_call ex2 pwt_new nwt ''rwt''] w5"
    using Normalize_calls[of w4 ex2 pwt_new nwt "''rwt''" k] nm by simp
  have a6: "advances w5 0 [Call_DisposeModel d] (Dispose d w5)"
    by (simp add: Dispose_def advances_DisposeModel)
  from advances_trans[OF advances_trans[OF advances_trans[OF advances_trans[OF advances_trans[OF
        a1 a2] a3] a4] a5] a6] s m
  show ?thesis by (simp add: same_setup_calls[OF s])
qed

lemma online_group_cursor [simp]: "online_group (iter\<lparr>it_current := c\<rparr>) K = online_group iter K"
  by (simp add: online_group_def)

lemma async_body_calls:
  fixes st :: "'f::zero async_state"
  assumes b: "async_body k st w = (Ok (is_last, st1), w1)"
    and K: "as_op_id st = int K" "as_pwt_index st = int K" "as_nwt_hat_index st = int K"
    and act: "as_pwt_active st = async_pwt_active ex0 K"
    and mgr: "length (async_managers (as_ex st)) = K + 1"
    and it: "as_iter st = iter0\<lparr>it_current := min (K + 1) (length (it_update_after iter0))\<rparr>"
    and su: "same_setup ex0 (as_ex st)"
    and a: "next_addr w = a0 + K + 1"
    and N: "N = max 1 (length (it_update_after iter0))" "K < N"
  shows "is_last = (\<not> K + 1 < N) \<and>
         advances w (if K + 1 < N then 1 else 0) (async_iteration_calls ex0 iter0 a0 N K) w1 \<and>
         (K + 1 < N \<longrightarrow>
            as_op_id st1 = int (K + 1) \<and> as_pwt_index st1 = int (K + 1) \<and>
            as_nwt_hat_index st1 = int (K + 1) \<and>
            as_pwt_active st1 = async_pwt_active ex0 (K + 1) \<and>
            length (async_managers (as_ex st1)) = K + 2 \<and>
            as_iter st1 = iter0\<lparr>it_current := min (K + 2) (length (it_update_after iter0))\<rparr> \<and>
            same_setup ex0 (as_ex st1))"
proof -
  let ?n = "length (it_update_after iter0)"
  let ?iter = "as_iter st" and ?ex = "as_ex st"
  let ?nwt = "ex_nwt_name ?ex"
  have more: "iter_more ?iter \<longleftrightarrow> K + 1 < N"
    using N by (auto simp: iter_more_def it max_def)
  have names: "ex_nwt_name ?ex = ex_nwt_name ex0" "ex_pwt_name ?ex = ex_pwt_name ex0"
    using su by (simp_all add: same_setup_def)
  from b obtain apply_w decay_w where
    g1: "apply_weight ?iter (int K) = Inr apply_w" and g2: "decay_weight ?iter (int K) = Inr decay_w"
    by (auto simp: async_body_def Let_def K split: sum.splits)
  from Get_Inr[OF g1[unfolded apply_weight_def]] Get_Inr[OF g2[unfolded decay_weight_def]]
  have wts: "apply_w = it_apply_weight iter0 ! K" "decay_w = it_decay_weight iter0 ! K"
    by (simp_all add: it)
  show ?thesis
  proof (cases "K + 1 < N")
    case False
    with more have nm: "\<not> iter_more ?iter" by simp
    from b nm g1 g2 obtain u2 w2 u3 w3 ex2 w4 u5 w5 where
      aw: "Await (int K) ?ex w = (Ok u2, w2)"
      and mg: "Merge k ?nwt decay_w (StringIndex ''nwt_hat'' (int K)) apply_w w2 = (Ok u3, w3)"
      and rg: "Regularize k (as_pwt_active st) ?nwt ''rwt'' ?ex
                 (Dispose (StringIndex ''nwt_hat'' (int K)) w3) = (Ok ex2, w4)"
      and no: "Normalize k (ex_pwt_name ?ex) ?nwt ''rwt'' ex2 w4 = (Ok u5, w5)"
      and l: "is_last" and w1: "w1 = Dispose (StringIndex ''pwt'' (int K + 1))
                                    (Dispose (StringIndex ''pwt'' (int K)) w5)"
      by (auto simp: async_body_def Let_def K bind_eq_Ok)
    from async_tail_calls[OF aw mg rg no, of "StringIndex ''pwt'' (int K)"]
    have t: "advances w 0
           ([Call_MergeModel
              \<lparr>mm_nwt_source_name = [?nwt, StringIndex ''nwt_hat'' (int K)],
               mm_source_weight = [decay_w, apply_w],
               mm_nwt_target_name = ?nwt, mm_topic_name = []\<rparr>,
             Call_DisposeModel (StringIndex ''nwt_hat'' (int K))] @
            regularize_calls ?ex (as_pwt_active st) ?nwt ''rwt'' @
            [normalize_call ?ex (ex_pwt_name ?ex) ?nwt ''rwt'',
             Call_DisposeModel (StringIndex ''pwt'' (int K))])
           (Dispose (StringIndex ''pwt'' (int K)) w5)"
      by simp
    have d: "advances (Dispose (StringIndex ''pwt'' (int K)) w5) 0
               [Call_DisposeModel (StringIndex ''pwt'' (int K + 1))] w1"
      by (simp add: w1 Dispose_def advances_DisposeModel)
    from advances_trans[OF t d] False l show ?thesis
      by (simp add: async_iteration_calls_def async_merge_call_def wts names act
          same_setup_calls[OF su])
  next
    case True
    with more have m: "iter_more ?iter" by simp
    from True N have Kn: "K + 1 < ?n" by (simp add: max_def split: if_splits)
    from b m g1 g2 obtain op1 it1 ex1 wa u2 w2 u3 w3 ex2 w4 u5 w5 where
      pr: "AsyncProcessBatches move (as_pwt_active st) (StringIndex ''nwt_hat'' (int K + 1))
             ?iter ?ex w = (Ok (op1, it1, ex1), wa)"
      and aw: "Await (int K) ex1 wa = (Ok u2, w2)"
      and mg: "Merge k ?nwt decay_w (StringIndex ''nwt_hat'' (int K)) apply_w w2 = (Ok u3, w3)"
      and rg: "Regularize k (as_pwt_active st) ?nwt ''rwt'' ex1
                 (Dispose (StringIndex ''nwt_hat'' (int K)) w3) = (Ok ex2, w4)"
      and no: "Normalize k (StringIndex ''pwt'' (int K + 2)) ?nwt ''rwt'' ex2 w4 = (Ok u5, w5)"
      and l: "\<not> is_last" and w1: "w1 = Dispose (StringIndex ''pwt'' (int K)) w5"
      and st1: "st1 = \<lparr>as_op_id = op1, as_pwt_active = StringIndex ''pwt'' (int K + 2),
                        as_pwt_index = int K + 1, as_nwt_hat_index = int K + 1,
                        as_iter = it1, as_ex = ex2\<rparr>"
      by (auto simp: async_body_def Let_def K bind_eq_Ok add.commute)
    from AsyncProcessBatches_calls[OF pr] obtain args1 where
      mv: "move ?iter ((process_batches_args ?ex)
                \<lparr>pwt_source_name := as_pwt_active st,
                 nwt_target_name := Some (StringIndex ''nwt_hat'' (int K + 1)),
                 theta_matrix_type := TMT_None, has_theta_matrix_type := True\<rparr>) =
             Inr (it1, args1)"
      and p: "advances w 1
       [Call_ProcessBatches (pwt_source_name args1) (nwt_target_name args1) (batch_filename args1)
          (batch_weight args1) True (next_addr w) None] wa"
      and s1: "same_setup ?ex ex1"
      and m1: "async_managers ex1 = async_managers ?ex @ [next_addr w]"
      and o1: "op1 = int (length (async_managers ?ex))"
      by blast
    from move_result[OF mv] m Kn have
      args1: "pwt_source_name args1 = as_pwt_active st"
        "nwt_target_name args1 = Some (StringIndex ''nwt_hat'' (int K + 1))"
        "batch_filename args1 = map ((!) (it_batch_filename iter0)) (online_group iter0 (K + 1))"
        "batch_weight args1 = map ((!) (it_batch_weight iter0)) (online_group iter0 (K + 1))"
      and it1: "it1 = iter0\<lparr>it_current := K + 2\<rparr>"
      by (simp_all add: it)
    from async_tail_calls[OF aw mg rg no, of "StringIndex ''pwt'' (int K)"]
    have t: "advances wa 0
           ([Call_MergeModel
              \<lparr>mm_nwt_source_name = [?nwt, StringIndex ''nwt_hat'' (int K)],
               mm_source_weight = [decay_w, apply_w],
               mm_nwt_target_name = ?nwt, mm_topic_name = []\<rparr>,
             Call_DisposeModel (StringIndex ''nwt_hat'' (int K))] @
            regularize_calls ex1 (as_pwt_active st) ?nwt ''rwt'' @
            [normalize_call ex1 (StringIndex ''pwt'' (int K + 2)) ?nwt ''rwt'',
             Call_DisposeModel (StringIndex ''pwt'' (int K))])
           w1"
      and s2: "same_setup ex1 ex2" and m2: "async_managers ex2 = async_managers ex1"
      by (simp_all add: w1)
    have s01: "same_setup ex0 ex1" using su s1 by (rule same_setup_trans)
    have s02: "same_setup ex0 ex2" using s01 s2 by (rule same_setup_trans)
    have inv: "as_op_id st1 = int (K + 1) \<and> as_pwt_index st1 = int (K + 1) \<and>
            as_nwt_hat_index st1 = int (K + 1) \<and>
            as_pwt_active st1 = async_pwt_active ex0 (K + 1) \<and>
            length (async_managers (as_ex st1)) = K + 2 \<and>
            as_iter st1 = iter0\<lparr>it_current := min (K + 2) (length (it_update_after iter0))\<rparr> \<and>
            same_setup ex0 (as_ex st1)"
      using Kn by (simp add: st1 o1 mgr m1 m2 it1 s02 async_pwt_active_def min_def add.commute)
    from advances_trans[OF p t] True l inv show ?thesis
      by (simp add: async_iteration_calls_def async_merge_call_def async_process_call_def wts
          names act a args1 same_setup_calls[OF s01] add.commute)
  qed
qed

lemma async_loop_calls:
  fixes st :: "'f::zero async_state"
  assumes "async_loop k st w = (Ok st', w')"
    and "as_op_id st = int K" "as_pwt_index st = int K" "as_nwt_hat_index st = int K"
    and "as_pwt_active st = async_pwt_active ex0 K"
    and "length (async_managers (as_ex st)) = K + 1"
    and "as_iter st = iter0\<lparr>it_current := min (K + 1) (length (it_update_after iter0))\<rparr>"
    and "same_setup ex0 (as_ex st)"
    and "next_addr w = a0 + K + 1"
    and N: "N = max 1 (length (it_update_after iter0))" and "K < N"
  shows "advances w (N - 1 - K) (concat (map (async_iteration_calls ex0 iter0 a0 N) [K ..< N])) w'"
  using assms(1-9,11)
proof (induction "N - K" arbitrary: K st w)
  case 0
  then show ?case by simp
next
  case (Suc m)
  from Suc.prems(1)[unfolded async_loop.simps[of k st w]] obtain is_last st1 w1 where
    b: "async_body k st w = (Ok (is_last, st1), w1)"
    and r: "(if is_last then (Ok st1, w1) else async_loop k st1 w1) = (Ok st', w')"
    by (auto simp: bind_eq_Ok split: if_splits)
  note body = async_body_calls[OF b Suc.prems(2-9) N Suc.prems(10)]
  show ?case
  proof (cases "K + 1 < N")
    case False
    with Suc.prems(10) have KN: "N = K + 1" by simp
    from body False r have "w' = w1" by simp
    with body False show ?thesis by (simp add: KN)
  next
    case True
    with body r have l: "async_loop k st1 w1 = (Ok st', w')"
      and a: "advances w 1 (async_iteration_calls ex0 iter0 a0 N K) w1"
      by simp_all
    from a Suc.prems(9) have na: "next_addr w1 = a0 + (K + 1) + 1" by (simp add: advances_def)
    from Suc.hyps(2) have m: "m = N - (K + 1)" by simp
    from body True have inv: "as_op_id st1 = int (K + 1)" "as_pwt_index st1 = int (K + 1)"
      "as_nwt_hat_index st1 = int (K + 1)" "as_pwt_active st1 = async_pwt_active ex0 (K + 1)"
      "length (async_managers (as_ex st1)) = (K + 1) + 1"
      "as_iter st1 = iter0\<lparr>it_current := min ((K + 1) + 1) (length (it_update_after iter0))\<rparr>"
      "same_setup ex0 (as_ex st1)"
      by simp_all
    from Suc.hyps(1)[OF m l inv na True]
    have "advances w1 (N - 1 - (K + 1))
            (concat (map (async_iteration_calls ex0 iter0 a0 N) [K + 1 ..< N])) w'" .
    from advances_trans[OF a this]
    have "advances w (1 + (N - 1 - (K + 1)))
            (async_iteration_calls ex0 iter0 a0 N K @
             concat (map (async_iteration_calls ex0 iter0 a0 N) [K + 1 ..< N])) w'" .
    moreover from True have "1 + (N - 1 - (K + 1)) = N - 1 - K" by simp
    moreover from True have "[K ..< N] = K # [K + 1 ..< N]" by (simp add: upt_conv_Cons)
    ultimately show ?thesis by (simp del: upt_Suc)
  qed
qed

lemma ExecuteAsyncOnlineAlgorithm_calls:
  fixes ex :: "'f::zero ArtmExecutor"
  assumes run: "ExecuteAsyncOnlineAlgorithm k iter ex w = (Ok r, w')"
    and cur: "it_current iter = 0" and fresh: "async_managers ex = []"
    and N: "N = max 1 (length (it_update_after iter))"
  shows "calls (history w') =
     calls (history w) @ [Call_ClearScoreCache, async_process_call ex iter (next_addr w) 0] @
     concat (map (async_iteration_calls ex iter (next_addr w) N) [0 ..< N])"
proof -
  let ?w0 = "ClearScoreCache w"
  from run obtain op1 it1 ex1 w1 st' where
    pr: "AsyncProcessBatches move (ex_pwt_name ex) (StringIndex ''nwt_hat'' 0) iter ex ?w0 =
           (Ok (op1, it1, ex1), w1)"
    and lp: "async_loop k
               \<lparr>as_op_id = op1, as_pwt_active = ex_pwt_name ex, as_pwt_index = 0,
                as_nwt_hat_index = 0, as_iter = it1, as_ex = ex1\<rparr> w1 = (Ok st', w')"
    by (auto simp: ExecuteAsyncOnlineAlgorithm_def bind_eq_Ok)
  have c: "advances w 0 [Call_ClearScoreCache] ?w0" by (rule advances_ClearScoreCache)
  then have na0: "next_addr ?w0 = next_addr w" by (simp add: advances_def)
  from AsyncProcessBatches_calls[OF pr] obtain args1 where
    mv: "move iter ((process_batches_args ex)
                \<lparr>pwt_source_name := ex_pwt_name ex,
                 nwt_target_name := Some (StringIndex ''nwt_hat'' 0),
                 theta_matrix_type := TMT_None, has_theta_matrix_type := True\<rparr>) =
             Inr (it1, args1)"
    and p: "advances ?w0 1
       [Call_ProcessBatches (pwt_source_name args1) (nwt_target_name args1) (batch_filename args1)
          (batch_weight args1) True (next_addr ?w0) None] w1"
    and s1: "same_setup ex ex1"
    and m1: "async_managers ex1 = async_managers ex @ [next_addr ?w0]"
    and o1: "op1 = int (length (async_managers ex))"
    by blast
  have same: "iter\<lparr>it_current := 0\<rparr> = iter" using cur by (cases iter) simp
  from move_result[OF mv] cur have
    args1: "pwt_source_name args1 = ex_pwt_name ex"
      "nwt_target_name args1 = Some (StringIndex ''nwt_hat'' 0)"
      "batch_filename args1 = map ((!) (it_batch_filename iter)) (online_group iter 0)"
      "batch_weight args1 = map ((!) (it_batch_weight iter)) (online_group iter 0)"
    and it1: "it1 = iter\<lparr>it_current := min (0 + 1) (length (it_update_after iter))\<rparr>"
    by (auto simp: iter_more_def same min_def Suc_le_eq)
  have p': "advances ?w0 1 [async_process_call ex iter (next_addr w) 0] w1"
    using p by (simp add: args1 na0 async_process_call_def async_pwt_active_def)
  then have na1: "next_addr w1 = next_addr w + 0 + 1" by (simp add: advances_def na0)
  have "0 < N" using N by simp
  from async_loop_calls[OF lp, of 0 ex iter "next_addr w" N] this
  have l: "advances w1 (N - 1 - 0)
             (concat (map (async_iteration_calls ex iter (next_addr w) N) [0 ..< N])) w'"
    using o1 fresh m1 it1 s1 na1 N by (simp add: async_pwt_active_def)
  from advances_trans[OF advances_trans[OF c p'] l] show ?thesis
    by (simp add: advances_def)
qed

lemma merge_calls_calls [simp]: "merge_calls (calls h) = merge_calls h"
  by (induction h) (auto simp: merge_calls_def calls_def is_call_def split: event.splits)

lemma process_calls_calls [simp]: "process_calls (calls h) = process_calls h"
  by (induction h) (auto simp: process_calls_def calls_def is_call_def split: event.splits)

lemma merge_calls_append [simp]: "merge_calls (xs @ ys) = merge_calls xs @ merge_calls ys"
  by (simp add: merge_calls_def)

lemma process_calls_append [simp]: "process_calls (xs @ ys) = process_calls xs @ process_calls ys"
  by (simp add: process_calls_def)

lemma merge_calls_iteration:
  "merge_calls (async_iteration_calls ex iter a0 N K) = [async_merge_call ex iter K]"
  by (simp add: merge_calls_def async_iteration_calls_def async_merge_call_def
      async_process_call_def regularize_calls_def normalize_call_def)

lemma process_calls_iteration:
  "process_calls (async_iteration_calls ex iter a0 N K) =
     (if K + 1 < N then [async_process_call ex iter a0 (K + 1)] else [])"
  by (simp add: process_calls_def async_iteration_calls_def async_merge_call_def
      async_process_call_def regularize_calls_def normalize_call_def)

lemma merge_calls_concat:
  "merge_calls (concat (map (async_iteration_calls ex iter a0 N) Ks)) =
     map (async_merge_call ex iter) Ks"
  by (induction Ks) (simp_all add: merge_calls_iteration, simp add: merge_calls_def)

lemma process_calls_concat:
  "process_calls (concat (map (async_iteration_calls ex iter a0 N) Ks)) =
     map (\<lambda>K. async_process_call ex iter a0 (K + 1)) (filter (\<lambda>K. K + 1 < N) Ks)"
  by (induction Ks) (simp_all add: process_calls_iteration, simp add: process_calls_def)

lemma filter_upt_below: "filter (\<lambda>K. Suc K < N) [0 ..< N] = [0 ..< N - Suc 0]"
proof (cases N)
  case 0
  then show ?thesis by simp
next
  case (Suc n)
  have "filter (\<lambda>K. Suc K < Suc n) [0 ..< n] = [0 ..< n]"
    by (rule filter_True) simp
  with Suc show ?thesis by simp
qed

text \<open>
  C1. An asynchronous \<open>FitOnline\<close> that returns has run the operations \<open>0, \<dots>, N - 1\<close>, for
  \<open>N\<close> the number of groups of the iterator (one operation when there is no group).
  Operation \<open>K\<close> is the \<open>K\<close>-th \<^verbatim>\<open>ProcessBatches\<close> call: it processes group \<open>K\<close> of the iterator
  into \<open>nwt_hat\<close>\<^emph>\<open>K\<close>, with the \<open>K\<close>-th batch manager. The \<open>K\<close>-th \<^verbatim>\<open>MergeModel\<close> call merges
  \<open>nwt_hat\<close>\<^emph>\<open>K\<close> into \<open>nwt\<close> with the weights \<open>decay_weight[K]\<close> for \<open>nwt\<close> and
  \<open>apply_weight[K]\<close> for \<open>nwt_hat\<close>\<^emph>\<open>K\<close>: the entries at the index of the operation. There are no
  other \<^verbatim>\<open>ProcessBatches\<close> or \<^verbatim>\<open>MergeModel\<close> calls.
\<close>

theorem FitOnline_async_merge_weights:
  fixes w :: "('f::zero, 'sd) world" and args :: "'f FitOnlineMasterModelArgs"
  defines "N \<equiv> max 1 (length (fo_update_after args))"
  defines "iter \<equiv> new_OnlineBatchesIterator (fo_batch_filename args) (fo_batch_weight args)
                     (fo_update_after args) (fo_apply_weight args) (fo_decay_weight args)"
  assumes run: "FitOnline k args w = (Ok u, w')" and async: "fo_async args"
    and cfg: "config w = Some cfg"
  shows "merge_calls (history w') =
           merge_calls (history w) @ map (async_merge_call (new_ArtmExecutor k cfg) iter) [0 ..< N] \<and>
         process_calls (history w') =
           process_calls (history w) @
           map (async_process_call (new_ArtmExecutor k cfg) iter (next_addr w)) [0 ..< N]"
proof -
  let ?ex = "new_ArtmExecutor k cfg"
  from run async cfg obtain r where
    e: "ExecuteAsyncOnlineAlgorithm k iter ?ex w = (Ok r, w')"
    by (auto simp: FitOnline_def Let_def bind_eq_Ok iter_def)
  have N': "N = max 1 (length (it_update_after iter))"
    by (simp add: N_def iter_def new_OnlineBatchesIterator_def)
  have c: "calls (history w') =
     calls (history w) @ [Call_ClearScoreCache, async_process_call ?ex iter (next_addr w) 0] @
     concat (map (async_iteration_calls ?ex iter (next_addr w) N) [0 ..< N])"
    by (rule ExecuteAsyncOnlineAlgorithm_calls[OF e _ _ N'])
       (simp_all add: iter_def new_OnlineBatchesIterator_def new_ArtmExecutor_def)
  have m0: "merge_calls [Call_ClearScoreCache, async_process_call ?ex iter (next_addr w) 0] = []"
    by (simp add: merge_calls_def async_process_call_def)
  have p0: "process_calls [Call_ClearScoreCache, async_process_call ?ex iter (next_addr w) 0] =
              [async_process_call ?ex iter (next_addr w) 0]"
    by (simp add: process_calls_def async_process_call_def)
  have m: "merge_calls (history w') =
           merge_calls (history w) @ map (async_merge_call ?ex iter) [0 ..< N]"
    using arg_cong[OF c, of merge_calls]
    by (simp add: merge_calls_concat m0 del: append_Cons upt_Suc)
  have "0 < N" by (simp add: N_def)
  then have u: "[0 ..< N] = 0 # map Suc [0 ..< N - 1]"
    by (cases N) (simp_all add: upt_conv_Cons map_Suc_upt del: upt_Suc)
  have p: "process_calls (history w') =
           process_calls (history w) @
           map (async_process_call ?ex iter (next_addr w)) [0 ..< N]"
    using arg_cong[OF c, of process_calls]
    by (subst u) (simp add: process_calls_concat filter_upt_below p0 comp_def
          del: append_Cons upt_Suc)
  from m p show ?thesis by simp
qed


subsection \<open>Two concrete runs\<close>

lemma bind_weak_cong: "r = r' \<Longrightarrow> bind r f = bind r' f"
  by simp

lemmas run_defs =
  RequestProcessBatchesImpl_def Let_def GetPhiMatrixSafe_def GetPhiMatrix_def install_nwt_target_def
  enqueue_tasks_def enqueue_batch_filename.simps enqueue_batch.simps
  wait_and_request_theta_def wait_until_processed.simps createProcessorInput_def Get_def
  push_def IsEverythingProcessed_def sleep_def complete_task_def
  theta_cache_manager_ptr_of_def ptdw_cache_manager_ptr_of_def example_config_def
  example_registry_world_def example_world_def example_args_def example_matrix_def
  example_kernels_def insert_Diff_if
  new_ArtmExecutor_def ProcessBatches_def AsyncProcessBatches_def Await_def Regularize_def
  Normalize_def StoreScores_def Merge_def Dispose_def MergeModel_def RegularizeModel_def
  NormalizeModel_def DisposeModel_def ClearScoreCache_def new_object_def record_event_def
  SetPhiMatrix_def Reshape_def DensePhiMatrix_def token_size_def topic_size_def
  offline_iter_move_def offline_move_def


lemma example_async_run:
  "fst (FitOnline example_kernels example_online_args example_online_world) = Ok ()"
  by (simp add: FitOnline_def ExecuteAsyncOnlineAlgorithm_def async_loop.simps async_body_def
      run_defs move_def move_loop.simps int_to_unsigned_def unsigned_to_int_def apply_weight_def
      decay_weight_def iter_more_def new_OnlineBatchesIterator_def StringIndex_def
      lexical_cast_def string_of_nat.simps reset_def example_online_args_def
      example_online_world_def
      cong: bind_weak_cong)



lemma digit_chars: "char_of (48 :: nat) = CHR ''0''" "char_of (49 :: nat) = CHR ''1''"
  by code_simp+

lemma example_async_run_returns:
  "FitOnline example_kernels example_online_args example_online_world =
     (Ok (), snd (FitOnline example_kernels example_online_args example_online_world))"
  using example_async_run by (metis prod.collapse)

theorem FitOnline_async_merge_weights_witness:
  "merge_calls (history (snd (FitOnline example_kernels example_online_args
                                example_online_world))) =
     [Call_MergeModel
        \<lparr>mm_nwt_source_name = [''nwt'', ''nwt_hat0''], mm_source_weight = [7, 5],
         mm_nwt_target_name = ''nwt'', mm_topic_name = []\<rparr>,
      Call_MergeModel
        \<lparr>mm_nwt_source_name = [''nwt'', ''nwt_hat1''], mm_source_weight = [8, 6],
         mm_nwt_target_name = ''nwt'', mm_topic_name = []\<rparr>] \<and>
   process_calls (history (snd (FitOnline example_kernels example_online_args
                                  example_online_world))) =
     [Call_ProcessBatches ''pwt'' (Some ''nwt_hat0'') [''b1''] [1] True 0 None,
      Call_ProcessBatches ''pwt'' (Some ''nwt_hat1'') [''b2''] [1] True 1 None]"
  using FitOnline_async_merge_weights[OF example_async_run_returns, of example_config]
  by (simp add: example_online_args_def example_online_world_def example_registry_world_def
      example_world_def merge_calls_def process_calls_def async_merge_call_def
      async_process_call_def async_pwt_active_def online_group_def int_to_unsigned_def
      new_OnlineBatchesIterator_def new_ArtmExecutor_def example_config_def StringIndex_def
      lexical_cast_def string_of_nat.simps upt_conv_Cons digit_chars)


end
